theory Spec2Isabelle
  imports Complex_Main "HOL-Library.Word"
begin

section \<open>JavaScript values\<close>

text \<open>
  A JavaScript string is a sequence of UTF-16 code units, and \<open>.length\<close> counts them.
  Literals of the source that are plain ASCII are written with \<open>str\<close>; the few
  non-ASCII characters of the default templates are given by their code units.
\<close>

type_synonym jsstring = "16 word list"

definition str :: "string \<Rightarrow> jsstring" where
  "str s = map (\<lambda>c. of_nat (of_char c)) s"

text \<open>
  The values that the fields of a template, the arguments of the operations and the
  stored documents hold: \<open>undefined\<close>, \<open>null\<close>, booleans, finite numbers, strings, arrays and
  plain objects (an object is the list of its own properties in their order; it has no
  methods of its own, and its prototype is \<open>Object.prototype\<close>). Everything \<open>JSON.parse\<close>
  can return is of this form.
\<close>

datatype jsval =
    Undefined
  | Null
  | Bool bool
  | Num real
  | Str jsstring
  | Arr "jsval list"
  | Obj "(jsstring \<times> jsval) list"

text \<open>Truthiness, as used by \<open>!x\<close>, \<open>x && y\<close>, \<open>x || y\<close> and \<open>x ? a : b\<close>.\<close>

fun truthy :: "jsval \<Rightarrow> bool" where
  "truthy Undefined = False"
| "truthy Null = False"
| "truthy (Bool b) = b"
| "truthy (Num x) = (x \<noteq> 0)"
| "truthy (Str s) = (s \<noteq> [])"
| "truthy (Arr xs) = True"
| "truthy (Obj kvs) = True"

text \<open>
  What can be thrown. The first constructors are \<open>Error\<close> objects: those of the runtime
  and those that the repository makes with \<open>new Error(...)\<close>; \<open>DatosCorruptos e\<close> is the
  error re-thrown by \<open>_procesarDatosGuardados\<close> around the error \<open>e\<close> it caught.
  \<open>Valor v\<close> is the value \<open>v\<close> thrown by code of the page (a subscriber, or a method that
  the page has put on a Template object): \<open>throw null\<close> is \<open>Valor Null\<close>.
\<close>

datatype js_error =
    TypeError
  | RangeError
  | SyntaxError
  | NoEsTemplate
  | PlantillaIncompleta
  | PlantillaNoEncontrada
  | CallbackNoEsFuncion
  | EstructuraInvalida
  | DatosDemasiadoGrandes
  | DatosCorruptos js_error
  | Valor jsval

text \<open>
  Property read \<open>v.k\<close> for the property names that the code reads from such values
  (\<open>length\<close>, \<open>message\<close> and the names of the stored documents; none of them is an array
  index or a name inherited from a prototype): reading from \<open>undefined\<close> or \<open>null\<close> throws
  a TypeError, a missing property is \<open>undefined\<close>, strings and arrays have \<open>length\<close>.
\<close>

fun propiedad :: "jsval \<Rightarrow> jsstring \<Rightarrow> js_error + jsval" where
  "propiedad Undefined k = Inl TypeError"
| "propiedad Null k = Inl TypeError"
| "propiedad (Bool b) k = Inr Undefined"
| "propiedad (Num x) k = Inr Undefined"
| "propiedad (Str s) k = Inr (if k = str ''length'' then Num (of_nat (length s)) else Undefined)"
| "propiedad (Arr xs) k = Inr (if k = str ''length'' then Num (of_nat (length xs)) else Undefined)"
| "propiedad (Obj kvs) k = Inr (case map_of kvs k of None \<Rightarrow> Undefined | Some v \<Rightarrow> v)"

text \<open>
  Every \<open>catch (error)\<close> block of the repository but one begins by reading
  \<open>error.message\<close>. \<open>lee_message e\<close> is the exception that this read raises, if it raises
  one: it does when the value caught is \<open>null\<close> or \<open>undefined\<close>.
\<close>

fun lee_message :: "js_error \<Rightarrow> js_error option" where
  "lee_message (Valor v) = (case propiedad v (str ''message'') of Inl e \<Rightarrow> Some e | Inr m \<Rightarrow> None)"
| "lee_message e = None"

text \<open>\<open>typeof v === 'object'\<close> and \<open>Array.isArray(v)\<close>.\<close>

fun typeof_object :: "jsval \<Rightarrow> bool" where
  "typeof_object Null = True"
| "typeof_object (Arr xs) = True"
| "typeof_object (Obj kvs) = True"
| "typeof_object v = False"

fun isArray :: "jsval \<Rightarrow> bool" where
  "isArray (Arr xs) = True"
| "isArray v = False"

text \<open>A \<open>Date\<close> object: its time value in milliseconds, or an invalid date.\<close>

datatype fecha = FechaInvalida | Fecha int

text \<open>
  What the JavaScript runtime provides and the repository only calls. The operations
  below take it as a parameter; nothing is assumed about it except where a theorem says so.
  \<^item> \<open>json_parse\<close>: \<open>JSON.parse\<close>, \<open>None\<close> when it throws a SyntaxError;
  \<^item> \<open>json_stringify\<close>: \<open>JSON.stringify\<close>;
  \<^item> \<open>fecha_de\<close>: \<open>new Date(v)\<close> for a value \<open>v\<close> that is not an object;
  \<^item> \<open>iso_de\<close>: \<open>toISOString()\<close> of a valid date;
  \<^item> \<open>reloj n\<close>, \<open>azar n\<close>: what the clock (\<open>Date.now()\<close>, \<open>new Date()\<close>) and
    \<open>Math.random()\<close> give at the \<open>n\<close>-th reading of the environment;
  \<^item> \<open>suma\<close>: the sum of two numbers as the runtime computes it, rounded to a double;
  \<^item> \<open>numero_a_cadena\<close>: the conversion of a number to a string;
  \<^item> \<open>minusculas\<close>: \<open>toLowerCase()\<close>;
  \<^item> \<open>heredada k\<close>: for a name \<open>k\<close> that every object inherits from \<open>Object.prototype\<close>
    (\<open>constructor\<close>, \<open>toString\<close>, ...), the text that the inherited value converts to.
\<close>

record plataforma =
  json_parse :: "jsstring \<Rightarrow> jsval option"
  json_stringify :: "jsval \<Rightarrow> jsstring"
  fecha_de :: "jsval \<Rightarrow> fecha"
  iso_de :: "int \<Rightarrow> jsstring"
  reloj :: "nat \<Rightarrow> int"
  azar :: "nat \<Rightarrow> real"
  suma :: "real \<Rightarrow> real \<Rightarrow> real"
  numero_a_cadena :: "real \<Rightarrow> jsstring"
  minusculas :: "jsstring \<Rightarrow> jsstring"
  heredada :: "jsstring \<Rightarrow> jsstring option"

text \<open>
  The conversion of a value to a string, which is also its conversion to a property key.
  An array is converted by \<open>join\<close>: its elements, converted in turn (\<open>null\<close> and \<open>undefined\<close>
  as the empty string), with commas between them. A plain object is \<open>[object Object]\<close>
  unless it has a property \<open>toString\<close> of its own: that property is not a function, the
  inherited \<open>valueOf\<close> returns the object itself, and the conversion throws a TypeError.
\<close>

fun unir :: "(js_error + jsstring) list \<Rightarrow> js_error + jsstring" where
  "unir [] = Inr []"
| "unir [x] = x"
| "unir (x # y # ys) =
     (case x of
        Inl e \<Rightarrow> Inl e
      | Inr s \<Rightarrow> (case unir (y # ys) of Inl e \<Rightarrow> Inl e | Inr t \<Rightarrow> Inr (s @ str '','' @ t)))"

fun a_cadena :: "plataforma \<Rightarrow> jsval \<Rightarrow> js_error + jsstring" where
  "a_cadena P Undefined = Inr (str ''undefined'')"
| "a_cadena P Null = Inr (str ''null'')"
| "a_cadena P (Bool b) = Inr (if b then str ''true'' else str ''false'')"
| "a_cadena P (Num x) = Inr (numero_a_cadena P x)"
| "a_cadena P (Str s) = Inr s"
| "a_cadena P (Arr xs) =
     unir (map (\<lambda>x. if x = Undefined \<or> x = Null then Inr [] else a_cadena P x) xs)"
| "a_cadena P (Obj kvs) =
     (if map_of kvs (str ''toString'') \<noteq> None then Inl TypeError else Inr (str ''[object Object]''))"

definition clave :: "plataforma \<Rightarrow> jsval \<Rightarrow> js_error + jsstring" where
  "clave P v = a_cadena P v"

text \<open>
  \<open>new Date(v)\<close>: an object is first converted to a primitive, which for arrays and plain
  objects is their string, and that conversion may throw.
\<close>

definition nueva_fecha :: "plataforma \<Rightarrow> jsval \<Rightarrow> js_error + fecha" where
  "nueva_fecha P v =
     (if typeof_object v \<and> v \<noteq> Null then
        (case a_cadena P v of Inl e \<Rightarrow> Inl e | Inr s \<Rightarrow> Inr (fecha_de P (Str s)))
      else Inr (fecha_de P v))"

section \<open>Template\<close>

text \<open>
  A Template object: its six data properties and the \<open>getEstadoLocal\<close> that a call on the
  object finds, which is the method of the class unless the page has put a function of
  its own on the object; of such a function the model keeps whether it returns or what
  it throws. The identifier is a number and the creation date a \<open>Date\<close>, as the
  constructor and \<open>_deserializarPlantilla\<close> make them.
\<close>

datatype metodo = DeLaClase | Devuelve | Lanza js_error

record template =
  titulo :: jsval
  mensaje :: jsval
  hashtag :: jsval
  categoria :: jsval
  fechaCreacion :: fecha
  idT :: real
  metodo_estado :: metodo

text \<open>\<open>esValida\<close>: the conjunction \<open>titulo && mensaje && hashtag && categoria\<close>, read as a boolean.\<close>

definition esValida :: "template \<Rightarrow> bool" where
  "esValida t \<longleftrightarrow> truthy (titulo t) \<and> truthy (mensaje t) \<and> truthy (hashtag t) \<and> truthy (categoria t)"

record estado_local =
  el_id :: real
  el_titulo :: jsval
  el_categoria :: jsval
  el_hashtag :: jsval
  el_longitud :: jsval
  el_fechaCreacion :: fecha

text \<open>
  \<open>t.getEstadoLocal()\<close>. The method of the class reads \<open>this.mensaje.length\<close>, which throws
  when the message is \<open>undefined\<close> or \<open>null\<close>. \<open>None\<close> is whatever a function that the page
  has put on the object returns.
\<close>

definition getEstadoLocal :: "template \<Rightarrow> js_error + estado_local option" where
  "getEstadoLocal t =
     (case metodo_estado t of
        Lanza e \<Rightarrow> Inl e
      | Devuelve \<Rightarrow> Inr None
      | DeLaClase \<Rightarrow>
          (case propiedad (mensaje t) (str ''length'') of
             Inl e \<Rightarrow> Inl e
           | Inr n \<Rightarrow> Inr (Some \<lparr>el_id = idT t, el_titulo = titulo t, el_categoria = categoria t,
                                  el_hashtag = hashtag t, el_longitud = n,
                                  el_fechaCreacion = fechaCreacion t\<rparr>)))"

section \<open>The state of the page\<close>

text \<open>
  What the model takes from the page and what it leaves out:
  \<^item> \<open>localStorage\<close> is a map from keys to strings whose \<open>getItem\<close>, \<open>setItem\<close> and
    \<open>removeItem\<close> do not throw;
  \<^item> the notification function of the page (\<open>window.mostrarNotificacion\<close>) does not throw;
  \<^item> of the console, the calls of \<open>console.error\<close> and \<open>console.warn\<close> are kept, those of
    \<open>console.log\<close> are not, except that an argument of \<open>console.log\<close> that can throw is
    evaluated (\<open>getEstadoLocal\<close> in the Store);
  \<^item> \<open>persistence.js\<close> is loaded, so that \<open>typeof Persistence !== 'undefined'\<close> holds;
  \<^item> arrays and Template objects live on a heap and are handed around by reference:
    whoever holds a Template object can change its properties, and whoever holds an
    array can change it in place;
  \<^item> the data properties of a Template object are plain properties, and \<open>esValida\<close> is the
    method of the class;
  \<^item> a callback returns or throws; it does not run forever.
\<close>

datatype aviso =
    AvisoGuardadas
  | AvisoErrorGuardar
  | AvisoCargadas nat
  | AvisoErrorCargar
  | AvisoRecuperadas
  | AvisoEliminadas

datatype diagnostico =
    ErrorLog js_error
  | VersionDistinta

text \<open>
  Everything the operations read and write:
  \<^item> \<open>almacen\<close>: \<open>localStorage\<close>;
  \<^item> \<open>consola\<close>: what \<open>console.error\<close> and \<open>console.warn\<close> received, oldest first;
  \<^item> \<open>avisos\<close>: the messages handed to the notification sink with their kind;
  \<^item> \<open>lecturas\<close>: how many times the clock and the random source have been read;
  \<^item> \<open>objetos\<close>, \<open>libre\<close>: the Template objects on the heap, by reference, and the next
    free reference;
  \<^item> \<open>monton\<close>, \<open>siguiente\<close>: the arrays of Template objects on the heap, by address, each
    the list of the references it holds, and the next free address (an array literal, a
    spread, \<open>filter\<close> and \<open>map\<close> each make a new array);
  \<^item> \<open>plantillas\<close>, \<open>ultimaActualizacion\<close>, \<open>persistenciaHabilitada\<close>: \<open>Store._state\<close>,
    the first being the address of the Store's array;
  \<^item> \<open>suscriptores\<close>: the contents of the array \<open>Store._suscriptores\<close>, each callback
    standing by its identity (a number);
  \<^item> \<open>pagina\<close>: the rest of the page, of any type: the document and the variables that
    the callbacks use. The repository's operations never touch it.
\<close>

record 'p mundo =
  almacen :: "string \<rightharpoonup> jsstring"
  consola :: "diagnostico list"
  avisos :: "(aviso \<times> string) list"
  lecturas :: nat
  objetos :: "nat \<Rightarrow> template"
  libre :: nat
  monton :: "nat \<Rightarrow> nat list"
  siguiente :: nat
  plantillas :: nat
  ultimaActualizacion :: int
  persistenciaHabilitada :: bool
  suscriptores :: "nat list"
  pagina :: 'p

text \<open>The templates that an array holds, as they are in the state \<open>w\<close>; the references
  in the Store's array, and the Store's templates.\<close>

definition leer_arreglo :: "'p mundo \<Rightarrow> nat \<Rightarrow> template list" where
  "leer_arreglo w a = map (objetos w) (monton w a)"

definition referencias :: "'p mundo \<Rightarrow> nat list" where
  "referencias w = monton w (plantillas w)"

definition contenido :: "'p mundo \<Rightarrow> template list" where
  "contenido w = map (objetos w) (referencias w)"

definition nuevo_arreglo :: "nat list \<Rightarrow> 'p mundo \<Rightarrow> nat \<times> 'p mundo" where
  "nuevo_arreglo rs w =
     (siguiente w, w\<lparr>monton := (monton w)(siguiente w := rs), siguiente := Suc (siguiente w)\<rparr>)"

definition nuevo_objeto :: "template \<Rightarrow> 'p mundo \<Rightarrow> nat \<times> 'p mundo" where
  "nuevo_objeto t w =
     (libre w, w\<lparr>objetos := (objetos w)(libre w := t), libre := Suc (libre w)\<rparr>)"

text \<open>\<open>new Date()\<close> and \<open>Date.now() + Math.random()\<close>: one reading of the environment each.\<close>

definition ahora :: "plataforma \<Rightarrow> 'p mundo \<Rightarrow> int \<times> 'p mundo" where
  "ahora P w = (reloj P (lecturas w), w\<lparr>lecturas := Suc (lecturas w)\<rparr>)"

definition id_nuevo :: "plataforma \<Rightarrow> 'p mundo \<Rightarrow> real \<times> 'p mundo" where
  "id_nuevo P w =
     (suma P (real_of_int (reloj P (lecturas w))) (azar P (lecturas w)),
      w\<lparr>lecturas := Suc (lecturas w)\<rparr>)"

text \<open>
  The constructor of \<open>Template\<close>: the creation date defaults to \<open>new Date()\<close> when the fifth
  argument is absent, and the identifier is always \<open>Date.now() + Math.random()\<close>. It
  returns the reference of the new object.
\<close>

definition Template :: "plataforma \<Rightarrow> jsval \<Rightarrow> jsval \<Rightarrow> jsval \<Rightarrow> jsval \<Rightarrow> fecha option \<Rightarrow> 'p mundo
    \<Rightarrow> nat \<times> 'p mundo" where
  "Template P ti me ha ca fe w =
     (let (f, w1) = (case fe of None \<Rightarrow> (let (d, w') = ahora P w in (Fecha d, w')) | Some d \<Rightarrow> (d, w));
          (i, w2) = id_nuevo P w1
      in nuevo_objeto \<lparr>titulo = ti, mensaje = me, hashtag = ha, categoria = ca, fechaCreacion = f,
                      idT = i, metodo_estado = DeLaClase\<rparr> w2)"

text \<open>
  \<open>console.error\<close> and \<open>console.warn\<close>; and the beginning of a \<open>catch\<close> block: when reading
  \<open>error.message\<close> throws, that exception leaves the function; otherwise the error is
  logged and the block goes on.
\<close>

definition registrar :: "diagnostico \<Rightarrow> 'p mundo \<Rightarrow> 'p mundo" where
  "registrar d w = w\<lparr>consola := consola w @ [d]\<rparr>"

definition capturar :: "js_error \<Rightarrow> 'p mundo \<Rightarrow> ('p mundo \<Rightarrow> (js_error + 'a) \<times> 'p mundo)
    \<Rightarrow> (js_error + 'a) \<times> 'p mundo" where
  "capturar e w seguir =
     (case lee_message e of
        Some e' \<Rightarrow> (Inl e', w)
      | None \<Rightarrow> seguir (registrar (ErrorLog e) w))"


section \<open>Persistence\<close>

definition STORAGE_KEY :: string where
  "STORAGE_KEY = ''whatsapp_templates_data''"

definition BACKUP_KEY :: string where
  "BACKUP_KEY = ''whatsapp_templates_backup''"

definition VERSION :: jsstring where
  "VERSION = str ''1.0''"

definition MAX_STORAGE_SIZE :: nat where
  "MAX_STORAGE_SIZE = 5 * 1024 * 1024"

text \<open>\<open>_mostrarNotificacionPersistencia\<close>: the message goes to the page's notification
  function when there is one and to the console otherwise; either way it is recorded.\<close>

definition mostrarNotificacionPersistencia :: "aviso \<Rightarrow> string \<Rightarrow> 'p mundo \<Rightarrow> 'p mundo" where
  "mostrarNotificacionPersistencia m tipo w = w\<lparr>avisos := avisos w @ [(m, tipo)]\<rparr>"

text \<open>\<open>_serializarPlantilla\<close>: \<open>toISOString()\<close> throws a RangeError on an invalid date.\<close>

definition serializarPlantilla :: "plataforma \<Rightarrow> template \<Rightarrow> js_error + jsval" where
  "serializarPlantilla P t =
     (case fechaCreacion t of
        FechaInvalida \<Rightarrow> Inl RangeError
      | Fecha d \<Rightarrow> Inr (Obj [(str ''id'', Num (idT t)),
                            (str ''titulo'', titulo t),
                            (str ''mensaje'', mensaje t),
                            (str ''hashtag'', hashtag t),
                            (str ''categoria'', categoria t),
                            (str ''fechaCreacion'', Str (iso_de P d))]))"

text \<open>\<open>xs.map(f)\<close> where \<open>f\<close> may throw: the first exception ends the loop.\<close>

fun mapear :: "('a \<Rightarrow> js_error + 'b) \<Rightarrow> 'a list \<Rightarrow> js_error + 'b list" where
  "mapear f [] = Inr []"
| "mapear f (x # xs) =
     (case f x of
        Inl e \<Rightarrow> Inl e
      | Inr y \<Rightarrow> (case mapear f xs of Inl e \<Rightarrow> Inl e | Inr ys \<Rightarrow> Inr (y # ys)))"

text \<open>
  The histogram of the categories is an object that starts empty and receives
  \<open>acc[c] = (acc[c] || 0) + 1\<close> for the category \<open>c\<close> of each template in turn
  (\<open>_obtenerCategorias\<close>, and the loop of \<open>getEstadisticas\<close>).
  The key is the category converted to a property key, which may throw. The properties of
  an object are listed with the array indices first, in ascending order, and the other
  names after them in the order in which they were added. A name that the object
  inherits is read as the inherited value, which is truthy and not a number: adding \<open>1\<close>
  to it gives its text followed by \<open>1\<close>; assigning to \<open>__proto__\<close> leaves the object as
  it is. So the values of the histogram are numbers and strings.
\<close>

definition es_digito :: "16 word \<Rightarrow> bool" where
  "es_digito u \<longleftrightarrow> 48 \<le> unat u \<and> unat u \<le> 57"

definition indice :: "jsstring \<Rightarrow> nat option" where
  "indice k =
     (if k = [] \<or> \<not> list_all es_digito k \<or> (hd k = 48 \<and> 1 < length k) then None
      else (let n = foldl (\<lambda>a u. 10 * a + (unat u - 48)) 0 k
            in if n < 4294967295 then Some n else None))"

fun insertar :: "jsstring \<Rightarrow> jsval \<Rightarrow> (jsstring \<times> jsval) list \<Rightarrow> (jsstring \<times> jsval) list" where
  "insertar k v [] = [(k, v)]"
| "insertar k v ((k', v') # kvs) =
     (case indice k of
        None \<Rightarrow> (k', v') # insertar k v kvs
      | Some n \<Rightarrow>
          (case indice k' of
             None \<Rightarrow> (k, v) # (k', v') # kvs
           | Some n' \<Rightarrow> if n < n' then (k, v) # (k', v') # kvs else (k', v') # insertar k v kvs))"

fun mas_uno :: "jsval \<Rightarrow> jsval" where
  "mas_uno (Num n) = Num (n + 1)"
| "mas_uno (Str s) = Str (s @ str ''1'')"
| "mas_uno v = v"

definition contar :: "plataforma \<Rightarrow> jsstring \<Rightarrow> (jsstring \<times> jsval) list \<Rightarrow> (jsstring \<times> jsval) list" where
  "contar P k acc =
     (case map_of acc k of
        Some v \<Rightarrow> map (\<lambda>(k', v'). if k' = k then (k', mas_uno v') else (k', v')) acc
      | None \<Rightarrow>
          if k = str ''__proto__'' then acc
          else (case heredada P k of
                  None \<Rightarrow> insertar k (Num 1) acc
                | Some s \<Rightarrow> insertar k (Str (s @ str ''1'')) acc))"

fun acumular :: "plataforma \<Rightarrow> (jsstring \<times> jsval) list \<Rightarrow> template list
    \<Rightarrow> js_error + (jsstring \<times> jsval) list" where
  "acumular P acc [] = Inr acc"
| "acumular P acc (plantilla # ps) =
     (case clave P (categoria plantilla) of
        Inl e \<Rightarrow> Inl e
      | Inr k \<Rightarrow> acumular P (contar P k acc) ps)"

definition obtenerCategorias :: "plataforma \<Rightarrow> template list \<Rightarrow> js_error + (jsstring \<times> jsval) list" where
  "obtenerCategorias P ps = acumular P [] ps"

definition verificarTamanoStorage :: "jsstring \<Rightarrow> bool" where
  "verificarTamanoStorage datos \<longleftrightarrow> length datos < MAX_STORAGE_SIZE"

definition crearBackup :: "'p mundo \<Rightarrow> 'p mundo" where
  "crearBackup w =
     (case almacen w STORAGE_KEY of
        None \<Rightarrow> w
      | Some datosActuales \<Rightarrow>
          if datosActuales \<noteq> [] then w\<lparr>almacen := (almacen w)(BACKUP_KEY \<mapsto> datosActuales)\<rparr> else w)"

text \<open>The envelope \<open>datosParaGuardar\<close>, from the time stamp, the serialized templates and
  the histogram.\<close>

definition datosParaGuardar :: "plataforma \<Rightarrow> int \<Rightarrow> nat \<Rightarrow> jsval list \<Rightarrow> (jsstring \<times> jsval) list \<Rightarrow> jsval" where
  "datosParaGuardar P d n ss cats =
     Obj [(str ''version'', Str VERSION),
          (str ''timestamp'', Str (iso_de P d)),
          (str ''plantillas'', Arr ss),
          (str ''metadata'',
             Obj [(str ''total'', Num (of_nat n)),
                  (str ''categorias'', Obj cats)])]"

text \<open>
  \<open>guardarPlantillas\<close>. Its argument is an array that it only reads, given here as the
  list of the templates in it. First the \<open>try\<close> block, where \<open>Inl\<close> is the exception that
  reaches the \<open>catch\<close>: the clock is read, the templates are serialized, then the
  histogram is made. Then the whole function, where \<open>Inl\<close> would be an exception that
  reaches the caller.
\<close>

definition guardarPlantillas_try :: "plataforma \<Rightarrow> template list \<Rightarrow> 'p mundo \<Rightarrow> (js_error + bool) \<times> 'p mundo" where
  "guardarPlantillas_try P ps w =
     (let (d, w1) = ahora P w in
      case mapear (serializarPlantilla P) ps of
        Inl e \<Rightarrow> (Inl e, w1)
      | Inr ss \<Rightarrow>
          (case obtenerCategorias P ps of
             Inl e \<Rightarrow> (Inl e, w1)
           | Inr cats \<Rightarrow>
               (let jsonString = json_stringify P (datosParaGuardar P d (length ps) ss cats) in
                if verificarTamanoStorage jsonString then
                  (let w2 = crearBackup w1;
                       w3 = w2\<lparr>almacen := (almacen w2)(STORAGE_KEY \<mapsto> jsonString)\<rparr>
                   in (Inr True, mostrarNotificacionPersistencia AvisoGuardadas ''success'' w3))
                else (Inl DatosDemasiadoGrandes, w1))))"

definition guardarPlantillas :: "plataforma \<Rightarrow> template list \<Rightarrow> 'p mundo \<Rightarrow> (js_error + bool) \<times> 'p mundo" where
  "guardarPlantillas P ps w =
     (case guardarPlantillas_try P ps w of
        (Inr b, w1) \<Rightarrow> (Inr b, w1)
      | (Inl e, w1) \<Rightarrow>
          capturar e w1
            (\<lambda>w2. (Inr False, mostrarNotificacionPersistencia AvisoErrorGuardar ''error'' w2)))"

text \<open>A property read that cannot throw because the guard before it has excluded
  \<open>undefined\<close> and \<open>null\<close>.\<close>

definition leer :: "jsval \<Rightarrow> string \<Rightarrow> jsval" where
  "leer v k = (case propiedad v (str k) of Inl e \<Rightarrow> Undefined | Inr x \<Rightarrow> x)"

text \<open>The test applied to each entry by \<open>_validarEstructuraDatos\<close>.\<close>

definition entrada_valida :: "jsval \<Rightarrow> bool" where
  "entrada_valida plantilla \<longleftrightarrow>
     truthy plantilla \<and> typeof_object plantilla \<and>
     truthy (leer plantilla ''titulo'') \<and> truthy (leer plantilla ''mensaje'') \<and>
     truthy (leer plantilla ''hashtag'') \<and> truthy (leer plantilla ''categoria'')"

fun elementos :: "jsval \<Rightarrow> jsval list" where
  "elementos (Arr xs) = xs"
| "elementos v = []"

definition validarEstructuraDatos :: "jsval \<Rightarrow> 'p mundo \<Rightarrow> bool \<times> 'p mundo" where
  "validarEstructuraDatos datos w =
     (if \<not> truthy datos \<or> \<not> typeof_object datos then (False, w)
      else if \<not> truthy (leer datos ''version'') \<or> \<not> truthy (leer datos ''plantillas'')
              \<or> \<not> isArray (leer datos ''plantillas'') then (False, w)
      else (list_all entrada_valida (elementos (leer datos ''plantillas'')),
            if leer datos ''version'' \<noteq> Str VERSION then registrar VersionDistinta w else w))"

text \<open>\<open>_deserializarPlantilla\<close>: the identifier of the record is not read; the constructor
  gives the new template its own. \<open>new Date(datos.fechaCreacion)\<close> is evaluated before
  the constructor is called, and may throw.\<close>

definition deserializarPlantilla :: "plataforma \<Rightarrow> jsval \<Rightarrow> 'p mundo \<Rightarrow> (js_error + nat) \<times> 'p mundo" where
  "deserializarPlantilla P datos w =
     (case propiedad datos (str ''titulo'') of Inl e \<Rightarrow> (Inl e, w) | Inr ti \<Rightarrow>
     (case propiedad datos (str ''mensaje'') of Inl e \<Rightarrow> (Inl e, w) | Inr me \<Rightarrow>
     (case propiedad datos (str ''hashtag'') of Inl e \<Rightarrow> (Inl e, w) | Inr ha \<Rightarrow>
     (case propiedad datos (str ''categoria'') of Inl e \<Rightarrow> (Inl e, w) | Inr ca \<Rightarrow>
     (case propiedad datos (str ''fechaCreacion'') of Inl e \<Rightarrow> (Inl e, w) | Inr fe \<Rightarrow>
     (case nueva_fecha P fe of Inl e \<Rightarrow> (Inl e, w) | Inr f \<Rightarrow>
        (let (r, w1) = Template P ti me ha ca (Some f) w in (Inr r, w1))))))))"

text \<open>The \<open>map\<close> with its inner \<open>try\<close>/\<open>catch\<close> followed by the \<open>filter\<close>: an entry whose
  deserialization throws is logged and left out. The result lists the references of
  the templates that were made.\<close>

fun deserializarTodas :: "plataforma \<Rightarrow> jsval list \<Rightarrow> 'p mundo \<Rightarrow> (js_error + nat list) \<times> 'p mundo" where
  "deserializarTodas P [] w = (Inr [], w)"
| "deserializarTodas P (x # xs) w =
     (case deserializarPlantilla P x w of
        (Inl e, w1) \<Rightarrow> capturar e w1 (deserializarTodas P xs)
      | (Inr r, w1) \<Rightarrow>
          (case deserializarTodas P xs w1 of
             (Inl e, w2) \<Rightarrow> (Inl e, w2)
           | (Inr rs, w2) \<Rightarrow> (Inr (r # rs), w2)))"

text \<open>\<open>_procesarDatosGuardados\<close>: its \<open>try\<close> block, which returns the address of the array
  that \<open>filter\<close> makes, then the function, whose \<open>catch\<close> throws a new error.\<close>

definition procesarDatosGuardados_try :: "plataforma \<Rightarrow> jsstring \<Rightarrow> 'p mundo \<Rightarrow> (js_error + nat) \<times> 'p mundo" where
  "procesarDatosGuardados_try P datosString w =
     (case json_parse P datosString of
        None \<Rightarrow> (Inl SyntaxError, w)
      | Some datos \<Rightarrow>
          (let (ok, w1) = validarEstructuraDatos datos w in
           if \<not> ok then (Inl EstructuraInvalida, w1)
           else (case propiedad datos (str ''plantillas'') of
                   Inr (Arr xs) \<Rightarrow>
                     (case deserializarTodas P xs w1 of
                        (Inl e, w2) \<Rightarrow> (Inl e, w2)
                      | (Inr rs, w2) \<Rightarrow> (let (a, w3) = nuevo_arreglo rs w2 in (Inr a, w3)))
                 | _ \<Rightarrow> (Inl TypeError, w1))))"

definition procesarDatosGuardados :: "plataforma \<Rightarrow> jsstring \<Rightarrow> 'p mundo \<Rightarrow> (js_error + nat) \<times> 'p mundo" where
  "procesarDatosGuardados P datosString w =
     (case procesarDatosGuardados_try P datosString w of
        (Inr a, w1) \<Rightarrow> (Inr a, w1)
      | (Inl e, w1) \<Rightarrow> capturar e w1 (\<lambda>w2. (Inl (DatosCorruptos e), w2)))"

text \<open>The texts of the two default templates.\<close>

definition titulo_bienvenida :: jsstring where
  "titulo_bienvenida = str ''Bienvenida Autom'' @ [0xE1] @ str ''tica''"

definition mensaje_bienvenida :: jsstring where
  "mensaje_bienvenida =
     [0xA1] @ str ''Hola! '' @ [0xD83D, 0xDC4B]
     @ str '' Gracias por contactarnos. Te responderemos en breve. ''
     @ [0xBF] @ str ''En qu'' @ [0xE9] @ str '' podemos ayudarte?''"

definition titulo_confirmacion :: jsstring where
  "titulo_confirmacion = str ''Confirmaci'' @ [0xF3] @ str ''n de Pedido''"

definition mensaje_confirmacion :: jsstring where
  "mensaje_confirmacion =
     str ''Tu pedido #{{NUMERO}} ha sido recibido '' @ [0x2705]
     @ str ''. Te notificaremos cuando est'' @ [0xE9] @ str '' listo para entrega.''"

definition obtenerPlantillasDefault :: "plataforma \<Rightarrow> 'p mundo \<Rightarrow> nat \<times> 'p mundo" where
  "obtenerPlantillasDefault P w =
     (let (p1, w1) = Template P (Str titulo_bienvenida) (Str mensaje_bienvenida)
                       (Str (str ''#bienvenida'')) (Str (str ''soporte'')) None w;
          (p2, w2) = Template P (Str titulo_confirmacion) (Str mensaje_confirmacion)
                       (Str (str ''#confirmacion'')) (Str (str ''ventas'')) None w1
      in nuevo_arreglo [p1, p2] w2)"

text \<open>\<open>_intentarRecuperacion\<close>: the backup when it is there and can be processed, the
  defaults otherwise.\<close>

definition intentarRecuperacion :: "plataforma \<Rightarrow> 'p mundo \<Rightarrow> (js_error + nat) \<times> 'p mundo" where
  "intentarRecuperacion P w =
     (case almacen w BACKUP_KEY of
        None \<Rightarrow> (let (a, w1) = obtenerPlantillasDefault P w in (Inr a, w1))
      | Some backup \<Rightarrow>
          if backup \<noteq> [] then
            (case procesarDatosGuardados P backup w of
               (Inr plantillasBackup, w1) \<Rightarrow>
                 (Inr plantillasBackup, mostrarNotificacionPersistencia AvisoRecuperadas ''warning'' w1)
             | (Inl e, w1) \<Rightarrow>
                 capturar e w1 (\<lambda>w2. let (a, w3) = obtenerPlantillasDefault P w2 in (Inr a, w3)))
          else (let (a, w1) = obtenerPlantillasDefault P w in (Inr a, w1)))"

text \<open>The \<open>try\<close> block of \<open>cargarPlantillas\<close>, then the whole function, which returns the
  address of an array: \<open>Inl\<close> in its result would be an exception that reaches the
  caller.\<close>

definition cargarPlantillas_try :: "plataforma \<Rightarrow> 'p mundo \<Rightarrow> (js_error + nat) \<times> 'p mundo" where
  "cargarPlantillas_try P w =
     (case almacen w STORAGE_KEY of
        None \<Rightarrow> (let (a, w1) = obtenerPlantillasDefault P w in (Inr a, w1))
      | Some datosGuardados \<Rightarrow>
          if datosGuardados \<noteq> [] then
            (case procesarDatosGuardados P datosGuardados w of
               (Inl e, w1) \<Rightarrow> (Inl e, w1)
             | (Inr a, w1) \<Rightarrow>
                 (Inr a, if 0 < length (monton w1 a)
                         then mostrarNotificacionPersistencia (AvisoCargadas (length (monton w1 a))) ''info'' w1
                         else w1))
          else (let (a, w1) = obtenerPlantillasDefault P w in (Inr a, w1)))"

definition cargarPlantillas :: "plataforma \<Rightarrow> 'p mundo \<Rightarrow> (js_error + nat) \<times> 'p mundo" where
  "cargarPlantillas P w =
     (case cargarPlantillas_try P w of
        (Inr a, w1) \<Rightarrow> (Inr a, w1)
      | (Inl e, w1) \<Rightarrow>
          capturar e w1
            (\<lambda>w2. intentarRecuperacion P (mostrarNotificacionPersistencia AvisoErrorCargar ''warning'' w2)))"

definition tieneDatosGuardados :: "'p mundo \<Rightarrow> bool" where
  "tieneDatosGuardados w \<longleftrightarrow> almacen w STORAGE_KEY \<noteq> None"

text \<open>\<open>resetearPlantillas\<close>: a last backup, then both slots are removed.\<close>

definition resetearPlantillas :: "'p mundo \<Rightarrow> bool \<times> 'p mundo" where
  "resetearPlantillas w =
     (let w1 = crearBackup w;
          w2 = w1\<lparr>almacen := (almacen w1)(STORAGE_KEY := None)\<rparr>;
          w3 = w2\<lparr>almacen := (almacen w2)(BACKUP_KEY := None)\<rparr>
      in (True, mostrarNotificacionPersistencia AvisoEliminadas ''success'' w3))"

text \<open>\<open>getInfoStorage\<close>: the size is kept as the length of the stored string (the source
  formats it in kilobytes). Its \<open>catch\<close> returns the error and throws nothing: what its
  \<open>try\<close> block throws is an error of the runtime.\<close>

datatype info_storage =
    SinDatos
  | InfoError js_error
  | Info nat jsval jsval jsval

definition getInfoStorage :: "plataforma \<Rightarrow> 'p mundo \<Rightarrow> info_storage" where
  "getInfoStorage P w =
     (case almacen w STORAGE_KEY of
        None \<Rightarrow> SinDatos
      | Some datos \<Rightarrow>
          if datos = [] then SinDatos
          else (case json_parse P datos of
                  None \<Rightarrow> InfoError SyntaxError
                | Some parsed \<Rightarrow>
                    (case propiedad parsed (str ''metadata'') of
                       Inl e \<Rightarrow> InfoError e
                     | Inr metadata \<Rightarrow>
                         (let total = (if metadata = Undefined \<or> metadata = Null then Undefined
                                       else leer metadata ''total'')
                          in Info (length datos) (if truthy total then total else Num 0)
                               (leer parsed ''version'') (leer parsed ''timestamp'')))))"


section \<open>Store\<close>

text \<open>The data of an event name Template objects by their references.\<close>

datatype datos_evento =
    DatosInicializado nat string
  | DatosAgregada nat nat
  | DatosEliminada nat nat
  | DatosTodasEliminadas nat
  | DatosRecargado nat

record estadisticas =
  est_total :: nat
  est_categorias :: "(jsstring \<times> jsval) list"
  est_ultimaActualizacion :: int
  est_estaVacio :: bool
  est_persistenciaHabilitada :: bool
  est_infoLocalStorage :: info_storage

record evento =
  ev_tipo :: string
  ev_datos :: datos_evento
  ev_estadisticas :: estadisticas
  ev_timestamp :: int

text \<open>
  A subscriber is a function of the page; the Store only holds it and calls it. Here the
  array \<open>_suscriptores\<close> holds the identities of the callbacks, and \<open>cb c\<close> is what the
  callback \<open>c\<close> does when called with an event: it may change anything in the state of
  the page (through the Store's own operations or otherwise; the Template object of the
  event is in its hands) and it may throw.
\<close>

type_synonym 'p suscriptor = "nat \<Rightarrow> evento \<Rightarrow> 'p mundo \<Rightarrow> js_error option \<times> 'p mundo"

definition Store_inicial :: "plataforma \<Rightarrow> (string \<rightharpoonup> jsstring) \<Rightarrow> (nat \<Rightarrow> template) \<Rightarrow> nat \<Rightarrow> 'p \<Rightarrow> 'p mundo" where
  "Store_inicial P alm objs n pag =
     \<lparr>almacen = alm, consola = [], avisos = [], lecturas = 1,
      objetos = objs, libre = n,
      monton = (\<lambda>a. []), siguiente = 1, plantillas = 0,
      ultimaActualizacion = reloj P 0, persistenciaHabilitada = True, suscriptores = [],
      pagina = pag\<rparr>"

text \<open>\<open>getPlantillas\<close>: the spread \<open>[...this._state.plantillas]\<close> makes a new array with
  the same elements; its address is returned.\<close>

definition getPlantillas :: "'p mundo \<Rightarrow> nat \<times> 'p mundo" where
  "getPlantillas w = nuevo_arreglo (referencias w) w"

text \<open>\<open>getPlantillaPorId\<close>: the first template with \<open>plantilla.id === id\<close>, or \<open>null\<close>.\<close>

definition getPlantillaPorId :: "jsval \<Rightarrow> 'p mundo \<Rightarrow> nat option" where
  "getPlantillaPorId i w = find (\<lambda>plantilla. Num (idT (objetos w plantilla)) = i) (referencias w)"

text \<open>\<open>getEstadisticas\<close> is not inside a \<open>try\<close>: an exception of its loop reaches the caller.\<close>

definition getEstadisticas :: "plataforma \<Rightarrow> 'p mundo \<Rightarrow> js_error + estadisticas" where
  "getEstadisticas P w =
     (case obtenerCategorias P (contenido w) of
        Inl e \<Rightarrow> Inl e
      | Inr categorias \<Rightarrow>
          Inr \<lparr>est_total = length (referencias w),
               est_categorias = categorias,
               est_ultimaActualizacion = ultimaActualizacion w,
               est_estaVacio = (length (referencias w) = 0),
               est_persistenciaHabilitada = persistenciaHabilitada w,
               est_infoLocalStorage = getInfoStorage P w\<rparr>)"

text \<open>
  \<open>buscarPlantillas\<close>, which is not inside a \<open>try\<close> either. Of \<open>plantilla[criterio]\<close> only a
  string matters: \<open>campo_texto\<close> is that string, which only the four text properties can
  hold. \<open>valor.toLowerCase()\<close> throws a TypeError when \<open>valor\<close> is not a string. The result
  of \<open>filter\<close> is a new array.
\<close>

definition campo_texto :: "template \<Rightarrow> jsstring \<Rightarrow> jsstring option" where
  "campo_texto t k =
     (case (if k = str ''titulo'' then titulo t
            else if k = str ''mensaje'' then mensaje t
            else if k = str ''hashtag'' then hashtag t
            else if k = str ''categoria'' then categoria t
            else Undefined) of
        Str s \<Rightarrow> Some s
      | _ \<Rightarrow> None)"

text \<open>\<open>texto.includes(parte)\<close>.\<close>

fun incluye :: "'a list \<Rightarrow> 'a list \<Rightarrow> bool" where
  "incluye [] parte = (parte = [])"
| "incluye (y # ys) parte = (take (length parte) (y # ys) = parte \<or> incluye ys parte)"

fun filtrar_busqueda :: "plataforma \<Rightarrow> jsval \<Rightarrow> jsval \<Rightarrow> (nat \<Rightarrow> template) \<Rightarrow> nat list \<Rightarrow> js_error + nat list" where
  "filtrar_busqueda P criterio valor objs [] = Inr []"
| "filtrar_busqueda P criterio valor objs (plantilla # rs) =
     (case clave P criterio of
        Inl e \<Rightarrow> Inl e
      | Inr k \<Rightarrow>
          (case campo_texto (objs plantilla) k of
             None \<Rightarrow> filtrar_busqueda P criterio valor objs rs
           | Some valorCampo \<Rightarrow>
               (case valor of
                  Str v \<Rightarrow>
                    (case filtrar_busqueda P criterio valor objs rs of
                       Inl e \<Rightarrow> Inl e
                     | Inr ys \<Rightarrow>
                         Inr (if incluye (minusculas P valorCampo) (minusculas P v)
                              then plantilla # ys else ys))
                | _ \<Rightarrow> Inl TypeError)))"

definition buscarPlantillas :: "plataforma \<Rightarrow> jsval \<Rightarrow> jsval \<Rightarrow> 'p mundo \<Rightarrow> (js_error + nat) \<times> 'p mundo" where
  "buscarPlantillas P criterio valor w =
     (if \<not> truthy valor \<or> \<not> truthy criterio then (let (a, w1) = getPlantillas w in (Inr a, w1))
      else (case filtrar_busqueda P criterio valor (objetos w) (referencias w) of
              Inl e \<Rightarrow> (Inl e, w)
            | Inr rs \<Rightarrow> (let (a, w1) = nuevo_arreglo rs w in (Inr a, w1))))"

text \<open>
  The loop \<open>this._suscriptores.forEach(callback => { try { callback(evento) } catch ... })\<close>.
  \<open>forEach\<close> fixes the number of indices to visit when it starts and reads the array
  again at each index, skipping an index that is no longer there; \<open>recorrer cb ev n k w\<close>
  visits the \<open>n\<close> indices from \<open>k\<close> on. An exception of a callback is logged as it is
  (this \<open>catch\<close> does not read \<open>error.message\<close>) and the loop goes on. Besides the state,
  the result lists the callbacks that were called, in the order of the calls.
\<close>

fun recorrer :: "'p suscriptor \<Rightarrow> evento \<Rightarrow> nat \<Rightarrow> nat \<Rightarrow> 'p mundo \<Rightarrow> nat list \<times> 'p mundo" where
  "recorrer cb ev 0 k w = ([], w)"
| "recorrer cb ev (Suc n) k w =
     (if k < length (suscriptores w) then
        (let c = suscriptores w ! k in
         case cb c ev w of
           (None, w1) \<Rightarrow>
             (case recorrer cb ev n (Suc k) w1 of (cs, w2) \<Rightarrow> (c # cs, w2))
         | (Some e, w1) \<Rightarrow>
             (case recorrer cb ev n (Suc k) (registrar (ErrorLog e) w1) of (cs, w2) \<Rightarrow> (c # cs, w2)))
      else recorrer cb ev n (Suc k) w)"

text \<open>
  \<open>_notificarCambios\<close> makes the event before it calls anyone: an exception of
  \<open>getEstadisticas\<close> leaves the function, and then no subscriber is called. The result is
  that exception, if any, the callbacks that were called, and the state.
\<close>

definition notificarCambios :: "plataforma \<Rightarrow> 'p suscriptor \<Rightarrow> string \<Rightarrow> datos_evento \<Rightarrow> 'p mundo
    \<Rightarrow> js_error option \<times> nat list \<times> 'p mundo" where
  "notificarCambios P cb tipo datos w =
     (case getEstadisticas P w of
        Inl e \<Rightarrow> (Some e, [], w)
      | Inr est \<Rightarrow>
          (let (d, w1) = ahora P w;
               ev = \<lparr>ev_tipo = tipo, ev_datos = datos, ev_estadisticas = est, ev_timestamp = d\<rparr>;
               (cs, w2) = recorrer cb ev (length (suscriptores w1)) 0 w1
           in (None, cs, w2)))"

text \<open>The argument of \<open>agregarPlantilla\<close>: an instance of \<open>Template\<close>, by its reference, or
  any other value.\<close>

datatype argumento = Instancia nat | Otro jsval

text \<open>
  For each operation with a \<open>try\<close>/\<open>catch\<close>, first the \<open>try\<close> block, where \<open>Inl\<close> is the
  exception that reaches the \<open>catch\<close>, then the operation, where \<open>Inl\<close> is an exception
  that reaches the caller. The \<open>try\<close> block of a mutation also gives the list of the
  subscriber calls it made. \<open>getEstadoLocal\<close> is called on the object after the
  subscribers have run.
\<close>

definition agregarPlantilla_try :: "plataforma \<Rightarrow> 'p suscriptor \<Rightarrow> argumento \<Rightarrow> 'p mundo
    \<Rightarrow> (js_error + bool) \<times> nat list \<times> 'p mundo" where
  "agregarPlantilla_try P cb x w =
     (case x of
        Otro v \<Rightarrow> (Inl NoEsTemplate, [], w)
      | Instancia nuevaPlantilla \<Rightarrow>
          if \<not> esValida (objetos w nuevaPlantilla) then (Inl PlantillaIncompleta, [], w)
          else
            (let (a, w1) = nuevo_arreglo (referencias w @ [nuevaPlantilla]) w;
                 w2 = w1\<lparr>plantillas := a\<rparr>;
                 (d, w3) = ahora P w2;
                 w4 = w3\<lparr>ultimaActualizacion := d\<rparr>
             in case notificarCambios P cb ''PLANTILLA_AGREGADA''
                       (DatosAgregada nuevaPlantilla (length (referencias w4))) w4 of
                  (Some e, cs, w5) \<Rightarrow> (Inl e, cs, w5)
                | (None, cs, w5) \<Rightarrow>
                    (case getEstadoLocal (objetos w5 nuevaPlantilla) of
                       Inl e \<Rightarrow> (Inl e, cs, w5)
                     | Inr el \<Rightarrow> (Inr True, cs, w5))))"

definition agregarPlantilla :: "plataforma \<Rightarrow> 'p suscriptor \<Rightarrow> argumento \<Rightarrow> 'p mundo
    \<Rightarrow> (js_error + bool) \<times> 'p mundo" where
  "agregarPlantilla P cb x w =
     (case agregarPlantilla_try P cb x w of
        (Inr b, cs, w1) \<Rightarrow> (Inr b, w1)
      | (Inl e, cs, w1) \<Rightarrow> capturar e w1 (\<lambda>w2. (Inr False, w2)))"

definition eliminarPlantilla_try :: "plataforma \<Rightarrow> 'p suscriptor \<Rightarrow> jsval \<Rightarrow> 'p mundo
    \<Rightarrow> (js_error + bool) \<times> nat list \<times> 'p mundo" where
  "eliminarPlantilla_try P cb i w =
     (case getPlantillaPorId i w of
        None \<Rightarrow> (Inl PlantillaNoEncontrada, [], w)
      | Some plantillaAEliminar \<Rightarrow>
          (let (a, w1) = nuevo_arreglo
                           (filter (\<lambda>plantilla. Num (idT (objetos w plantilla)) \<noteq> i) (referencias w)) w;
               w2 = w1\<lparr>plantillas := a\<rparr>;
               (d, w3) = ahora P w2;
               w4 = w3\<lparr>ultimaActualizacion := d\<rparr>
           in case notificarCambios P cb ''PLANTILLA_ELIMINADA''
                     (DatosEliminada plantillaAEliminar (length (referencias w4))) w4 of
                (Some e, cs, w5) \<Rightarrow> (Inl e, cs, w5)
              | (None, cs, w5) \<Rightarrow>
                  (case getEstadoLocal (objetos w5 plantillaAEliminar) of
                     Inl e \<Rightarrow> (Inl e, cs, w5)
                   | Inr el \<Rightarrow> (Inr True, cs, w5))))"

definition eliminarPlantilla :: "plataforma \<Rightarrow> 'p suscriptor \<Rightarrow> jsval \<Rightarrow> 'p mundo
    \<Rightarrow> (js_error + bool) \<times> 'p mundo" where
  "eliminarPlantilla P cb i w =
     (case eliminarPlantilla_try P cb i w of
        (Inr b, cs, w1) \<Rightarrow> (Inr b, w1)
      | (Inl e, cs, w1) \<Rightarrow> capturar e w1 (\<lambda>w2. (Inr False, w2)))"

definition limpiarTodas_try :: "plataforma \<Rightarrow> 'p suscriptor \<Rightarrow> 'p mundo
    \<Rightarrow> (js_error + bool) \<times> nat list \<times> 'p mundo" where
  "limpiarTodas_try P cb w =
     (let totalAnterior = length (referencias w);
          (a, w1) = nuevo_arreglo [] w;
          w2 = w1\<lparr>plantillas := a\<rparr>;
          (d, w3) = ahora P w2;
          w4 = w3\<lparr>ultimaActualizacion := d\<rparr>
      in case notificarCambios P cb ''TODAS_ELIMINADAS'' (DatosTodasEliminadas totalAnterior) w4 of
           (Some e, cs, w5) \<Rightarrow> (Inl e, cs, w5)
         | (None, cs, w5) \<Rightarrow> (Inr True, cs, w5))"

definition limpiarTodas :: "plataforma \<Rightarrow> 'p suscriptor \<Rightarrow> 'p mundo \<Rightarrow> (js_error + bool) \<times> 'p mundo" where
  "limpiarTodas P cb w =
     (case limpiarTodas_try P cb w of
        (Inr b, cs, w1) \<Rightarrow> (Inr b, w1)
      | (Inl e, cs, w1) \<Rightarrow> capturar e w1 (\<lambda>w2. (Inr False, w2)))"

text \<open>\<open>reset\<close> has no \<open>try\<close> and returns nothing.\<close>

definition reset :: "plataforma \<Rightarrow> 'p mundo \<Rightarrow> 'p mundo" where
  "reset P w =
     (let (a, w1) = nuevo_arreglo [] w;
          w2 = w1\<lparr>plantillas := a\<rparr>;
          (d, w3) = ahora P w2
      in w3\<lparr>ultimaActualizacion := d\<rparr>)"

text \<open>
  \<open>suscribirse\<close> is not inside a \<open>try\<close>: its \<open>throw\<close> reaches the caller. On success it
  returns the function that cancels the subscription; the model returns the callback
  it belongs to, and \<open>cancelar c\<close> is what that function does.
\<close>

datatype argumento_callback = Funcion nat | NoFuncion jsval

definition suscribirse :: "argumento_callback \<Rightarrow> 'p mundo \<Rightarrow> (js_error + nat) \<times> 'p mundo" where
  "suscribirse x w =
     (case x of
        NoFuncion v \<Rightarrow> (Inl CallbackNoEsFuncion, w)
      | Funcion c \<Rightarrow> (Inr c, w\<lparr>suscriptores := suscriptores w @ [c]\<rparr>))"

text \<open>\<open>indexOf\<close> finds the first occurrence and \<open>splice\<close> removes it; nothing changes when
  there is none.\<close>

definition cancelar :: "nat \<Rightarrow> 'p mundo \<Rightarrow> 'p mundo" where
  "cancelar c w = w\<lparr>suscriptores := remove1 c (suscriptores w)\<rparr>"

text \<open>The Store's own default templates (\<open>_cargarPlantillasDefault\<close>).\<close>

definition mensaje_bienvenida_store :: jsstring where
  "mensaje_bienvenida_store =
     [0xA1] @ str ''Hola! '' @ [0xD83D, 0xDC4B]
     @ str '' Bienvenido/a. Estamos aqu'' @ [0xED] @ str '' para ayudarte. ''
     @ [0xBF] @ str ''En qu'' @ [0xE9] @ str '' podemos asistirte?''"

definition titulo_confirmacion_store :: jsstring where
  "titulo_confirmacion_store = str ''Confirmaci'' @ [0xF3] @ str ''n Est'' @ [0xE1] @ str ''ndar''"

definition mensaje_confirmacion_store :: jsstring where
  "mensaje_confirmacion_store =
     str ''Tu solicitud ha sido recibida '' @ [0x2705]
     @ str ''. Te contactaremos pronto. '' @ [0xA1] @ str ''Gracias!''"

definition cargarPlantillasDefault :: "plataforma \<Rightarrow> 'p mundo \<Rightarrow> 'p mundo" where
  "cargarPlantillasDefault P w =
     (let (p1, w1) = Template P (Str (str ''Bienvenida por Defecto'')) (Str mensaje_bienvenida_store)
                       (Str (str ''#bienvenida'')) (Str (str ''soporte'')) None w;
          (p2, w2) = Template P (Str titulo_confirmacion_store) (Str mensaje_confirmacion_store)
                       (Str (str ''#confirmacion'')) (Str (str ''soporte'')) None w1;
          (a, w3) = nuevo_arreglo [p1, p2] w2;
          w4 = w3\<lparr>plantillas := a\<rparr>;
          (d, w5) = ahora P w4
      in w5\<lparr>ultimaActualizacion := d\<rparr>)"

text \<open>\<open>inicializar\<close> and \<open>recargarDesdePersistencia\<close>, with \<open>persistence.js\<close> loaded: the
  array that \<open>cargarPlantillas\<close> returns becomes the Store's array. \<open>inicializar\<close> returns
  nothing.\<close>

definition inicializar_try :: "plataforma \<Rightarrow> 'p suscriptor \<Rightarrow> 'p mundo \<Rightarrow> (js_error + unit) \<times> 'p mundo" where
  "inicializar_try P cb w =
     (case cargarPlantillas P w of
        (Inl e, w1) \<Rightarrow> (Inl e, w1)
      | (Inr plantillasGuardadas, w1) \<Rightarrow>
          (let w2 = w1\<lparr>plantillas := plantillasGuardadas\<rparr>;
               (d, w3) = ahora P w2;
               w4 = w3\<lparr>ultimaActualizacion := d\<rparr>
           in case notificarCambios P cb ''STORE_INICIALIZADO''
                     (DatosInicializado (length (monton w4 plantillasGuardadas))
                        (if tieneDatosGuardados w4 then ''localStorage'' else ''default'')) w4 of
                (Some e, cs, w5) \<Rightarrow> (Inl e, w5)
              | (None, cs, w5) \<Rightarrow> (Inr (), w5)))"

definition inicializar :: "plataforma \<Rightarrow> 'p suscriptor \<Rightarrow> 'p mundo \<Rightarrow> (js_error + unit) \<times> 'p mundo" where
  "inicializar P cb w =
     (case inicializar_try P cb w of
        (Inr u, w1) \<Rightarrow> (Inr (), w1)
      | (Inl e, w1) \<Rightarrow> capturar e w1 (\<lambda>w2. (Inr (), cargarPlantillasDefault P w2)))"

definition recargarDesdePersistencia_try :: "plataforma \<Rightarrow> 'p suscriptor \<Rightarrow> 'p mundo
    \<Rightarrow> (js_error + bool) \<times> 'p mundo" where
  "recargarDesdePersistencia_try P cb w =
     (case cargarPlantillas P w of
        (Inl e, w1) \<Rightarrow> (Inl e, w1)
      | (Inr plantillasGuardadas, w1) \<Rightarrow>
          (let w2 = w1\<lparr>plantillas := plantillasGuardadas\<rparr>;
               (d, w3) = ahora P w2;
               w4 = w3\<lparr>ultimaActualizacion := d\<rparr>
           in case notificarCambios P cb ''RECARGADO_DESDE_PERSISTENCIA''
                     (DatosRecargado (length (monton w4 plantillasGuardadas))) w4 of
                (Some e, cs, w5) \<Rightarrow> (Inl e, w5)
              | (None, cs, w5) \<Rightarrow> (Inr True, w5)))"

definition recargarDesdePersistencia :: "plataforma \<Rightarrow> 'p suscriptor \<Rightarrow> 'p mundo
    \<Rightarrow> (js_error + bool) \<times> 'p mundo" where
  "recargarDesdePersistencia P cb w =
     (case recargarDesdePersistencia_try P cb w of
        (Inr b, w1) \<Rightarrow> (Inr b, w1)
      | (Inl e, w1) \<Rightarrow> capturar e w1 (\<lambda>w2. (Inr False, w2)))"


section \<open>Conditions on states and subscribers\<close>

text \<open>The Store's array is an array that exists: its address has been given out.\<close>

definition asignado :: "'p mundo \<Rightarrow> bool" where
  "asignado w \<longleftrightarrow> plantillas w < siguiente w"

text \<open>No subscriber changes the Store's collection, or a template of the collection,
  while it is notified.\<close>

definition discreto :: "'p suscriptor \<Rightarrow> bool" where
  "discreto cb \<longleftrightarrow>
     (\<forall>c ev w. asignado w \<longrightarrow>
        asignado (snd (cb c ev w)) \<and> referencias (snd (cb c ev w)) = referencias w
        \<and> contenido (snd (cb c ev w)) = contenido w)"

text \<open>No subscriber changes the list of subscribers while it is notified.\<close>

definition fijo :: "'p suscriptor \<Rightarrow> bool" where
  "fijo cb \<longleftrightarrow> (\<forall>c ev w. suscriptores (snd (cb c ev w)) = suscriptores w)"

text \<open>
  From \<open>w\<close> to \<open>w'\<close> no array has ceased to exist, and the Store's array is the same or
  one made since. A subscriber reaches the Store's array through the Store's operations
  only, so that every call of a subscriber goes forward in this sense.
\<close>

definition avanza :: "'p mundo \<Rightarrow> 'p mundo \<Rightarrow> bool" where
  "avanza w w' \<longleftrightarrow>
     siguiente w \<le> siguiente w' \<and> plantillas w' < siguiente w'
     \<and> (plantillas w' = plantillas w \<or> siguiente w \<le> plantillas w')"

definition ordenado :: "'p suscriptor \<Rightarrow> bool" where
  "ordenado cb \<longleftrightarrow> (\<forall>c ev w. asignado w \<longrightarrow> avanza w (snd (cb c ev w)))"

text \<open>Any change made in place to the array at address \<open>a\<close> (\<open>push\<close>, \<open>pop\<close>, \<open>splice\<close>,
  an assignment to an index or to \<open>length\<close>): its contents \<open>rs\<close> become \<open>f rs\<close>. And any
  change made to the Template object \<open>r\<close>.\<close>

definition mutar :: "nat \<Rightarrow> (nat list \<Rightarrow> nat list) \<Rightarrow> 'p mundo \<Rightarrow> 'p mundo" where
  "mutar a f w = w\<lparr>monton := (monton w)(a := f (monton w a))\<rparr>"

definition editar :: "nat \<Rightarrow> (template \<Rightarrow> template) \<Rightarrow> 'p mundo \<Rightarrow> 'p mundo" where
  "editar r g w = w\<lparr>objetos := (objetos w)(r := g (objetos w r))\<rparr>"

text \<open>
  The states that sequences of Store operations lead to, from the Store as the script
  creates it, together with the arrays that the Store has handed to its callers so far
  (the results of \<open>getPlantillas\<close> and \<open>buscarPlantillas\<close>). Between the operations the
  page may make Template objects, change any Template object, and change in place any
  array that it was handed.
\<close>

inductive historia :: "plataforma \<Rightarrow> 'p suscriptor \<Rightarrow> nat set \<Rightarrow> 'p mundo \<Rightarrow> bool"
  for P :: plataforma and cb :: "'p suscriptor" where
  h_inicial: "historia P cb {} (Store_inicial P alm objs n pag)"
| h_inicializar: "historia P cb A w \<Longrightarrow> historia P cb A (snd (inicializar P cb w))"
| h_getPlantillas:
    "historia P cb A w \<Longrightarrow> historia P cb (insert (fst (getPlantillas w)) A) (snd (getPlantillas w))"
| h_buscar:
    "historia P cb A w \<Longrightarrow> buscarPlantillas P criterio valor w = (Inr a, w')
     \<Longrightarrow> historia P cb (insert a A) w'"
| h_mutar: "historia P cb A w \<Longrightarrow> a \<in> A \<Longrightarrow> historia P cb A (mutar a f w)"
| h_editar: "historia P cb A w \<Longrightarrow> historia P cb A (editar r g w)"
| h_crear: "historia P cb A w \<Longrightarrow> historia P cb A (snd (Template P ti me ha ca fe w))"
| h_agregar: "historia P cb A w \<Longrightarrow> historia P cb A (snd (agregarPlantilla P cb x w))"
| h_eliminar: "historia P cb A w \<Longrightarrow> historia P cb A (snd (eliminarPlantilla P cb i w))"
| h_limpiar: "historia P cb A w \<Longrightarrow> historia P cb A (snd (limpiarTodas P cb w))"
| h_reset: "historia P cb A w \<Longrightarrow> historia P cb A (reset P w)"
| h_recargar: "historia P cb A w \<Longrightarrow> historia P cb A (snd (recargarDesdePersistencia P cb w))"
| h_suscribirse: "historia P cb A w \<Longrightarrow> historia P cb A (snd (suscribirse y w))"
| h_cancelar: "historia P cb A w \<Longrightarrow> historia P cb A (cancelar c w)"

text \<open>The Store's array exists and is none of the arrays of \<open>A\<close>, which exist too.\<close>

definition aparte :: "nat set \<Rightarrow> 'p mundo \<Rightarrow> bool" where
  "aparte A w \<longleftrightarrow> plantillas w < siguiente w \<and> (\<forall>a \<in> A. a < siguiente w \<and> a \<noteq> plantillas w)"

text \<open>A field that is missing: absent or the empty string.\<close>

definition falta :: "jsval \<Rightarrow> bool" where
  "falta v \<longleftrightarrow> v = Undefined \<or> v = Str []"

text \<open>The category of every template of the list converts to a property key.\<close>

definition categorias_convertibles :: "plataforma \<Rightarrow> template list \<Rightarrow> bool" where
  "categorias_convertibles P ps \<longleftrightarrow> list_all (\<lambda>p. \<not> isl (clave P (categoria p))) ps"

text \<open>What an operation leaves as it was: the heap and the Store, and the storage and
  the count of the readings of the environment.\<close>

definition mismo_store :: "'p mundo \<Rightarrow> 'p mundo \<Rightarrow> bool" where
  "mismo_store w w' \<longleftrightarrow>
     objetos w' = objetos w \<and> libre w' = libre w
     \<and> monton w' = monton w \<and> siguiente w' = siguiente w \<and> plantillas w' = plantillas w
     \<and> suscriptores w' = suscriptores w \<and> ultimaActualizacion w' = ultimaActualizacion w
     \<and> persistenciaHabilitada w' = persistenciaHabilitada w"

definition mismo_entorno :: "'p mundo \<Rightarrow> 'p mundo \<Rightarrow> bool" where
  "mismo_entorno w w' \<longleftrightarrow> almacen w' = almacen w \<and> lecturas w' = lecturas w"

text \<open>From \<open>w\<close> to \<open>w'\<close> the Store is untouched and the heap has only grown: the arrays and
  the Template objects of \<open>w\<close> are as they were.\<close>

definition marco :: "'p mundo \<Rightarrow> 'p mundo \<Rightarrow> bool" where
  "marco w w' \<longleftrightarrow>
     plantillas w' = plantillas w \<and> suscriptores w' = suscriptores w
     \<and> ultimaActualizacion w' = ultimaActualizacion w
     \<and> persistenciaHabilitada w' = persistenciaHabilitada w
     \<and> siguiente w \<le> siguiente w' \<and> (\<forall>b < siguiente w. monton w' b = monton w b)
     \<and> libre w \<le> libre w' \<and> (\<forall>r < libre w. objetos w' r = objetos w r)"

section \<open>Envelopes and fields\<close>

text \<open>The shape test of \<open>_validarEstructuraDatos\<close> as a predicate.\<close>

definition forma_valida :: "jsval \<Rightarrow> bool" where
  "forma_valida datos \<longleftrightarrow>
     truthy datos \<and> typeof_object datos \<and> truthy (leer datos ''version'')
     \<and> isArray (leer datos ''plantillas'')
     \<and> list_all entrada_valida (elementos (leer datos ''plantillas''))"

text \<open>The valid envelope that a stored string holds, if it holds one.\<close>

definition envoltorio :: "plataforma \<Rightarrow> jsstring \<Rightarrow> jsval option" where
  "envoltorio P s =
     (case json_parse P s of
        None \<Rightarrow> None
      | Some datos \<Rightarrow> if forma_valida datos then Some datos else None)"

definition respaldo_valido :: "plataforma \<Rightarrow> 'p mundo \<Rightarrow> jsval option" where
  "respaldo_valido P w =
     (case almacen w BACKUP_KEY of
        None \<Rightarrow> None
      | Some b \<Rightarrow> if b = [] then None else envoltorio P b)"

text \<open>
  The entries of an envelope from which a template is made are those whose date can be
  constructed; \<open>construida P n x\<close> is the template that the constructor makes from such
  an entry \<open>x\<close> at the \<open>n\<close>-th reading of the environment, and \<open>construidas P n xs\<close> are
  the templates made from the entries \<open>xs\<close> one after the other, from the \<open>n\<close>-th reading on.
\<close>

definition se_construye :: "plataforma \<Rightarrow> jsval \<Rightarrow> bool" where
  "se_construye P x \<longleftrightarrow> \<not> isl (nueva_fecha P (leer x ''fechaCreacion''))"

definition aceptadas :: "plataforma \<Rightarrow> jsval \<Rightarrow> jsval list" where
  "aceptadas P datos = filter (se_construye P) (elementos (leer datos ''plantillas''))"

definition construida :: "plataforma \<Rightarrow> nat \<Rightarrow> jsval \<Rightarrow> template" where
  "construida P n x =
     \<lparr>titulo = leer x ''titulo'', mensaje = leer x ''mensaje'', hashtag = leer x ''hashtag'',
      categoria = leer x ''categoria'',
      fechaCreacion = projr (nueva_fecha P (leer x ''fechaCreacion'')),
      idT = suma P (real_of_int (reloj P n)) (azar P n),
      metodo_estado = DeLaClase\<rparr>"

fun construidas :: "plataforma \<Rightarrow> nat \<Rightarrow> jsval list \<Rightarrow> template list" where
  "construidas P n [] = []"
| "construidas P n (x # xs) = construida P n x # construidas P (Suc n) xs"

text \<open>The fields of a template other than its identifier, and its four texts.\<close>

definition campos :: "template \<Rightarrow> jsval \<times> jsval \<times> jsval \<times> jsval \<times> fecha" where
  "campos t = (titulo t, mensaje t, hashtag t, categoria t, fechaCreacion t)"

text \<open>The same fields as a stored entry gives them to the constructor.\<close>

definition campos_de_registro :: "plataforma \<Rightarrow> jsval \<Rightarrow> jsval \<times> jsval \<times> jsval \<times> jsval \<times> fecha" where
  "campos_de_registro P x =
     (leer x ''titulo'', leer x ''mensaje'', leer x ''hashtag'', leer x ''categoria'',
      projr (nueva_fecha P (leer x ''fechaCreacion'')))"

definition textos :: "template \<Rightarrow> jsval \<times> jsval \<times> jsval \<times> jsval" where
  "textos t = (titulo t, mensaje t, hashtag t, categoria t)"

definition textos_default :: "(jsval \<times> jsval \<times> jsval \<times> jsval) list" where
  "textos_default =
     [(Str titulo_bienvenida, Str mensaje_bienvenida, Str (str ''#bienvenida''), Str (str ''soporte'')),
      (Str titulo_confirmacion, Str mensaje_confirmacion, Str (str ''#confirmacion''), Str (str ''ventas''))]"

text \<open>The envelope that \<open>guardarPlantillas\<close> writes for the templates \<open>ps\<close> in the state \<open>w\<close>.\<close>

definition envoltorio_guardado :: "plataforma \<Rightarrow> 'p mundo \<Rightarrow> template list \<Rightarrow> jsval" where
  "envoltorio_guardado P w ps =
     datosParaGuardar P (reloj P (lecturas w)) (length ps)
       (map (\<lambda>t. projr (serializarPlantilla P t)) ps) (projr (obtenerCategorias P ps))"


text \<open>The result of a load: a new array, the Store untouched.\<close>

definition carga :: "'p mundo \<Rightarrow> nat \<Rightarrow> 'p mundo \<Rightarrow> bool" where
  "carga w a w' \<longleftrightarrow>
     a = siguiente w \<and> siguiente w' = Suc (siguiente w) \<and> marco w w' \<and> almacen w' = almacen w"

text \<open>\<open>w'\<close> is \<open>w\<close> but for the console.\<close>

definition salvo_consola :: "'p mundo \<Rightarrow> 'p mundo \<Rightarrow> bool" where
  "salvo_consola w w' \<longleftrightarrow> (\<exists>c. w' = w\<lparr>consola := c\<rparr>)"

section \<open>The states in which the subscribers are notified\<close>

text \<open>
  The state that \<open>agregarPlantilla\<close> has made when it notifies the subscribers: the
  Store's array is a new one, with the new template at its end. Likewise for
  \<open>eliminarPlantilla\<close> and \<open>limpiarTodas\<close>.
\<close>

definition tras_agregar :: "plataforma \<Rightarrow> nat \<Rightarrow> 'p mundo \<Rightarrow> 'p mundo" where
  "tras_agregar P r w =
     w\<lparr>monton := (monton w)(siguiente w := referencias w @ [r]), siguiente := Suc (siguiente w),
       plantillas := siguiente w, lecturas := Suc (lecturas w),
       ultimaActualizacion := reloj P (lecturas w)\<rparr>"

definition tras_eliminar :: "plataforma \<Rightarrow> jsval \<Rightarrow> 'p mundo \<Rightarrow> 'p mundo" where
  "tras_eliminar P i w =
     w\<lparr>monton := (monton w)(siguiente w := filter (\<lambda>q. Num (idT (objetos w q)) \<noteq> i) (referencias w)),
       siguiente := Suc (siguiente w),
       plantillas := siguiente w, lecturas := Suc (lecturas w),
       ultimaActualizacion := reloj P (lecturas w)\<rparr>"

definition tras_limpiar :: "plataforma \<Rightarrow> 'p mundo \<Rightarrow> 'p mundo" where
  "tras_limpiar P w =
     w\<lparr>monton := (monton w)(siguiente w := []), siguiente := Suc (siguiente w),
       plantillas := siguiente w, lecturas := Suc (lecturas w),
       ultimaActualizacion := reloj P (lecturas w)\<rparr>"


text \<open>
  When \<open>buscarPlantillas\<close> throws: both arguments are truthy and the Store is not empty,
  and either the name of the field does not convert to a property key, or the value
  searched is not a string while some template has a string in that field.
\<close>

definition busqueda_falla :: "plataforma \<Rightarrow> jsval \<Rightarrow> jsval \<Rightarrow> 'p mundo \<Rightarrow> bool" where
  "busqueda_falla P criterio valor w \<longleftrightarrow>
     truthy valor \<and> truthy criterio \<and> referencias w \<noteq> []
     \<and> (case clave P criterio of
           Inl e \<Rightarrow> True
         | Inr k \<Rightarrow> (case valor of Str v \<Rightarrow> False | _ \<Rightarrow> list_ex (\<lambda>p. campo_texto p k \<noteq> None) (contenido w)))"

section \<open>Example data\<close>

text \<open>A small platform for the examples: the clock advances by one millisecond at each
  reading, sums are exact, no string parses as JSON, and a date is written as one code
  unit.\<close>

definition plataforma_ejemplo :: plataforma where
  "plataforma_ejemplo =
     \<lparr>json_parse = (\<lambda>s. None),
      json_stringify = (\<lambda>v. str ''{}''),
      fecha_de = (\<lambda>v. case v of Str [u] \<Rightarrow> Fecha (uint u) | _ \<Rightarrow> FechaInvalida),
      iso_de = (\<lambda>d. [word_of_int d]),
      reloj = (\<lambda>n. 1000 + int n),
      azar = (\<lambda>n. 1 / 2),
      suma = (\<lambda>a b. a + b),
      numero_a_cadena = (\<lambda>x. str ''0''),
      minusculas = (\<lambda>s. s),
      heredada = (\<lambda>k. None)\<rparr>"

definition plataforma_tabla :: "(jsstring \<times> jsval) list \<Rightarrow> plataforma" where
  "plataforma_tabla tabla = plataforma_ejemplo\<lparr>json_parse := map_of tabla\<rparr>"

text \<open>A platform on which every JSON text has the length of the size ceiling, and one
  that writes and parses a single document.\<close>

definition plataforma_grande :: plataforma where
  "plataforma_grande = plataforma_ejemplo\<lparr>json_stringify := (\<lambda>v. replicate MAX_STORAGE_SIZE 0x20)\<rparr>"

definition plataforma_eco :: "jsval \<Rightarrow> plataforma" where
  "plataforma_eco doc =
     plataforma_ejemplo\<lparr>json_stringify := (\<lambda>v. str ''<guardado>''),
                        json_parse := (\<lambda>s. if s = str ''<guardado>'' then Some doc else None)\<rparr>"

text \<open>Templates: the one of the example scenario and a second one; one with an empty
  title; one whose category is an object that does not convert to a property key; one
  on which the page has put a \<open>getEstadoLocal\<close> that throws \<open>null\<close>.\<close>

definition plantilla_ejemplo :: template where
  "plantilla_ejemplo =
     \<lparr>titulo = Str (str ''Welcome''), mensaje = Str (str ''Hi there''),
      hashtag = Str (str ''#hi''), categoria = Str (str ''support''),
      fechaCreacion = Fecha 7, idT = 1000.5, metodo_estado = DeLaClase\<rparr>"

definition plantilla_ejemplo2 :: template where
  "plantilla_ejemplo2 = plantilla_ejemplo\<lparr>titulo := Str (str ''Bye''), idT := 2000.5\<rparr>"

definition plantilla_sin_titulo :: template where
  "plantilla_sin_titulo = plantilla_ejemplo\<lparr>titulo := Str [], idT := 3000.5\<rparr>"

definition plantilla_rara :: template where
  "plantilla_rara = plantilla_ejemplo\<lparr>categoria := Obj [(str ''toString'', Num 5)], idT := 4000.5\<rparr>"

definition plantilla_saboteada :: template where
  "plantilla_saboteada = plantilla_ejemplo\<lparr>metodo_estado := Lanza (Valor Null), idT := 5000.5\<rparr>"

text \<open>A page that has made these five templates, with references \<open>0\<close> to \<open>4\<close>, and whose
  Store is new.\<close>

definition objetos_ejemplo :: "nat \<Rightarrow> template" where
  "objetos_ejemplo r =
     (if r = 0 then plantilla_ejemplo
      else if r = 1 then plantilla_ejemplo2
      else if r = 2 then plantilla_sin_titulo
      else if r = 3 then plantilla_rara
      else plantilla_saboteada)"

definition pagina_de :: "(string \<times> jsstring) list \<Rightarrow> unit mundo" where
  "pagina_de kvs = Store_inicial plataforma_ejemplo (map_of kvs) objetos_ejemplo 5 ()"

definition store_ejemplo :: "unit mundo" where
  "store_ejemplo = pagina_de []"

text \<open>A subscriber that does nothing; one that calls \<open>Store.reset()\<close>; one that cancels
  its own subscription when it is notified, beside others that do nothing (the callback
  \<open>0\<close> is the one that cancels); one that always throws, beside others that do nothing
  (the callback \<open>0\<close> throws); one that sets to \<open>null\<close> the message of the template that
  the event carries.\<close>

definition suscriptor_mudo :: "'p suscriptor" where
  "suscriptor_mudo c ev w = (None, w)"

definition suscriptor_reset :: "plataforma \<Rightarrow> 'p suscriptor" where
  "suscriptor_reset P c ev w = (None, reset P w)"

definition suscriptor_baja :: "'p suscriptor" where
  "suscriptor_baja c ev w = (if c = 0 then (None, cancelar 0 w) else (None, w))"

definition suscriptor_falla :: "'p suscriptor" where
  "suscriptor_falla c ev w = (if c = 0 then (Some (Valor (Str (str ''fallo''))), w) else (None, w))"

definition suscriptor_tachador :: "'p suscriptor" where
  "suscriptor_tachador c ev w =
     (case ev_datos ev of
        DatosAgregada r n \<Rightarrow> (None, editar r (\<lambda>t. t\<lparr>mensaje := Null\<rparr>) w)
      | DatosEliminada r n \<Rightarrow> (None, editar r (\<lambda>t. t\<lparr>mensaje := Null\<rparr>) w)
      | _ \<Rightarrow> (None, w))"

text \<open>A subscriber that gives a new title to the template with the reference \<open>1\<close>.\<close>

definition suscriptor_editor :: "'p suscriptor" where
  "suscriptor_editor c ev w = (None, editar 1 (\<lambda>t. t\<lparr>titulo := Str (str ''Edited'')\<rparr>) w)"

text \<open>The subscriber that \<open>conectarPersistenciaConStore\<close> registers: it saves the
  Store's collection after every event.\<close>

definition suscriptor_persistencia :: "plataforma \<Rightarrow> 'p suscriptor" where
  "suscriptor_persistencia P c ev w =
     (let (a, w1) = getPlantillas w;
          (ok, w2) = guardarPlantillas P (leer_arreglo w1 a) w1
      in ((case ok of Inl e \<Rightarrow> Some e | Inr b \<Rightarrow> None), w2))"

text \<open>Stores: with the two example templates, and with two subscribers.\<close>

definition store_dos :: "unit suscriptor \<Rightarrow> unit mundo" where
  "store_dos cb =
     snd (agregarPlantilla plataforma_ejemplo cb (Instancia 1)
       (snd (agregarPlantilla plataforma_ejemplo cb (Instancia 0) store_ejemplo)))"

text \<open>The Store that holds the template with the object category and then the example
  template (both calls of \<open>agregarPlantilla\<close> return \<open>false\<close>).\<close>

definition store_raro :: "unit mundo" where
  "store_raro =
     snd (agregarPlantilla plataforma_ejemplo suscriptor_mudo (Instancia 0)
       (snd (agregarPlantilla plataforma_ejemplo suscriptor_mudo (Instancia 3) store_ejemplo)))"

text \<open>The Store after \<open>getPlantillas\<close>, whose result is the array \<open>1\<close>, and then an add.\<close>

definition store_copia :: "unit mundo" where
  "store_copia =
     snd (agregarPlantilla plataforma_ejemplo suscriptor_mudo (Instancia 0) (snd (getPlantillas store_ejemplo)))"

definition store_suscrito :: "unit mundo" where
  "store_suscrito = snd (suscribirse (Funcion 1) (snd (suscribirse (Funcion 0) store_ejemplo)))"

text \<open>Example documents and a platform that parses the strings of a table.\<close>

definition registro_bueno :: jsval where
  "registro_bueno =
     Obj [(str ''id'', Num 1000.5), (str ''titulo'', Str (str ''Welcome'')),
          (str ''mensaje'', Str (str ''Hi there'')), (str ''hashtag'', Str (str ''#hi'')),
          (str ''categoria'', Str (str ''support'')), (str ''fechaCreacion'', Str [7])]"

definition registro_malo :: jsval where
  "registro_malo =
     Obj [(str ''id'', Num 2), (str ''titulo'', Str []),
          (str ''mensaje'', Str (str ''See you'')), (str ''hashtag'', Str (str ''#bye'')),
          (str ''categoria'', Str (str ''support'')), (str ''fechaCreacion'', Str [8])]"

definition registro_respaldo :: jsval where
  "registro_respaldo =
     Obj [(str ''id'', Num 3), (str ''titulo'', Str (str ''Backup'')),
          (str ''mensaje'', Str (str ''Older text'')), (str ''hashtag'', Str (str ''#old'')),
          (str ''categoria'', Str (str ''sales'')), (str ''fechaCreacion'', Str [5])]"

text \<open>An entry that passes the validation and whose date cannot be constructed.\<close>

definition registro_sin_fecha :: jsval where
  "registro_sin_fecha =
     Obj [(str ''id'', Num 4), (str ''titulo'', Str (str ''Later'')),
          (str ''mensaje'', Str (str ''No date'')), (str ''hashtag'', Str (str ''#late'')),
          (str ''categoria'', Str (str ''sales'')),
          (str ''fechaCreacion'', Obj [(str ''toString'', Num 5)])]"

definition envoltorio_de :: "jsval list \<Rightarrow> jsval" where
  "envoltorio_de xs =
     Obj [(str ''version'', Str VERSION), (str ''timestamp'', Str [9]), (str ''plantillas'', Arr xs),
          (str ''metadata'', Obj [(str ''total'', Num (of_nat (length xs)))])]"

definition plataforma_mixta :: plataforma where
  "plataforma_mixta =
     plataforma_tabla [(str ''<mixto>'', envoltorio_de [registro_bueno, registro_malo]),
                       (str ''<respaldo>'', envoltorio_de [registro_respaldo, registro_sin_fecha]),
                       (str ''<uno>'', envoltorio_de [registro_bueno])]"

text \<open>The same platform with a clock that stands still.\<close>

definition plataforma_quieta :: plataforma where
  "plataforma_quieta = plataforma_mixta\<lparr>reloj := (\<lambda>n. 1000)\<rparr>"

definition empujar :: "nat list \<Rightarrow> nat list" where
  "empujar rs = rs @ [1]"

section \<open>Basic facts\<close>

lemma unidad_inj: "(of_nat (of_char c) :: 16 word) = of_nat (of_char d) \<longleftrightarrow> c = d"
proof
  assume h: "(of_nat (of_char c) :: 16 word) = of_nat (of_char d)"
  have c: "(of_char c :: nat) < 2 ^ 16"
    by (rule less_trans [OF nat_of_char_less_256]) simp
  have d: "(of_char d :: nat) < 2 ^ 16"
    by (rule less_trans [OF nat_of_char_less_256]) simp
  from h have "unat (of_nat (of_char c) :: 16 word) = unat (of_nat (of_char d) :: 16 word)"
    by simp
  with c d have "(of_char c :: nat) = of_char d"
    by (simp add: unat_of_nat take_bit_nat_eq_self_iff)
  then show "c = d" by simp
qed simp

lemma str_eq_iff [simp]: "str a = str b \<longleftrightarrow> a = b"
proof -
  have "inj (\<lambda>c. (of_nat (of_char c) :: 16 word))"
    by (rule injI) (simp add: unidad_inj)
  then show ?thesis
    unfolding str_def by (rule inj_map_eq_map)
qed

lemma str_vacia [simp]: "str a = [] \<longleftrightarrow> a = []"
  by (simp add: str_def)

lemma str_vacia2 [simp]: "[] = str a \<longleftrightarrow> a = []"
  by (simp add: str_def)

lemma lee_message_Some:
  "lee_message e = Some e' \<longleftrightarrow> e' = TypeError \<and> (e = Valor Undefined \<or> e = Valor Null)"
proof (cases e)
  case (Valor v)
  then show ?thesis by (cases v) auto
qed simp_all

lemma lee_message_None:
  "lee_message e = None \<longleftrightarrow> e \<noteq> Valor Undefined \<and> e \<noteq> Valor Null"
  using lee_message_Some [of e] by (cases "lee_message e") auto

lemma capturar_legible: "lee_message e = None \<Longrightarrow> capturar e w k = k (registrar (ErrorLog e) w)"
  by (simp add: capturar_def)

lemma capturar_TypeError [simp]: "capturar TypeError w k = k (registrar (ErrorLog TypeError) w)"
  by (simp add: capturar_def)

lemma unir_error: "unir xs = Inl e \<Longrightarrow> Inl e \<in> set xs"
  by (induction xs rule: unir.induct) (auto split: sum.splits)

lemma a_cadena_error: "a_cadena P v = Inl e \<Longrightarrow> e = TypeError"
proof (induction P v rule: a_cadena.induct)
  case (6 P xs)
  from 6(2) have "unir (map (\<lambda>x. if x = Undefined \<or> x = Null then Inr [] else a_cadena P x) xs) = Inl e"
    by simp
  from unir_error [OF this] obtain x where "x \<in> set xs" "x \<noteq> Undefined" "x \<noteq> Null" "a_cadena P x = Inl e"
    by (auto split: if_splits)
  with 6(1) show ?case by blast
qed (auto split: if_splits)

lemma clave_error: "clave P v = Inl e \<Longrightarrow> e = TypeError"
  by (simp add: clave_def a_cadena_error)

lemma clave_Str [simp]: "clave P (Str s) = Inr s"
  by (simp add: clave_def)

lemma nueva_fecha_error: "nueva_fecha P v = Inl e \<Longrightarrow> e = TypeError"
  by (auto simp: nueva_fecha_def split: if_splits sum.splits dest: a_cadena_error)

lemma nueva_fecha_Str [simp]: "nueva_fecha P (Str s) = Inr (fecha_de P (Str s))"
  by (simp add: nueva_fecha_def)

lemma acumular_error: "acumular P acc ps = Inl e \<Longrightarrow> e = TypeError"
  by (induction ps arbitrary: acc) (auto split: sum.splits dest: clave_error)

lemma acumular_isl: "isl (acumular P acc ps) \<longleftrightarrow> \<not> categorias_convertibles P ps"
  by (induction ps arbitrary: acc) (auto simp: categorias_convertibles_def split: sum.splits)

lemma obtenerCategorias_error: "obtenerCategorias P ps = Inl e \<Longrightarrow> e = TypeError"
  by (simp add: obtenerCategorias_def acumular_error)

lemma obtenerCategorias_isl: "isl (obtenerCategorias P ps) \<longleftrightarrow> \<not> categorias_convertibles P ps"
  by (simp add: obtenerCategorias_def acumular_isl)

lemma getEstadisticas_error: "getEstadisticas P w = Inl e \<Longrightarrow> e = TypeError"
  by (auto simp: getEstadisticas_def split: sum.splits dest: obtenerCategorias_error)

lemma getEstadisticas_isl: "isl (getEstadisticas P w) \<longleftrightarrow> \<not> categorias_convertibles P (contenido w)"
  using obtenerCategorias_isl [of P "contenido w"]
  by (auto simp: getEstadisticas_def split: sum.splits)

lemma registrar_conserva [simp]:
  "contenido (registrar d w) = contenido w"
  "referencias (registrar d w) = referencias w"
  "objetos (registrar d w) = objetos w"
  "libre (registrar d w) = libre w"
  "suscriptores (registrar d w) = suscriptores w"
  "almacen (registrar d w) = almacen w"
  "lecturas (registrar d w) = lecturas w"
  "plantillas (registrar d w) = plantillas w"
  "monton (registrar d w) = monton w"
  "siguiente (registrar d w) = siguiente w"
  "asignado (registrar d w) = asignado w"
  by (simp_all add: registrar_def contenido_def referencias_def asignado_def)

lemma mostrarNotificacionPersistencia_conserva [simp]:
  "contenido (mostrarNotificacionPersistencia m k w) = contenido w"
  "referencias (mostrarNotificacionPersistencia m k w) = referencias w"
  "objetos (mostrarNotificacionPersistencia m k w) = objetos w"
  "libre (mostrarNotificacionPersistencia m k w) = libre w"
  "suscriptores (mostrarNotificacionPersistencia m k w) = suscriptores w"
  "almacen (mostrarNotificacionPersistencia m k w) = almacen w"
  "lecturas (mostrarNotificacionPersistencia m k w) = lecturas w"
  "plantillas (mostrarNotificacionPersistencia m k w) = plantillas w"
  "monton (mostrarNotificacionPersistencia m k w) = monton w"
  "siguiente (mostrarNotificacionPersistencia m k w) = siguiente w"
  "asignado (mostrarNotificacionPersistencia m k w) = asignado w"
  by (simp_all add: mostrarNotificacionPersistencia_def contenido_def referencias_def asignado_def)

lemma falta_falsy: "falta v \<Longrightarrow> \<not> truthy v"
  by (auto simp: falta_def)

lemma propiedad_truthy: "truthy v \<Longrightarrow> \<exists>x. propiedad v k = Inr x"
  by (cases v) simp_all

lemma propiedad_leer: "truthy x \<Longrightarrow> propiedad x (str k) = Inr (leer x k)"
  by (cases x) (simp_all add: leer_def)

lemma getEstadoLocal_valida:
  "esValida t \<Longrightarrow> metodo_estado t = DeLaClase \<Longrightarrow> \<not> isl (getEstadoLocal t)"
  using propiedad_truthy [of "mensaje t" "str ''length''"]
  by (auto simp: getEstadoLocal_def esValida_def)

lemma mismo_store_refl [simp]: "mismo_store w w"
  by (simp add: mismo_store_def)

lemma mismo_store_trans: "mismo_store w w1 \<Longrightarrow> mismo_store w1 w2 \<Longrightarrow> mismo_store w w2"
  by (simp add: mismo_store_def)

lemma mismo_store_contenido:
  "mismo_store w w' \<Longrightarrow> contenido w' = contenido w \<and> referencias w' = referencias w \<and> asignado w' = asignado w"
  by (simp add: mismo_store_def contenido_def referencias_def asignado_def)

lemma mismo_entorno_refl [simp]: "mismo_entorno w w"
  by (simp add: mismo_entorno_def)

lemma mismo_registrar_iff [simp]:
  "mismo_store w (registrar d w1) = mismo_store w w1"
  "mismo_entorno w (registrar d w1) = mismo_entorno w w1"
  "mismo_store w (mostrarNotificacionPersistencia m k w1) = mismo_store w w1"
  "mismo_entorno w (mostrarNotificacionPersistencia m k w1) = mismo_entorno w w1"
  "mismo_store (registrar d w1) w = mismo_store w1 w"
  "mismo_store (mostrarNotificacionPersistencia m k w1) w = mismo_store w1 w"
  by (simp_all add: mismo_store_def mismo_entorno_def registrar_def mostrarNotificacionPersistencia_def)

section \<open>Notifying the subscribers\<close>

lemma recorrer_conserva:
  assumes cb: "\<And>c ev w. I w \<Longrightarrow> I (snd (cb c ev w)) \<and> g (snd (cb c ev w)) = g w"
    and reg: "\<And>d w. I w \<Longrightarrow> I (registrar d w) \<and> g (registrar d w) = g w"
  shows "I w \<Longrightarrow> I (snd (recorrer cb ev n k w)) \<and> g (snd (recorrer cb ev n k w)) = g w"
proof (induction n arbitrary: k w)
  case 0
  then show ?case by simp
next
  case (Suc n)
  show ?case
  proof (cases "k < length (suscriptores w)")
    case False
    with Suc show ?thesis by simp
  next
    case True
    obtain r w1 where r: "cb (suscriptores w ! k) ev w = (r, w1)"
      by (cases "cb (suscriptores w ! k) ev w")
    from cb [OF Suc.prems, of "suscriptores w ! k" ev] r
    have w1: "I w1" "g w1 = g w" by simp_all
    show ?thesis
    proof (cases r)
      case None
      with True r Suc.IH [OF w1(1), of "Suc k"] w1 show ?thesis
        by (auto simp: Let_def split: prod.splits)
    next
      case (Some e)
      from reg [OF w1(1), of "ErrorLog e"] w1
      have w2: "I (registrar (ErrorLog e) w1)" "g (registrar (ErrorLog e) w1) = g w" by simp_all
      with Some True r Suc.IH [OF w2(1), of "Suc k"] show ?thesis
        by (auto simp: Let_def split: prod.splits)
    qed
  qed
qed

lemma recorrer_invariante:
  assumes cb: "\<And>c ev w. I w \<Longrightarrow> I (snd (cb c ev w))"
    and reg: "\<And>d w. I w \<Longrightarrow> I (registrar d w)"
  shows "I w \<Longrightarrow> I (snd (recorrer cb ev n k w))"
  using recorrer_conserva [where I = I and g = "\<lambda>w. ()" and cb = cb] cb reg by simp

lemma recorrer_traza:
  assumes fijo: "\<And>c ev w. suscriptores (snd (cb c ev w)) = suscriptores w"
  shows "fst (recorrer cb ev n k w) = take n (drop k (suscriptores w))
         \<and> suscriptores (snd (recorrer cb ev n k w)) = suscriptores w"
proof (induction n arbitrary: k w)
  case 0
  then show ?case by simp
next
  case (Suc n)
  show ?case
  proof (cases "k < length (suscriptores w)")
    case False
    with Suc show ?thesis by simp
  next
    case True
    obtain r w1 where r: "cb (suscriptores w ! k) ev w = (r, w1)"
      by (cases "cb (suscriptores w ! k) ev w")
    from fijo [of "suscriptores w ! k" ev w] r
    have w1: "suscriptores w1 = suscriptores w" by simp
    have d: "drop k (suscriptores w) = suscriptores w ! k # drop (Suc k) (suscriptores w)"
      using True by (simp add: Cons_nth_drop_Suc)
    show ?thesis
    proof (cases r)
      case None
      with True r Suc.IH [of "Suc k" w1] w1 d show ?thesis
        by (auto simp: Let_def split: prod.splits)
    next
      case (Some e)
      have "suscriptores (registrar (ErrorLog e) w1) = suscriptores w"
        using w1 by (simp add: registrar_def)
      with Some True r Suc.IH [of "Suc k" "registrar (ErrorLog e) w1"] d show ?thesis
        by (auto simp: Let_def split: prod.splits)
    qed
  qed
qed

text \<open>The two outcomes of a notification.\<close>

lemma notificarCambios_falla:
  assumes "\<not> categorias_convertibles P (contenido w)"
  shows "notificarCambios P cb tipo datos w = (Some TypeError, [], w)"
proof -
  from assms obtain e where e: "getEstadisticas P w = Inl e"
    using getEstadisticas_isl [of P w] by (cases "getEstadisticas P w") auto
  with getEstadisticas_error [OF e] show ?thesis
    by (simp add: notificarCambios_def)
qed

lemma notificarCambios_llama:
  assumes "categorias_convertibles P (contenido w)"
  shows "\<exists>ev. notificarCambios P cb tipo datos w
           = (None, recorrer cb ev (length (suscriptores w)) 0 (w\<lparr>lecturas := Suc (lecturas w)\<rparr>))"
proof -
  from assms obtain est where "getEstadisticas P w = Inr est"
    using getEstadisticas_isl [of P w] by (cases "getEstadisticas P w") auto
  then have "notificarCambios P cb tipo datos w
      = (None, recorrer cb \<lparr>ev_tipo = tipo, ev_datos = datos, ev_estadisticas = est,
                              ev_timestamp = reloj P (lecturas w)\<rparr>
                 (length (suscriptores w)) 0 (w\<lparr>lecturas := Suc (lecturas w)\<rparr>))"
    by (simp add: notificarCambios_def ahora_def Let_def split: prod.splits)
  then show ?thesis by blast
qed

lemma notificarCambios_error: "fst (notificarCambios P cb tipo datos w) = Some e \<Longrightarrow> e = TypeError"
  using notificarCambios_falla [of P w cb tipo datos] notificarCambios_llama [of P w cb tipo datos]
  by (cases "categorias_convertibles P (contenido w)") auto

lemma notificarCambios_exito:
  "fst (notificarCambios P cb tipo datos w) = None \<longleftrightarrow> categorias_convertibles P (contenido w)"
  using notificarCambios_falla [of P w cb tipo datos] notificarCambios_llama [of P w cb tipo datos]
  by (cases "categorias_convertibles P (contenido w)") auto

lemma notificarCambios_conserva:
  assumes cb: "\<And>c ev w. I w \<Longrightarrow> I (snd (cb c ev w)) \<and> g (snd (cb c ev w)) = g w"
    and reg: "\<And>d w. I w \<Longrightarrow> I (registrar d w) \<and> g (registrar d w) = g w"
    and lec: "\<And>n w. I w \<Longrightarrow> I (w\<lparr>lecturas := n\<rparr>) \<and> g (w\<lparr>lecturas := n\<rparr>) = g w"
    and w: "I w"
  shows "I (snd (snd (notificarCambios P cb tipo datos w)))
       \<and> g (snd (snd (notificarCambios P cb tipo datos w))) = g w"
proof (cases "categorias_convertibles P (contenido w)")
  case False
  with w show ?thesis by (simp add: notificarCambios_falla)
next
  case True
  let ?w1 = "w\<lparr>lecturas := Suc (lecturas w)\<rparr>"
  from notificarCambios_llama [OF True, of cb tipo datos] obtain ev where
    n: "notificarCambios P cb tipo datos w = (None, recorrer cb ev (length (suscriptores w)) 0 ?w1)"
    by blast
  from lec [OF w, of "Suc (lecturas w)"] have w1: "I ?w1" "g ?w1 = g w" by simp_all
  from recorrer_conserva [where I = I and g = g and cb = cb and ev = ev
      and n = "length (suscriptores w)" and k = 0, OF cb reg w1(1)] w1(2)
  show ?thesis by (simp add: n)
qed

lemma notificarCambios_discreto:
  assumes "discreto cb" and "asignado w"
  shows "asignado (snd (snd (notificarCambios P cb tipo datos w)))
       \<and> referencias (snd (snd (notificarCambios P cb tipo datos w))) = referencias w
       \<and> contenido (snd (snd (notificarCambios P cb tipo datos w))) = contenido w"
proof -
  let ?w' = "snd (snd (notificarCambios P cb tipo datos w))"
  have "asignado ?w' \<and> (referencias ?w', contenido ?w') = (referencias w, contenido w)"
  proof (rule notificarCambios_conserva [where I = asignado and g = "\<lambda>w. (referencias w, contenido w)"])
    fix c ev and w1 :: "'a mundo"
    assume "asignado w1"
    with assms(1) show "asignado (snd (cb c ev w1))
        \<and> (referencias (snd (cb c ev w1)), contenido (snd (cb c ev w1))) = (referencias w1, contenido w1)"
      by (simp add: discreto_def)
  next
    fix d and w1 :: "'a mundo"
    assume "asignado w1"
    then show "asignado (registrar d w1)
        \<and> (referencias (registrar d w1), contenido (registrar d w1)) = (referencias w1, contenido w1)"
      by (simp add: asignado_def referencias_def contenido_def registrar_def)
  next
    fix n and w1 :: "'a mundo"
    assume "asignado w1"
    then show "asignado (w1\<lparr>lecturas := n\<rparr>)
        \<and> (referencias (w1\<lparr>lecturas := n\<rparr>), contenido (w1\<lparr>lecturas := n\<rparr>))
            = (referencias w1, contenido w1)"
      by (simp add: asignado_def referencias_def contenido_def)
  next
    show "asignado w" by fact
  qed
  then show ?thesis by simp
qed

lemma notificarCambios_traza:
  assumes "fijo cb" and "categorias_convertibles P (contenido w)"
  shows "fst (snd (notificarCambios P cb tipo datos w)) = suscriptores w
         \<and> suscriptores (snd (snd (notificarCambios P cb tipo datos w))) = suscriptores w"
proof -
  let ?w1 = "w\<lparr>lecturas := Suc (lecturas w)\<rparr>"
  from notificarCambios_llama [OF assms(2), of cb tipo datos] obtain ev where
    n: "notificarCambios P cb tipo datos w = (None, recorrer cb ev (length (suscriptores w)) 0 ?w1)"
    by blast
  have "fst (recorrer cb ev n k ?w1) = take n (drop k (suscriptores ?w1))
        \<and> suscriptores (snd (recorrer cb ev n k ?w1)) = suscriptores ?w1" for n k
    using assms(1) by (intro recorrer_traza) (simp add: fijo_def)
  from this [of "length (suscriptores w)" 0] show ?thesis
    by (simp add: n)
qed

lemma avanza_refl: "asignado w \<Longrightarrow> avanza w w"
  by (simp add: avanza_def asignado_def)

lemma avanza_trans: "avanza w w1 \<Longrightarrow> avanza w1 w2 \<Longrightarrow> avanza w w2"
  by (auto simp: avanza_def)

lemma avanza_asignado: "avanza w w' \<Longrightarrow> asignado w'"
  by (simp add: avanza_def asignado_def)

lemma notificarCambios_avanza:
  assumes "ordenado cb" and "asignado w"
  shows "avanza w (snd (snd (notificarCambios P cb tipo datos w)))"
proof -
  have "avanza w (snd (snd (notificarCambios P cb tipo datos w))) \<and> () = ()"
  proof (rule notificarCambios_conserva [where I = "avanza w" and g = "\<lambda>w. ()"])
    fix c ev w1
    assume a: "avanza w w1"
    from assms(1) avanza_asignado [OF a] have "avanza w1 (snd (cb c ev w1))"
      by (simp add: ordenado_def)
    with a show "avanza w (snd (cb c ev w1)) \<and> () = ()"
      by (auto intro: avanza_trans)
  next
    fix d w1
    assume "avanza w w1"
    then show "avanza w (registrar d w1) \<and> () = ()"
      by (simp add: avanza_def)
  next
    fix n w1
    assume "avanza w w1"
    then show "avanza w (w1\<lparr>lecturas := n\<rparr>) \<and> () = ()"
      by (simp add: avanza_def)
  next
    show "avanza w w" using assms(2) by (rule avanza_refl)
  qed
  then show ?thesis by simp
qed

section \<open>What loading returns\<close>

lemma marco_refl [simp]: "marco w w"
  by (simp add: marco_def)

lemma marco_trans: "marco w w1 \<Longrightarrow> marco w1 w2 \<Longrightarrow> marco w w2"
  by (auto simp: marco_def)

lemma marco_registrar [simp]:
  "marco w (registrar d w1) = marco w w1"
  "marco w (mostrarNotificacionPersistencia m k w1) = marco w w1"
  "marco (registrar d w1) w = marco w1 w"
  "marco (mostrarNotificacionPersistencia m k w1) w = marco w1 w"
  by (simp_all add: marco_def registrar_def mostrarNotificacionPersistencia_def)

lemma validar_forma: "fst (validarEstructuraDatos datos w) = forma_valida datos"
  by (cases "leer datos ''plantillas''") (auto simp: validarEstructuraDatos_def forma_valida_def)

lemma validar_mundo:
  "snd (validarEstructuraDatos datos w) = w \<or> snd (validarEstructuraDatos datos w) = registrar VersionDistinta w"
  by (simp add: validarEstructuraDatos_def)

lemma validar_frame:
  "mismo_store w (snd (validarEstructuraDatos datos w)) \<and> mismo_entorno w (snd (validarEstructuraDatos datos w))"
  using validar_mundo [of datos w] by auto

lemma deserializarPlantilla_construye:
  assumes "truthy x" and "se_construye P x"
  shows "deserializarPlantilla P x w =
           (Inr (libre w),
            w\<lparr>lecturas := Suc (lecturas w),
              objetos := (objetos w)(libre w := construida P (lecturas w) x),
              libre := Suc (libre w)\<rparr>)"
proof -
  from assms(2) obtain f where f: "nueva_fecha P (leer x ''fechaCreacion'') = Inr f"
    by (cases "nueva_fecha P (leer x ''fechaCreacion'')") (auto simp: se_construye_def)
  then show ?thesis
    by (simp add: deserializarPlantilla_def propiedad_leer [OF assms(1)] Template_def id_nuevo_def
        nuevo_objeto_def construida_def)
qed

lemma deserializarPlantilla_descarta:
  assumes "truthy x" and "\<not> se_construye P x"
  shows "deserializarPlantilla P x w = (Inl TypeError, w)"
proof -
  from assms(2) obtain e where e: "nueva_fecha P (leer x ''fechaCreacion'') = Inl e"
    by (cases "nueva_fecha P (leer x ''fechaCreacion'')") (auto simp: se_construye_def)
  with nueva_fecha_error [OF e] show ?thesis
    by (simp add: deserializarPlantilla_def propiedad_leer [OF assms(1)])
qed

lemma deserializarTodas_resultado:
  assumes "list_all truthy xs"
  shows "\<exists>rs w'. deserializarTodas P xs w = (Inr rs, w')
     \<and> libre w \<le> libre w'
     \<and> lecturas w' = lecturas w + length (filter (se_construye P) xs)
     \<and> (\<forall>r < libre w. objetos w' r = objetos w r)
     \<and> map (objetos w') rs = construidas P (lecturas w) (filter (se_construye P) xs)
     \<and> monton w' = monton w \<and> siguiente w' = siguiente w \<and> plantillas w' = plantillas w
     \<and> suscriptores w' = suscriptores w \<and> almacen w' = almacen w
     \<and> ultimaActualizacion w' = ultimaActualizacion w
     \<and> persistenciaHabilitada w' = persistenciaHabilitada w"
  using assms
proof (induction xs arbitrary: w)
  case Nil
  then show ?case by simp
next
  case (Cons x xs)
  then have x: "truthy x" and xs: "list_all truthy xs" by simp_all
  let ?m = "length (filter (se_construye P) xs)"
  show ?case
  proof (cases "se_construye P x")
    case False
    let ?w1 = "registrar (ErrorLog TypeError) w"
    from Cons.IH [OF xs, of ?w1] obtain rs w' where
      d: "deserializarTodas P xs ?w1 = (Inr rs, w')"
      and r: "libre w \<le> libre w'" "lecturas w' = lecturas w + ?m"
        "\<forall>r < libre w. objetos w' r = objetos w r"
        "map (objetos w') rs = construidas P (lecturas w) (filter (se_construye P) xs)"
        "monton w' = monton w" "siguiente w' = siguiente w" "plantillas w' = plantillas w"
        "suscriptores w' = suscriptores w" "almacen w' = almacen w"
        "ultimaActualizacion w' = ultimaActualizacion w"
        "persistenciaHabilitada w' = persistenciaHabilitada w"
      by (auto simp: registrar_def)
    have "deserializarTodas P (x # xs) w = (Inr rs, w')"
      by (simp add: deserializarPlantilla_descarta [OF x False] d)
    with r False show ?thesis by simp
  next
    case True
    let ?w1 = "w\<lparr>lecturas := Suc (lecturas w),
                  objetos := (objetos w)(libre w := construida P (lecturas w) x),
                  libre := Suc (libre w)\<rparr>"
    from Cons.IH [OF xs, of ?w1] obtain rs w' where
      d: "deserializarTodas P xs ?w1 = (Inr rs, w')"
      and r: "Suc (libre w) \<le> libre w'" "lecturas w' = Suc (lecturas w) + ?m"
        "\<forall>r < Suc (libre w). objetos w' r = ((objetos w)(libre w := construida P (lecturas w) x)) r"
        "map (objetos w') rs = construidas P (Suc (lecturas w)) (filter (se_construye P) xs)"
        "monton w' = monton w" "siguiente w' = siguiente w" "plantillas w' = plantillas w"
        "suscriptores w' = suscriptores w" "almacen w' = almacen w"
        "ultimaActualizacion w' = ultimaActualizacion w"
        "persistenciaHabilitada w' = persistenciaHabilitada w"
      by auto
    have "deserializarTodas P (x # xs) w = (Inr (libre w # rs), w')"
      by (simp add: deserializarPlantilla_construye [OF x True] d)
    moreover from r(3) have "objetos w' (libre w) = construida P (lecturas w) x"
      by simp
    moreover from r(3) have "\<forall>r < libre w. objetos w' r = objetos w r"
      by simp
    ultimately show ?thesis
      using r True by simp
  qed
qed

lemma entrada_valida_truthy: "list_all entrada_valida xs \<Longrightarrow> list_all truthy xs"
  by (induction xs) (simp_all add: entrada_valida_def)

lemma respaldo_valido_entorno: "almacen w' = almacen w \<Longrightarrow> respaldo_valido P w' = respaldo_valido P w"
  by (simp add: respaldo_valido_def)

lemma envoltorio_entradas:
  "envoltorio P s = Some d \<Longrightarrow> list_all entrada_valida (elementos (leer d ''plantillas''))"
  by (auto simp: envoltorio_def forma_valida_def split: option.splits if_splits)

text \<open>A stored string with a valid envelope: the array returned is new and holds the
  templates made from the entries whose date can be constructed.\<close>

lemma procesar_valido:
  assumes "envoltorio P s = Some d"
  shows "\<exists>w'. procesarDatosGuardados P s w = (Inr (siguiente w), w')
           \<and> leer_arreglo w' (siguiente w) = construidas P (lecturas w) (aceptadas P d)
           \<and> siguiente w' = Suc (siguiente w)
           \<and> marco w w' \<and> almacen w' = almacen w"
proof -
  from assms have p: "json_parse P s = Some d" and f: "forma_valida d"
    by (auto simp: envoltorio_def split: option.splits if_splits)
  obtain xs where xs: "leer d ''plantillas'' = Arr xs"
    using f by (cases "leer d ''plantillas''") (simp_all add: forma_valida_def)
  from f have t: "truthy d" and vs: "list_all entrada_valida xs"
    by (simp_all add: forma_valida_def xs)
  have pr: "propiedad d (str ''plantillas'') = Inr (Arr xs)"
    using propiedad_leer [OF t, of "''plantillas''"] xs by simp
  obtain w1 where v: "validarEstructuraDatos d w = (True, w1)"
    using validar_forma [of d w] f by (cases "validarEstructuraDatos d w") simp
  have m1: "mismo_store w w1" "mismo_entorno w w1"
    using validar_frame [of w d] v by simp_all
  from deserializarTodas_resultado [OF entrada_valida_truthy [OF vs], of P w1] obtain rs w2 where
    d: "deserializarTodas P xs w1 = (Inr rs, w2)"
    and r: "libre w1 \<le> libre w2"
      "\<forall>r < libre w1. objetos w2 r = objetos w1 r"
      "map (objetos w2) rs = construidas P (lecturas w1) (filter (se_construye P) xs)"
      "monton w2 = monton w1" "siguiente w2 = siguiente w1" "plantillas w2 = plantillas w1"
      "suscriptores w2 = suscriptores w1" "almacen w2 = almacen w1"
      "ultimaActualizacion w2 = ultimaActualizacion w1"
      "persistenciaHabilitada w2 = persistenciaHabilitada w1"
    by blast
  let ?w3 = "w2\<lparr>monton := (monton w2)(siguiente w2 := rs), siguiente := Suc (siguiente w2)\<rparr>"
  have "procesarDatosGuardados P s w = (Inr (siguiente w2), ?w3)"
    by (simp add: procesarDatosGuardados_def procesarDatosGuardados_try_def p v pr d nuevo_arreglo_def)
  moreover have "siguiente w2 = siguiente w"
    using r m1 by (simp add: mismo_store_def)
  moreover have "leer_arreglo ?w3 (siguiente w) = construidas P (lecturas w) (aceptadas P d)"
    using r m1 by (simp add: leer_arreglo_def aceptadas_def xs mismo_store_def mismo_entorno_def)
  moreover have "marco w ?w3"
    using r m1 by (simp add: marco_def mismo_store_def)
  moreover have "almacen ?w3 = almacen w"
    using r m1 by (simp add: mismo_entorno_def)
  ultimately show ?thesis by simp
qed

lemma procesar_invalido:
  assumes "envoltorio P s = None"
  shows "\<exists>e w'. procesarDatosGuardados P s w = (Inl (DatosCorruptos e), w')
           \<and> mismo_store w w' \<and> mismo_entorno w w'"
proof (cases "json_parse P s")
  case None
  then show ?thesis
    by (simp add: procesarDatosGuardados_def procesarDatosGuardados_try_def capturar_def)
next
  case (Some d)
  with assms have f: "\<not> forma_valida d"
    by (auto simp: envoltorio_def split: if_splits)
  obtain w1 where v: "validarEstructuraDatos d w = (False, w1)"
    using validar_forma [of d w] f by (cases "validarEstructuraDatos d w") simp
  have "mismo_store w w1" "mismo_entorno w w1"
    using validar_frame [of w d] v by simp_all
  then show ?thesis
    by (simp add: procesarDatosGuardados_def procesarDatosGuardados_try_def Some v capturar_def)
qed

lemma mismo_store_marco: "mismo_store w w' \<Longrightarrow> marco w w'"
  by (simp add: mismo_store_def marco_def)

lemma obtenerPlantillasDefault_resultado:
  "\<exists>w'. obtenerPlantillasDefault P w = (siguiente w, w')
     \<and> map textos (leer_arreglo w' (siguiente w)) = textos_default
     \<and> list_all (\<lambda>t. metodo_estado t = DeLaClase) (leer_arreglo w' (siguiente w))
     \<and> siguiente w' = Suc (siguiente w)
     \<and> marco w w' \<and> almacen w' = almacen w"
  by (simp add: obtenerPlantillasDefault_def Template_def ahora_def id_nuevo_def nuevo_objeto_def
      nuevo_arreglo_def Let_def textos_def textos_default_def marco_def leer_arreglo_def)

lemma carga_marco:
  assumes "marco w w1" and "almacen w1 = almacen w" and "siguiente w1 = siguiente w"
    and "carga w1 a w'"
  shows "carga w a w'"
  using assms by (auto simp: carga_def intro: marco_trans)

lemma intentarRecuperacion_resultado:
  "\<exists>a w'. intentarRecuperacion P w = (Inr a, w') \<and> carga w a w'
     \<and> (case respaldo_valido P w of
           Some d \<Rightarrow> leer_arreglo w' a = construidas P (lecturas w) (aceptadas P d)
         | None \<Rightarrow> map textos (leer_arreglo w' a) = textos_default)"
proof (cases "respaldo_valido P w")
  case None
  have def: "\<exists>w'. obtenerPlantillasDefault P w0 = (siguiente w0, w')
      \<and> map textos (leer_arreglo w' (siguiente w0)) = textos_default \<and> carga w0 (siguiente w0) w'"
    for w0 :: "'a mundo"
    using obtenerPlantillasDefault_resultado [of P w0] by (auto simp: carga_def)
  show ?thesis
  proof (cases "almacen w BACKUP_KEY")
    case n: None
    with None def [of w] show ?thesis
      by (auto simp: intentarRecuperacion_def)
  next
    case (Some b)
    show ?thesis
    proof (cases "b = []")
      case True
      with None Some def [of w] show ?thesis
        by (auto simp: intentarRecuperacion_def)
    next
      case False
      with None Some have "envoltorio P b = None"
        by (simp add: respaldo_valido_def)
      then obtain e w1 where p: "procesarDatosGuardados P b w = (Inl (DatosCorruptos e), w1)"
        and m: "mismo_store w w1" "mismo_entorno w w1"
        using procesar_invalido by blast
      let ?w2 = "registrar (ErrorLog (DatosCorruptos e)) w1"
      from def [of ?w2] obtain w' where
        o: "obtenerPlantillasDefault P ?w2 = (siguiente ?w2, w')"
        and t: "map textos (leer_arreglo w' (siguiente ?w2)) = textos_default"
        and c: "carga ?w2 (siguiente ?w2) w'"
        by blast
      have s: "siguiente ?w2 = siguiente w" "almacen ?w2 = almacen w" "marco w ?w2"
        using m by (simp_all add: mismo_store_def mismo_entorno_def mismo_store_marco)
      have "intentarRecuperacion P w = (Inr (siguiente ?w2), w')"
        using Some False p o by (simp add: intentarRecuperacion_def capturar_def)
      moreover have "carga w (siguiente ?w2) w'"
        using carga_marco [OF s(3) s(2) s(1) c] .
      ultimately show ?thesis
        using None t by simp
    qed
  qed
next
  case (Some d)
  then obtain b where b: "almacen w BACKUP_KEY = Some b" "b \<noteq> []" "envoltorio P b = Some d"
    by (auto simp: respaldo_valido_def split: option.splits if_splits)
  from procesar_valido [OF b(3), of w] obtain w1 where
    p: "procesarDatosGuardados P b w = (Inr (siguiente w), w1)"
    and c: "leer_arreglo w1 (siguiente w) = construidas P (lecturas w) (aceptadas P d)"
    and m: "siguiente w1 = Suc (siguiente w)" "marco w w1" "almacen w1 = almacen w"
    by blast
  let ?w2 = "mostrarNotificacionPersistencia AvisoRecuperadas ''warning'' w1"
  have "intentarRecuperacion P w = (Inr (siguiente w), ?w2)"
    using b p by (simp add: intentarRecuperacion_def)
  moreover have "carga w (siguiente w) ?w2"
    using m by (simp add: carga_def)
  moreover have "leer_arreglo ?w2 (siguiente w) = construidas P (lecturas w) (aceptadas P d)"
    using c by (simp add: leer_arreglo_def)
  ultimately show ?thesis
    using Some by simp
qed

lemma cargarPlantillas_recuperacion:
  assumes "almacen w STORAGE_KEY = Some s" and "s \<noteq> []" and "envoltorio P s = None"
  shows "\<exists>a w'. cargarPlantillas P w = (Inr a, w') \<and> carga w a w'
     \<and> (case respaldo_valido P w of
           Some d \<Rightarrow> leer_arreglo w' a = construidas P (lecturas w) (aceptadas P d)
         | None \<Rightarrow> map textos (leer_arreglo w' a) = textos_default)"
proof -
  obtain e w1 where p: "procesarDatosGuardados P s w = (Inl (DatosCorruptos e), w1)"
    and m: "mismo_store w w1" "mismo_entorno w w1"
    using procesar_invalido [OF assms(3)] by blast
  let ?w2 = "mostrarNotificacionPersistencia AvisoErrorCargar ''warning''
               (registrar (ErrorLog (DatosCorruptos e)) w1)"
  have s: "siguiente ?w2 = siguiente w" "almacen ?w2 = almacen w" "marco w ?w2"
      "lecturas ?w2 = lecturas w"
    using m by (simp_all add: mismo_store_def mismo_entorno_def mismo_store_marco)
  have c: "cargarPlantillas P w = intentarRecuperacion P ?w2"
    by (simp add: cargarPlantillas_def cargarPlantillas_try_def assms(1,2) p capturar_def)
  from intentarRecuperacion_resultado [of P ?w2] obtain a w' where
    i: "intentarRecuperacion P ?w2 = (Inr a, w')" "carga ?w2 a w'"
      "case respaldo_valido P ?w2 of
           Some d \<Rightarrow> leer_arreglo w' a = construidas P (lecturas ?w2) (aceptadas P d)
         | None \<Rightarrow> map textos (leer_arreglo w' a) = textos_default"
    by blast
  from i(3) have "case respaldo_valido P w of
           Some d \<Rightarrow> leer_arreglo w' a = construidas P (lecturas w) (aceptadas P d)
         | None \<Rightarrow> map textos (leer_arreglo w' a) = textos_default"
    by (simp only: respaldo_valido_entorno [OF s(2)] s(4))
  with i(1) carga_marco [OF s(3) s(2) s(1) i(2)] show ?thesis
    by (simp add: c)
qed

lemma cargarPlantillas_valido:
  assumes "almacen w STORAGE_KEY = Some s" and "s \<noteq> []" and "envoltorio P s = Some d"
  shows "\<exists>a w'. cargarPlantillas P w = (Inr a, w') \<and> carga w a w'
     \<and> leer_arreglo w' a = construidas P (lecturas w) (aceptadas P d)"
proof -
  from procesar_valido [OF assms(3), of w] obtain w1 where
    p: "procesarDatosGuardados P s w = (Inr (siguiente w), w1)"
    and c: "leer_arreglo w1 (siguiente w) = construidas P (lecturas w) (aceptadas P d)"
    and m: "siguiente w1 = Suc (siguiente w)" "marco w w1" "almacen w1 = almacen w"
    by blast
  let ?w2 = "if 0 < length (monton w1 (siguiente w))
             then mostrarNotificacionPersistencia (AvisoCargadas (length (monton w1 (siguiente w)))) ''info'' w1
             else w1"
  have "cargarPlantillas P w = (Inr (siguiente w), ?w2)"
    by (simp add: cargarPlantillas_def cargarPlantillas_try_def assms(1,2) p)
  moreover have "carga w (siguiente w) ?w2"
    using m by (simp add: carga_def)
  moreover have "leer_arreglo ?w2 (siguiente w) = leer_arreglo w1 (siguiente w)"
    by (simp add: leer_arreglo_def)
  ultimately show ?thesis
    using c by (simp only:) blast
qed

lemma cargarPlantillas_sin_datos:
  assumes "almacen w STORAGE_KEY = None \<or> almacen w STORAGE_KEY = Some []"
  shows "\<exists>a w'. cargarPlantillas P w = (Inr a, w') \<and> carga w a w'
     \<and> map textos (leer_arreglo w' a) = textos_default"
  using assms obtenerPlantillasDefault_resultado [of P w]
  by (auto simp: cargarPlantillas_def cargarPlantillas_try_def carga_def)

lemma cargarPlantillas_total:
  "\<exists>a w'. cargarPlantillas P w = (Inr a, w') \<and> carga w a w'"
proof (cases "almacen w STORAGE_KEY")
  case None
  with cargarPlantillas_sin_datos [of w P] show ?thesis by blast
next
  case (Some s)
  show ?thesis
  proof (cases "s = []")
    case True
    with Some cargarPlantillas_sin_datos [of w P] show ?thesis by blast
  next
    case False
    show ?thesis
    proof (cases "envoltorio P s")
      case None
      from cargarPlantillas_recuperacion [OF Some False None] show ?thesis by blast
    next
      case e: (Some d)
      from cargarPlantillas_valido [OF Some False e] show ?thesis by blast
    qed
  qed
qed

section \<open>The operations of the Store\<close>

lemma capturar_falso:
  "(fst (capturar e w (\<lambda>w2. (Inr False, w2))) = Inr False \<and> lee_message e = None
      \<and> snd (capturar e w (\<lambda>w2. (Inr False, w2))) = registrar (ErrorLog e) w)
   \<or> (fst (capturar e w (\<lambda>w2. (Inr False, w2))) = Inl TypeError
      \<and> (e = Valor Undefined \<or> e = Valor Null)
      \<and> snd (capturar e w (\<lambda>w2. (Inr False, w2))) = w)"
  using lee_message_Some [of e]
  by (cases "lee_message e") (auto simp: capturar_def)

lemma capturar_falso_objetos [simp]:
  "objetos (snd (capturar e w (\<lambda>w2. (Inr False, w2)))) = objetos w"
  "referencias (snd (capturar e w (\<lambda>w2. (Inr False, w2)))) = referencias w"
  "contenido (snd (capturar e w (\<lambda>w2. (Inr False, w2)))) = contenido w"
  "plantillas (snd (capturar e w (\<lambda>w2. (Inr False, w2)))) = plantillas w"
  "siguiente (snd (capturar e w (\<lambda>w2. (Inr False, w2)))) = siguiente w"
  "monton (snd (capturar e w (\<lambda>w2. (Inr False, w2)))) = monton w"
  "suscriptores (snd (capturar e w (\<lambda>w2. (Inr False, w2)))) = suscriptores w"
  using capturar_falso [of e w] by auto

lemma capturar_falso_no_true [simp]: "fst (capturar e w (\<lambda>w2. (Inr False, w2))) \<noteq> Inr True"
  using capturar_falso [of e w] by auto

lemma tras_agregar_estado [simp]:
  "asignado (tras_agregar P r w)"
  "referencias (tras_agregar P r w) = referencias w @ [r]"
  "objetos (tras_agregar P r w) = objetos w"
  "contenido (tras_agregar P r w) = contenido w @ [objetos w r]"
  "suscriptores (tras_agregar P r w) = suscriptores w"
  by (simp_all add: tras_agregar_def asignado_def referencias_def contenido_def)

lemma tras_eliminar_estado [simp]:
  "asignado (tras_eliminar P i w)"
  "referencias (tras_eliminar P i w) = filter (\<lambda>q. Num (idT (objetos w q)) \<noteq> i) (referencias w)"
  "objetos (tras_eliminar P i w) = objetos w"
  "contenido (tras_eliminar P i w) = filter (\<lambda>p. Num (idT p) \<noteq> i) (contenido w)"
  "suscriptores (tras_eliminar P i w) = suscriptores w"
  by (simp_all add: tras_eliminar_def asignado_def referencias_def contenido_def filter_map comp_def)

lemma tras_limpiar_estado [simp]:
  "asignado (tras_limpiar P w)"
  "referencias (tras_limpiar P w) = []"
  "objetos (tras_limpiar P w) = objetos w"
  "contenido (tras_limpiar P w) = []"
  "suscriptores (tras_limpiar P w) = suscriptores w"
  by (simp_all add: tras_limpiar_def asignado_def referencias_def contenido_def)

text \<open>The \<open>try\<close> blocks of the three mutations, from the notification on.\<close>

lemma agregarPlantilla_try_valida:
  assumes "esValida (objetos w r)"
  shows "agregarPlantilla_try P cb (Instancia r) w =
     (case notificarCambios P cb ''PLANTILLA_AGREGADA'' (DatosAgregada r (Suc (length (referencias w))))
             (tras_agregar P r w) of
        (Some e, cs, w5) \<Rightarrow> (Inl e, cs, w5)
      | (None, cs, w5) \<Rightarrow>
          (case getEstadoLocal (objetos w5 r) of
             Inl e \<Rightarrow> (Inl e, cs, w5)
           | Inr el \<Rightarrow> (Inr True, cs, w5)))"
  using assms
  by (simp add: agregarPlantilla_try_def nuevo_arreglo_def ahora_def Let_def tras_agregar_def
      referencias_def)

lemma eliminarPlantilla_try_presente:
  assumes "getPlantillaPorId i w = Some r"
  shows "eliminarPlantilla_try P cb i w =
     (case notificarCambios P cb ''PLANTILLA_ELIMINADA''
             (DatosEliminada r (length (filter (\<lambda>q. Num (idT (objetos w q)) \<noteq> i) (referencias w))))
             (tras_eliminar P i w) of
        (Some e, cs, w5) \<Rightarrow> (Inl e, cs, w5)
      | (None, cs, w5) \<Rightarrow>
          (case getEstadoLocal (objetos w5 r) of
             Inl e \<Rightarrow> (Inl e, cs, w5)
           | Inr el \<Rightarrow> (Inr True, cs, w5)))"
  using assms
  by (simp add: eliminarPlantilla_try_def nuevo_arreglo_def ahora_def Let_def tras_eliminar_def
      referencias_def)

lemma limpiarTodas_try_notifica:
  "limpiarTodas_try P cb w =
     (Inr True, snd (notificarCambios P cb ''TODAS_ELIMINADAS'' (DatosTodasEliminadas (length (referencias w)))
                  (tras_limpiar P w)))"
proof -
  let ?n = "notificarCambios P cb ''TODAS_ELIMINADAS'' (DatosTodasEliminadas (length (referencias w)))
                  (tras_limpiar P w)"
  have "categorias_convertibles P (contenido (tras_limpiar P w))"
    by (simp add: categorias_convertibles_def)
  then have "fst ?n = None"
    by (simp add: notificarCambios_exito)
  then obtain cs w5 where n: "?n = (None, cs, w5)"
    by (cases ?n) auto
  have "limpiarTodas_try P cb w = (case ?n of (Some e, cs, w5) \<Rightarrow> (Inl e, cs, w5)
                                              | (None, cs, w5) \<Rightarrow> (Inr True, cs, w5))"
    by (simp add: limpiarTodas_try_def nuevo_arreglo_def ahora_def Let_def tras_limpiar_def
        referencias_def)
  then show ?thesis
    by (simp add: n)
qed

lemma getPlantillaPorId_Some:
  "(\<exists>p \<in> set (contenido w). Num (idT p) = i) \<longleftrightarrow> (\<exists>r. getPlantillaPorId i w = Some r)"
proof (cases "getPlantillaPorId i w")
  case None
  then show ?thesis
    by (auto simp: getPlantillaPorId_def contenido_def find_None_iff)
next
  case (Some r)
  then have "r \<in> set (referencias w)" "Num (idT (objetos w r)) = i"
    by (auto simp: getPlantillaPorId_def find_Some_iff)
  with Some show ?thesis
    by (auto simp: contenido_def)
qed

lemma getPlantillaPorId_es:
  "getPlantillaPorId i w = Some r \<Longrightarrow> r \<in> set (referencias w) \<and> Num (idT (objetos w r)) = i"
  by (auto simp: getPlantillaPorId_def find_Some_iff)

text \<open>What \<open>agregarPlantilla\<close> returns for a valid template, by the two things that can
  fail after the template is in the collection.\<close>

lemma agregarPlantilla_casos:
  assumes v: "esValida (objetos w r)"
  shows "(\<not> categorias_convertibles P (contenido w @ [objetos w r])
            \<longrightarrow> agregarPlantilla P cb (Instancia r) w
                  = (Inr False, registrar (ErrorLog TypeError) (tras_agregar P r w)))
       \<and> (categorias_convertibles P (contenido w @ [objetos w r])
            \<longrightarrow> (\<exists>cs w5. notificarCambios P cb ''PLANTILLA_AGREGADA''
                             (DatosAgregada r (Suc (length (referencias w)))) (tras_agregar P r w)
                           = (None, cs, w5)
                   \<and> agregarPlantilla P cb (Instancia r) w
                       = (case getEstadoLocal (objetos w5 r) of
                            Inl e \<Rightarrow> capturar e w5 (\<lambda>w2. (Inr False, w2))
                          | Inr el \<Rightarrow> (Inr True, w5))))"
proof (intro conjI impI)
  assume "\<not> categorias_convertibles P (contenido w @ [objetos w r])"
  then have "notificarCambios P cb ''PLANTILLA_AGREGADA'' (DatosAgregada r (Suc (length (referencias w))))
               (tras_agregar P r w) = (Some TypeError, [], tras_agregar P r w)"
    by (intro notificarCambios_falla) simp
  then show "agregarPlantilla P cb (Instancia r) w
                  = (Inr False, registrar (ErrorLog TypeError) (tras_agregar P r w))"
    by (simp add: agregarPlantilla_def agregarPlantilla_try_valida [OF v])
next
  assume "categorias_convertibles P (contenido w @ [objetos w r])"
  then have "fst (notificarCambios P cb ''PLANTILLA_AGREGADA'' (DatosAgregada r (Suc (length (referencias w))))
               (tras_agregar P r w)) = None"
    by (simp add: notificarCambios_exito)
  then obtain cs w5 where n: "notificarCambios P cb ''PLANTILLA_AGREGADA''
       (DatosAgregada r (Suc (length (referencias w)))) (tras_agregar P r w) = (None, cs, w5)"
    by (cases "notificarCambios P cb ''PLANTILLA_AGREGADA''
       (DatosAgregada r (Suc (length (referencias w)))) (tras_agregar P r w)") auto
  have "agregarPlantilla P cb (Instancia r) w
                       = (case getEstadoLocal (objetos w5 r) of
                            Inl e \<Rightarrow> capturar e w5 (\<lambda>w2. (Inr False, w2))
                          | Inr el \<Rightarrow> (Inr True, w5))"
    by (simp add: agregarPlantilla_def agregarPlantilla_try_valida [OF v] n split: sum.splits)
  with n show "\<exists>cs w5. notificarCambios P cb ''PLANTILLA_AGREGADA''
                             (DatosAgregada r (Suc (length (referencias w)))) (tras_agregar P r w)
                           = (None, cs, w5)
                   \<and> agregarPlantilla P cb (Instancia r) w
                       = (case getEstadoLocal (objetos w5 r) of
                            Inl e \<Rightarrow> capturar e w5 (\<lambda>w2. (Inr False, w2))
                          | Inr el \<Rightarrow> (Inr True, w5))"
    by blast
qed

lemma eliminarPlantilla_casos:
  assumes g: "getPlantillaPorId i w = Some r"
  shows "(\<not> categorias_convertibles P (filter (\<lambda>p. Num (idT p) \<noteq> i) (contenido w))
            \<longrightarrow> eliminarPlantilla P cb i w
                  = (Inr False, registrar (ErrorLog TypeError) (tras_eliminar P i w)))
       \<and> (categorias_convertibles P (filter (\<lambda>p. Num (idT p) \<noteq> i) (contenido w))
            \<longrightarrow> (\<exists>cs w5. notificarCambios P cb ''PLANTILLA_ELIMINADA''
                             (DatosEliminada r (length (filter (\<lambda>q. Num (idT (objetos w q)) \<noteq> i) (referencias w))))
                             (tras_eliminar P i w)
                           = (None, cs, w5)
                   \<and> eliminarPlantilla P cb i w
                       = (case getEstadoLocal (objetos w5 r) of
                            Inl e \<Rightarrow> capturar e w5 (\<lambda>w2. (Inr False, w2))
                          | Inr el \<Rightarrow> (Inr True, w5))))"
proof (intro conjI impI)
  let ?d = "DatosEliminada r (length (filter (\<lambda>q. Num (idT (objetos w q)) \<noteq> i) (referencias w)))"
  assume "\<not> categorias_convertibles P (filter (\<lambda>p. Num (idT p) \<noteq> i) (contenido w))"
  then have "notificarCambios P cb ''PLANTILLA_ELIMINADA'' ?d (tras_eliminar P i w)
               = (Some TypeError, [], tras_eliminar P i w)"
    by (intro notificarCambios_falla) simp
  then show "eliminarPlantilla P cb i w
                  = (Inr False, registrar (ErrorLog TypeError) (tras_eliminar P i w))"
    by (simp add: eliminarPlantilla_def eliminarPlantilla_try_presente [OF g])
next
  let ?d = "DatosEliminada r (length (filter (\<lambda>q. Num (idT (objetos w q)) \<noteq> i) (referencias w)))"
  assume "categorias_convertibles P (filter (\<lambda>p. Num (idT p) \<noteq> i) (contenido w))"
  then have "fst (notificarCambios P cb ''PLANTILLA_ELIMINADA'' ?d (tras_eliminar P i w)) = None"
    by (simp add: notificarCambios_exito)
  then obtain cs w5 where n: "notificarCambios P cb ''PLANTILLA_ELIMINADA'' ?d (tras_eliminar P i w)
       = (None, cs, w5)"
    by (cases "notificarCambios P cb ''PLANTILLA_ELIMINADA'' ?d (tras_eliminar P i w)") auto
  have "eliminarPlantilla P cb i w
                       = (case getEstadoLocal (objetos w5 r) of
                            Inl e \<Rightarrow> capturar e w5 (\<lambda>w2. (Inr False, w2))
                          | Inr el \<Rightarrow> (Inr True, w5))"
    by (simp add: eliminarPlantilla_def eliminarPlantilla_try_presente [OF g] n split: sum.splits)
  with n show "\<exists>cs w5. notificarCambios P cb ''PLANTILLA_ELIMINADA'' ?d (tras_eliminar P i w)
                           = (None, cs, w5)
                   \<and> eliminarPlantilla P cb i w
                       = (case getEstadoLocal (objetos w5 r) of
                            Inl e \<Rightarrow> capturar e w5 (\<lambda>w2. (Inr False, w2))
                          | Inr el \<Rightarrow> (Inr True, w5))"
    by blast
qed

text \<open>The state after a mutation is the state after its notification, but for the
  console.\<close>

lemma salvo_consola_refl [simp]: "salvo_consola w w"
proof -
  have "w = w\<lparr>consola := consola w\<rparr>" by simp
  then show ?thesis unfolding salvo_consola_def by blast
qed

lemma salvo_consola_registrar [simp]: "salvo_consola w (registrar d w)"
  unfolding salvo_consola_def registrar_def by blast

lemma salvo_consola_capturar [simp]: "salvo_consola w (snd (capturar e w (\<lambda>w2. (Inr False, w2))))"
  using capturar_falso [of e w] by auto

lemma salvo_consola_campos:
  assumes "salvo_consola w w'"
  shows "objetos w' = objetos w" "referencias w' = referencias w" "contenido w' = contenido w"
    "plantillas w' = plantillas w" "siguiente w' = siguiente w" "monton w' = monton w"
    "suscriptores w' = suscriptores w" "almacen w' = almacen w" "libre w' = libre w"
    "lecturas w' = lecturas w" "asignado w' = asignado w"
  using assms by (auto simp: salvo_consola_def referencias_def contenido_def asignado_def)

lemma agregarPlantilla_estado:
  assumes v: "esValida (objetos w r)"
  shows "salvo_consola (snd (snd (notificarCambios P cb ''PLANTILLA_AGREGADA''
                  (DatosAgregada r (Suc (length (referencias w)))) (tras_agregar P r w))))
           (snd (agregarPlantilla P cb (Instancia r) w))"
proof (cases "categorias_convertibles P (contenido w @ [objetos w r])")
  case False
  with agregarPlantilla_casos [OF v, of P cb] notificarCambios_falla [of P "tras_agregar P r w" cb]
  show ?thesis by simp
next
  case True
  with agregarPlantilla_casos [OF v, of P cb] obtain cs w5 where
    n: "notificarCambios P cb ''PLANTILLA_AGREGADA''
          (DatosAgregada r (Suc (length (referencias w)))) (tras_agregar P r w) = (None, cs, w5)"
    and a: "agregarPlantilla P cb (Instancia r) w
                       = (case getEstadoLocal (objetos w5 r) of
                            Inl e \<Rightarrow> capturar e w5 (\<lambda>w2. (Inr False, w2))
                          | Inr el \<Rightarrow> (Inr True, w5))"
    by blast
  show ?thesis
    by (cases "getEstadoLocal (objetos w5 r)") (simp_all add: n a)
qed

lemma eliminarPlantilla_estado:
  assumes g: "getPlantillaPorId i w = Some r"
  shows "salvo_consola (snd (snd (notificarCambios P cb ''PLANTILLA_ELIMINADA''
                  (DatosEliminada r (length (filter (\<lambda>q. Num (idT (objetos w q)) \<noteq> i) (referencias w))))
                  (tras_eliminar P i w))))
           (snd (eliminarPlantilla P cb i w))"
proof (cases "categorias_convertibles P (filter (\<lambda>p. Num (idT p) \<noteq> i) (contenido w))")
  case False
  with eliminarPlantilla_casos [OF g, of P cb] notificarCambios_falla [of P "tras_eliminar P i w" cb]
  show ?thesis by simp
next
  case True
  with eliminarPlantilla_casos [OF g, of P cb] obtain cs w5 where
    n: "notificarCambios P cb ''PLANTILLA_ELIMINADA''
          (DatosEliminada r (length (filter (\<lambda>q. Num (idT (objetos w q)) \<noteq> i) (referencias w))))
          (tras_eliminar P i w) = (None, cs, w5)"
    and a: "eliminarPlantilla P cb i w
                       = (case getEstadoLocal (objetos w5 r) of
                            Inl e \<Rightarrow> capturar e w5 (\<lambda>w2. (Inr False, w2))
                          | Inr el \<Rightarrow> (Inr True, w5))"
    by blast
  show ?thesis
    by (cases "getEstadoLocal (objetos w5 r)") (simp_all add: n a)
qed

text \<open>When a mutation returns \<open>true\<close>.\<close>

lemma agregarPlantilla_true:
  assumes v: "esValida (objetos w r)"
  shows "fst (agregarPlantilla P cb (Instancia r) w) = Inr True \<longleftrightarrow>
           categorias_convertibles P (contenido w @ [objetos w r])
           \<and> \<not> isl (getEstadoLocal (objetos (snd (agregarPlantilla P cb (Instancia r) w)) r))"
proof (cases "categorias_convertibles P (contenido w @ [objetos w r])")
  case False
  with agregarPlantilla_casos [OF v, of P cb] show ?thesis by simp
next
  case True
  with agregarPlantilla_casos [OF v, of P cb] obtain cs w5 where
    a: "agregarPlantilla P cb (Instancia r) w
                       = (case getEstadoLocal (objetos w5 r) of
                            Inl e \<Rightarrow> capturar e w5 (\<lambda>w2. (Inr False, w2))
                          | Inr el \<Rightarrow> (Inr True, w5))"
    by blast
  show ?thesis
    using True by (cases "getEstadoLocal (objetos w5 r)") (simp_all add: a)
qed




section \<open>The subscriber that saves\<close>

lemma serializar_error: "serializarPlantilla P t = Inl e \<Longrightarrow> e = RangeError"
  by (auto simp: serializarPlantilla_def split: fecha.splits)

lemma mapear_error: "mapear f xs = Inl e \<Longrightarrow> \<exists>x \<in> set xs. f x = Inl e"
  by (induction xs) (auto split: sum.splits)

lemma guardarPlantillas_try_error:
  assumes "guardarPlantillas_try P ps w = (Inl e, w1)"
  shows "e = RangeError \<or> e = TypeError \<or> e = DatosDemasiadoGrandes"
  using assms
  by (auto simp: guardarPlantillas_try_def ahora_def Let_def split: sum.splits if_splits
      dest!: mapear_error serializar_error obtenerCategorias_error)

lemma guardarPlantillas_try_marco:
  "mismo_store w (snd (guardarPlantillas_try P ps w))"
  by (simp add: guardarPlantillas_try_def ahora_def Let_def mismo_store_def crearBackup_def
      mostrarNotificacionPersistencia_def split: sum.splits option.splits)

lemma guardarPlantillas_booleano:
  "\<exists>b. fst (guardarPlantillas P ps w) = Inr b"
proof (cases "guardarPlantillas_try P ps w")
  case (Pair r w1)
  show ?thesis
  proof (cases r)
    case (Inr b)
    with Pair show ?thesis by (simp add: guardarPlantillas_def)
  next
    case (Inl e)
    with Pair guardarPlantillas_try_error [of P ps w e w1] show ?thesis
      by (auto simp: guardarPlantillas_def capturar_def)
  qed
qed

lemma mismo_store_guardar: "mismo_store w (snd (guardarPlantillas P ps w))"
proof (cases "guardarPlantillas_try P ps w")
  case (Pair r w1)
  with guardarPlantillas_try_marco [of w P ps] have m: "mismo_store w w1" by simp
  show ?thesis
  proof (cases r)
    case (Inr b)
    with Pair m show ?thesis by (simp add: guardarPlantillas_def)
  next
    case (Inl e)
    with Pair guardarPlantillas_try_error [of P ps w e w1] m show ?thesis
      by (auto simp: guardarPlantillas_def capturar_def)
  qed
qed

lemma persistencia_marco:
  "\<exists>w1. w1 = snd (getPlantillas w) \<and> mismo_store w1 (snd (suscriptor_persistencia P c ev w))"
  using mismo_store_guardar [of "snd (getPlantillas w)" P]
  by (simp add: suscriptor_persistencia_def Let_def case_prod_beta)

lemma discreto_persistencia: "discreto (suscriptor_persistencia P :: 'p suscriptor)"
proof -
  have "asignado (snd (suscriptor_persistencia P c ev w))
        \<and> referencias (snd (suscriptor_persistencia P c ev w)) = referencias w
        \<and> contenido (snd (suscriptor_persistencia P c ev w)) = contenido w"
    if a: "asignado w" for c ev and w :: "'p mundo"
  proof -
    from persistencia_marco [of w P c ev]
    have m: "mismo_store (snd (getPlantillas w)) (snd (suscriptor_persistencia P c ev w))"
      by simp
    have "asignado (snd (getPlantillas w))" "referencias (snd (getPlantillas w)) = referencias w"
      "objetos (snd (getPlantillas w)) = objetos w"
      using a by (simp_all add: getPlantillas_def nuevo_arreglo_def asignado_def referencias_def)
    with m show ?thesis
      by (simp add: mismo_store_def asignado_def referencias_def contenido_def)
  qed
  then show ?thesis by (simp add: discreto_def)
qed



lemma fijo_persistencia: "fijo (suscriptor_persistencia P :: 'p suscriptor)"
proof -
  have "suscriptores (snd (suscriptor_persistencia P c ev w)) = suscriptores w"
    for c ev and w :: "'p mundo"
  proof -
    from persistencia_marco [of w P c ev]
    have m: "mismo_store (snd (getPlantillas w)) (snd (suscriptor_persistencia P c ev w))"
      by simp
    then show ?thesis
      by (simp add: mismo_store_def getPlantillas_def nuevo_arreglo_def)
  qed
  then show ?thesis by (simp add: fijo_def)
qed

lemma fijo_falla: "fijo suscriptor_falla"
  by (simp add: fijo_def suscriptor_falla_def)

lemmas ejemplo_defs = agregarPlantilla_def agregarPlantilla_try_def esValida_def plantilla_ejemplo_def
  plantilla_ejemplo2_def plantilla_sin_titulo_def plantilla_rara_def plantilla_saboteada_def
  objetos_ejemplo_def pagina_de_def store_ejemplo_def store_dos_def store_suscrito_def store_raro_def
  nuevo_arreglo_def contenido_def referencias_def Store_inicial_def ahora_def notificarCambios_def
  getEstadisticas_def obtenerCategorias_def getInfoStorage_def STORAGE_KEY_def
  suscriptor_mudo_def getEstadoLocal_def Let_def suscriptor_reset_def reset_def suscribirse_def
  eliminarPlantilla_def eliminarPlantilla_try_def getPlantillaPorId_def suscriptor_baja_def
  suscriptor_falla_def suscriptor_tachador_def suscriptor_editor_def editar_def cancelar_def registrar_def capturar_def
  limpiarTodas_def limpiarTodas_try_def clave_def

section \<open>Adding a template\<close>

text \<open>
  Claim C4. Adding a template in which at least one of title, message, hashtag and
  category is missing (absent or empty) returns \<open>false\<close> and leaves the Store's
  collection as it was: nothing changes but the console, which receives the error.
\<close>

theorem agregarPlantilla_incompleta:
  assumes "falta (titulo (objetos w r)) \<or> falta (mensaje (objetos w r))
           \<or> falta (hashtag (objetos w r)) \<or> falta (categoria (objetos w r))"
  shows "agregarPlantilla P cb (Instancia r) w = (Inr False, registrar (ErrorLog PlantillaIncompleta) w)
         \<and> referencias (snd (agregarPlantilla P cb (Instancia r) w)) = referencias w
         \<and> contenido (snd (agregarPlantilla P cb (Instancia r) w)) = contenido w"
proof -
  from assms have "\<not> esValida (objetos w r)"
    by (auto simp: esValida_def dest: falta_falsy)
  then show ?thesis
    by (simp add: agregarPlantilla_def agregarPlantilla_try_def capturar_def)
qed

text \<open>
  An instance of C4: the template with an empty title, added to the new Store.
\<close>

theorem agregarPlantilla_incompleta_witness:
  "falta (titulo (objetos store_ejemplo 2))
   \<and> fst (agregarPlantilla plataforma_ejemplo suscriptor_mudo (Instancia 2) store_ejemplo) = Inr False
   \<and> referencias (snd (agregarPlantilla plataforma_ejemplo suscriptor_mudo (Instancia 2) store_ejemplo)) = []"
proof -
  have f: "falta (titulo (objetos store_ejemplo 2))"
    by (simp add: falta_def ejemplo_defs)
  have c: "referencias store_ejemplo = []"
    by (simp add: ejemplo_defs)
  from f have "falta (titulo (objetos store_ejemplo 2)) \<or> falta (mensaje (objetos store_ejemplo 2))
      \<or> falta (hashtag (objetos store_ejemplo 2)) \<or> falta (categoria (objetos store_ejemplo 2))"
    by simp
  from agregarPlantilla_incompleta [OF this, of plataforma_ejemplo suscriptor_mudo] f c
  show ?thesis by simp
qed

text \<open>
  Claim C3, as the code has it. For every Template \<open>t\<close> whose title, message, hashtag and
  category are all non-empty, \<open>agregarPlantilla\<close> puts \<open>t\<close> in the collection and then
  returns \<open>true\<close> exactly when the category of every template of the collection, \<open>t\<close>
  included, converts to a property key and \<open>t.getEstadoLocal()\<close>, called after the
  subscribers have run, does not throw. When no subscriber changes the collection or a
  template of the collection while it is notified, the collection afterwards, also as
  \<open>getPlantillas\<close> returns it, is the prior collection with \<open>t\<close> itself appended, with
  its fields and its identifier. That identifier is unique in the collection exactly
  when no template of the prior collection had it; the Store does not check.
\<close>

theorem agregarPlantilla_valida:
  assumes "esValida (objetos w r)"
  shows "(fst (agregarPlantilla P cb (Instancia r) w) = Inr True \<longleftrightarrow>
            categorias_convertibles P (contenido w @ [objetos w r])
            \<and> \<not> isl (getEstadoLocal (objetos (snd (agregarPlantilla P cb (Instancia r) w)) r)))
       \<and> (discreto cb \<longrightarrow>
            referencias (snd (agregarPlantilla P cb (Instancia r) w)) = referencias w @ [r]
          \<and> contenido (snd (agregarPlantilla P cb (Instancia r) w)) = contenido w @ [objetos w r]
          \<and> monton (snd (getPlantillas (snd (agregarPlantilla P cb (Instancia r) w))))
               (fst (getPlantillas (snd (agregarPlantilla P cb (Instancia r) w)))) = referencias w @ [r]
          \<and> (length (filter (\<lambda>p. idT p = idT (objetos w r))
                        (contenido (snd (agregarPlantilla P cb (Instancia r) w)))) = 1
               \<longleftrightarrow> (\<forall>p \<in> set (contenido w). idT p \<noteq> idT (objetos w r))))"
proof (intro conjI impI)
  show "fst (agregarPlantilla P cb (Instancia r) w) = Inr True \<longleftrightarrow>
            categorias_convertibles P (contenido w @ [objetos w r])
            \<and> \<not> isl (getEstadoLocal (objetos (snd (agregarPlantilla P cb (Instancia r) w)) r))"
    by (rule agregarPlantilla_true [OF assms])
next
  assume d: "discreto cb"
  let ?w5 = "snd (snd (notificarCambios P cb ''PLANTILLA_AGREGADA''
                  (DatosAgregada r (Suc (length (referencias w)))) (tras_agregar P r w)))"
  let ?w' = "snd (agregarPlantilla P cb (Instancia r) w)"
  have s: "salvo_consola ?w5 ?w'"
    by (rule agregarPlantilla_estado [OF assms])
  have n: "referencias ?w5 = referencias w @ [r]" "contenido ?w5 = contenido w @ [objetos w r]"
    using notificarCambios_discreto [OF d, of "tras_agregar P r w" P] by simp_all
  show r: "referencias ?w' = referencias w @ [r]"
    and c: "contenido ?w' = contenido w @ [objetos w r]"
    using n by (simp_all add: salvo_consola_campos [OF s])
  show "monton (snd (getPlantillas ?w')) (fst (getPlantillas ?w')) = referencias w @ [r]"
    by (simp add: getPlantillas_def nuevo_arreglo_def r)
  show "length (filter (\<lambda>p. idT p = idT (objetos w r)) (contenido ?w')) = 1
               \<longleftrightarrow> (\<forall>p \<in> set (contenido w). idT p \<noteq> idT (objetos w r))"
    by (auto simp: c filter_empty_conv)
qed

text \<open>
  Claim C3 as stated fails. Adding the same valid template twice succeeds twice and
  leaves it twice in the collection, under one identifier. With a subscriber that calls
  \<open>Store.reset()\<close> when it is notified, the collection after a successful add is empty.
  With a subscriber that sets the message of the new template to \<open>null\<close>, the template
  is in the collection without its message and \<open>agregarPlantilla\<close> returns \<open>false\<close>. For
  a template whose category is an object that does not convert to a property key, the
  template is in the collection and \<open>agregarPlantilla\<close> returns \<open>false\<close>.
\<close>

theorem agregarPlantilla_valida_counterexample:
  "esValida (objetos store_ejemplo 0)
   \<and> fst (agregarPlantilla plataforma_ejemplo suscriptor_mudo (Instancia 0)
        (snd (agregarPlantilla plataforma_ejemplo suscriptor_mudo (Instancia 0) store_ejemplo))) = Inr True
   \<and> referencias (snd (agregarPlantilla plataforma_ejemplo suscriptor_mudo (Instancia 0)
        (snd (agregarPlantilla plataforma_ejemplo suscriptor_mudo (Instancia 0) store_ejemplo)))) = [0, 0]
   \<and> fst (agregarPlantilla plataforma_ejemplo (suscriptor_reset plataforma_ejemplo) (Instancia 0)
        (snd (suscribirse (Funcion 0) store_ejemplo))) = Inr True
   \<and> referencias (snd (agregarPlantilla plataforma_ejemplo (suscriptor_reset plataforma_ejemplo) (Instancia 0)
        (snd (suscribirse (Funcion 0) store_ejemplo)))) = []
   \<and> fst (agregarPlantilla plataforma_ejemplo suscriptor_tachador (Instancia 0)
        (snd (suscribirse (Funcion 0) store_ejemplo))) = Inr False
   \<and> referencias (snd (agregarPlantilla plataforma_ejemplo suscriptor_tachador (Instancia 0)
        (snd (suscribirse (Funcion 0) store_ejemplo)))) = [0]
   \<and> contenido (snd (agregarPlantilla plataforma_ejemplo suscriptor_tachador (Instancia 0)
        (snd (suscribirse (Funcion 0) store_ejemplo)))) = [plantilla_ejemplo\<lparr>mensaje := Null\<rparr>]
   \<and> esValida (objetos store_ejemplo 3)
   \<and> fst (agregarPlantilla plataforma_ejemplo suscriptor_mudo (Instancia 3) store_ejemplo) = Inr False
   \<and> referencias (snd (agregarPlantilla plataforma_ejemplo suscriptor_mudo (Instancia 3) store_ejemplo)) = [3]"
  by (simp add: ejemplo_defs)

text \<open>
  An instance of C3 as amended, with the subscriber that saves the collection.
\<close>

theorem agregarPlantilla_valida_witness:
  "esValida (objetos store_ejemplo 0)
   \<and> discreto (suscriptor_persistencia plataforma_ejemplo :: unit suscriptor)
   \<and> fst (agregarPlantilla plataforma_ejemplo (suscriptor_persistencia plataforma_ejemplo)
        (Instancia 0) (snd (suscribirse (Funcion 0) store_ejemplo))) = Inr True
   \<and> referencias (snd (agregarPlantilla plataforma_ejemplo (suscriptor_persistencia plataforma_ejemplo)
        (Instancia 0) (snd (suscribirse (Funcion 0) store_ejemplo)))) = [0]
   \<and> contenido (snd (agregarPlantilla plataforma_ejemplo (suscriptor_persistencia plataforma_ejemplo)
        (Instancia 0) (snd (suscribirse (Funcion 0) store_ejemplo)))) = [plantilla_ejemplo]"
proof -
  let ?cb = "suscriptor_persistencia plataforma_ejemplo :: unit suscriptor"
  let ?w = "snd (suscribirse (Funcion 0) store_ejemplo)"
  have o: "objetos ?w = objetos_ejemplo" and r: "referencias ?w = []" and c: "contenido ?w = []"
    by (simp_all add: suscribirse_def store_ejemplo_def pagina_de_def Store_inicial_def
        referencias_def contenido_def)
  have v: "esValida (objetos ?w 0)"
    by (simp add: o objetos_ejemplo_def esValida_def plantilla_ejemplo_def)
  have v0: "esValida (objetos store_ejemplo 0)"
    by (simp add: ejemplo_defs)
  have k: "categorias_convertibles plataforma_ejemplo (contenido ?w @ [objetos ?w 0])"
    by (simp add: c o objetos_ejemplo_def categorias_convertibles_def plantilla_ejemplo_def)
  have g: "\<not> isl (getEstadoLocal (objetos_ejemplo 0))"
    by (simp add: objetos_ejemplo_def getEstadoLocal_def plantilla_ejemplo_def)
  have d: "discreto ?cb"
    by (rule discreto_persistencia)
  from agregarPlantilla_valida [OF v, of plataforma_ejemplo ?cb] d
  have a: "referencias (snd (agregarPlantilla plataforma_ejemplo ?cb (Instancia 0) ?w)) = referencias ?w @ [0]"
    "contenido (snd (agregarPlantilla plataforma_ejemplo ?cb (Instancia 0) ?w)) = contenido ?w @ [objetos ?w 0]"
    by blast+
  have "contenido (snd (agregarPlantilla plataforma_ejemplo ?cb (Instancia 0) ?w))
      = [objetos (snd (agregarPlantilla plataforma_ejemplo ?cb (Instancia 0) ?w)) 0]"
    unfolding contenido_def a(1) r by simp
  with a(2) have o': "objetos (snd (agregarPlantilla plataforma_ejemplo ?cb (Instancia 0) ?w)) 0 = objetos ?w 0"
    by (simp add: c)
  from agregarPlantilla_valida [OF v, of plataforma_ejemplo ?cb] k g
  have t: "fst (agregarPlantilla plataforma_ejemplo ?cb (Instancia 0) ?w) = Inr True"
    by (simp add: o' o)
  from v0 d t a show ?thesis
    by (simp add: r c o objetos_ejemplo_def)
qed

section \<open>Removing a template\<close>





section \<open>Every subscriber is called\<close>

text \<open>
  Claim C8, as the code has it. When no subscriber changes the list of subscribers while
  it is notified, a notification that has its event (the category of every template of
  the collection converts to a property key) calls every subscriber exactly once, in the
  order of subscription, whether or not some of them throw; and every mutation that gets
  as far as its notification, so every mutation that returns \<open>true\<close>, makes exactly
  these calls: adding a valid template, removing a template that is present, clearing.
\<close>

theorem notificacion_a_todos:
  assumes "fijo cb"
  shows "(categorias_convertibles P (contenido w) \<longrightarrow>
            fst (notificarCambios P cb tipo datos w) = None
            \<and> fst (snd (notificarCambios P cb tipo datos w)) = suscriptores w)
       \<and> (esValida (objetos w r) \<and> categorias_convertibles P (contenido w @ [objetos w r]) \<longrightarrow>
            fst (snd (agregarPlantilla_try P cb (Instancia r) w)) = suscriptores w)
       \<and> (fst (agregarPlantilla_try P cb x w) = Inr True \<longrightarrow>
            fst (snd (agregarPlantilla_try P cb x w)) = suscriptores w)
       \<and> ((\<exists>p \<in> set (contenido w). Num (idT p) = i)
            \<and> categorias_convertibles P (filter (\<lambda>p. Num (idT p) \<noteq> i) (contenido w)) \<longrightarrow>
            fst (snd (eliminarPlantilla_try P cb i w)) = suscriptores w)
       \<and> (fst (eliminarPlantilla_try P cb i w) = Inr True \<longrightarrow>
            fst (snd (eliminarPlantilla_try P cb i w)) = suscriptores w)
       \<and> fst (limpiarTodas_try P cb w) = Inr True
       \<and> fst (snd (limpiarTodas_try P cb w)) = suscriptores w"
proof -
  have ag: "fst (snd (agregarPlantilla_try P cb (Instancia r) w)) = suscriptores w"
    if v: "esValida (objetos w r)" and k: "categorias_convertibles P (contenido w @ [objetos w r])" for r
  proof -
    let ?n = "notificarCambios P cb ''PLANTILLA_AGREGADA'' (DatosAgregada r (Suc (length (referencias w))))
                (tras_agregar P r w)"
    from k have "fst ?n = None"
      by (simp add: notificarCambios_exito)
    moreover from k have "fst (snd ?n) = suscriptores w"
      using notificarCambios_traza [OF assms, of P "tras_agregar P r w"] by simp
    ultimately show ?thesis
      by (cases ?n) (auto simp: agregarPlantilla_try_valida [OF v] split: sum.splits)
  qed
  have el: "fst (snd (eliminarPlantilla_try P cb i w)) = suscriptores w"
    if g: "getPlantillaPorId i w = Some r"
      and k: "categorias_convertibles P (filter (\<lambda>p. Num (idT p) \<noteq> i) (contenido w))" for r
  proof -
    let ?n = "notificarCambios P cb ''PLANTILLA_ELIMINADA''
                (DatosEliminada r (length (filter (\<lambda>q. Num (idT (objetos w q)) \<noteq> i) (referencias w))))
                (tras_eliminar P i w)"
    from k have "fst ?n = None"
      by (simp add: notificarCambios_exito)
    moreover from k have "fst (snd ?n) = suscriptores w"
      using notificarCambios_traza [OF assms, of P "tras_eliminar P i w"] by simp
    ultimately show ?thesis
      by (cases ?n) (auto simp: eliminarPlantilla_try_presente [OF g] split: sum.splits)
  qed
  show ?thesis
  proof (intro conjI impI)
    assume "categorias_convertibles P (contenido w)"
    then show "fst (notificarCambios P cb tipo datos w) = None"
      and "fst (snd (notificarCambios P cb tipo datos w)) = suscriptores w"
      using notificarCambios_traza [OF assms, of P w tipo datos] by (simp_all add: notificarCambios_exito)
  next
    assume "esValida (objetos w r) \<and> categorias_convertibles P (contenido w @ [objetos w r])"
    then show "fst (snd (agregarPlantilla_try P cb (Instancia r) w)) = suscriptores w"
      using ag by blast
  next
    assume t: "fst (agregarPlantilla_try P cb x w) = Inr True"
    then obtain r' where x: "x = Instancia r'" and v: "esValida (objetos w r')"
      by (cases x) (auto simp: agregarPlantilla_try_def split: if_splits)
    let ?n = "notificarCambios P cb ''PLANTILLA_AGREGADA'' (DatosAgregada r' (Suc (length (referencias w))))
                (tras_agregar P r' w)"
    from t have "fst ?n = None"
      by (cases ?n) (auto simp: x agregarPlantilla_try_valida [OF v] split: option.splits)
    then have "categorias_convertibles P (contenido w @ [objetos w r'])"
      by (simp add: notificarCambios_exito)
    from ag [OF v this] x show "fst (snd (agregarPlantilla_try P cb x w)) = suscriptores w"
      by simp
  next
    assume "(\<exists>p \<in> set (contenido w). Num (idT p) = i)
            \<and> categorias_convertibles P (filter (\<lambda>p. Num (idT p) \<noteq> i) (contenido w))"
    then show "fst (snd (eliminarPlantilla_try P cb i w)) = suscriptores w"
      using el getPlantillaPorId_Some [of w i] by blast
  next
    assume t: "fst (eliminarPlantilla_try P cb i w) = Inr True"
    then obtain r' where g: "getPlantillaPorId i w = Some r'"
      by (cases "getPlantillaPorId i w") (auto simp: eliminarPlantilla_try_def)
    let ?n = "notificarCambios P cb ''PLANTILLA_ELIMINADA''
                (DatosEliminada r' (length (filter (\<lambda>q. Num (idT (objetos w q)) \<noteq> i) (referencias w))))
                (tras_eliminar P i w)"
    from t have "fst ?n = None"
      by (cases ?n) (auto simp: eliminarPlantilla_try_presente [OF g] split: option.splits)
    then have "categorias_convertibles P (filter (\<lambda>p. Num (idT p) \<noteq> i) (contenido w))"
      by (simp add: notificarCambios_exito)
    from el [OF g this] show "fst (snd (eliminarPlantilla_try P cb i w)) = suscriptores w" .
  next
    show "fst (limpiarTodas_try P cb w) = Inr True"
      by (simp add: limpiarTodas_try_notifica)
  next
    have "categorias_convertibles P (contenido (tras_limpiar P w))"
      by (simp add: categorias_convertibles_def)
    then show "fst (snd (limpiarTodas_try P cb w)) = suscriptores w"
      using notificarCambios_traza [OF assms, of P "tras_limpiar P w"]
      by (simp add: limpiarTodas_try_notifica)
  qed
qed

text \<open>
  Claim C8 as stated fails: when the first of two subscribers cancels its own
  subscription while it is notified, the second is not called for that mutation.
\<close>

theorem notificacion_a_todos_counterexample:
  "suscriptores store_suscrito = [0, 1]
   \<and> fst (agregarPlantilla_try plataforma_ejemplo suscriptor_baja (Instancia 0) store_suscrito) = Inr True
   \<and> fst (snd (agregarPlantilla_try plataforma_ejemplo suscriptor_baja (Instancia 0) store_suscrito)) = [0]
   \<and> fst (snd (limpiarTodas_try plataforma_ejemplo suscriptor_baja store_suscrito)) = [0]"
  by (simp add: ejemplo_defs)

text \<open>
  An instance of C8 as amended: of two subscribers the first always throws; both are
  called once, in order, and the console has what was thrown.
\<close>

theorem notificacion_a_todos_witness:
  "fijo (suscriptor_falla :: unit suscriptor) \<and> esValida (objetos store_suscrito 0)
   \<and> categorias_convertibles plataforma_ejemplo (contenido store_suscrito @ [objetos store_suscrito 0])
   \<and> suscriptores store_suscrito = [0, 1]
   \<and> fst (snd (agregarPlantilla_try plataforma_ejemplo suscriptor_falla (Instancia 0) store_suscrito)) = [0, 1]
   \<and> consola (snd (snd (agregarPlantilla_try plataforma_ejemplo suscriptor_falla (Instancia 0) store_suscrito)))
       = [ErrorLog (Valor (Str (str ''fallo'')))]
   \<and> fst (snd (limpiarTodas_try plataforma_ejemplo suscriptor_falla store_suscrito)) = [0, 1]"
proof -
  have v: "esValida (objetos store_suscrito 0)"
    by (simp add: ejemplo_defs)
  have k: "categorias_convertibles plataforma_ejemplo (contenido store_suscrito @ [objetos store_suscrito 0])"
    by (simp add: ejemplo_defs categorias_convertibles_def)
  have s: "suscriptores store_suscrito = [0, 1]"
    by (simp add: ejemplo_defs)
  have c: "consola (snd (snd (agregarPlantilla_try plataforma_ejemplo suscriptor_falla (Instancia 0) store_suscrito)))
       = [ErrorLog (Valor (Str (str ''fallo'')))]"
    by (simp add: ejemplo_defs)
  from notificacion_a_todos [OF fijo_falla, of plataforma_ejemplo store_suscrito _ _ 0] v k
  have "fst (snd (agregarPlantilla_try plataforma_ejemplo suscriptor_falla (Instancia 0) store_suscrito))
          = suscriptores store_suscrito
     \<and> fst (snd (limpiarTodas_try plataforma_ejemplo suscriptor_falla store_suscrito)) = suscriptores store_suscrito"
    by blast
  with fijo_falla v k s c show ?thesis
    by simp
qed

section \<open>Exceptions\<close>


lemma limpiarTodas_estado:
  "snd (limpiarTodas P cb w)
     = snd (snd (notificarCambios P cb ''TODAS_ELIMINADAS'' (DatosTodasEliminadas (length (referencias w)))
                  (tras_limpiar P w)))"
  by (simp add: limpiarTodas_def limpiarTodas_try_notifica split: prod.splits)

text \<open>The state in which \<open>inicializar\<close> and \<open>recargarDesdePersistencia\<close> notify.\<close>

lemma recargar_casos:
  "\<exists>a w1 w4 tipo datos. cargarPlantillas P w = (Inr a, w1) \<and> carga w a w1
     \<and> w4 = w1\<lparr>plantillas := a, lecturas := Suc (lecturas w1), ultimaActualizacion := reloj P (lecturas w1)\<rparr>
     \<and> (recargarDesdePersistencia P cb w = (Inr True, snd (snd (notificarCambios P cb tipo datos w4)))
        \<or> recargarDesdePersistencia P cb w = (Inr False, registrar (ErrorLog TypeError) w4))"
proof -
  from cargarPlantillas_total [of P w] obtain a w1 where
    c: "cargarPlantillas P w = (Inr a, w1)" "carga w a w1"
    by blast
  let ?w4 = "w1\<lparr>plantillas := a, lecturas := Suc (lecturas w1), ultimaActualizacion := reloj P (lecturas w1)\<rparr>"
  let ?n = "notificarCambios P cb ''RECARGADO_DESDE_PERSISTENCIA'' (DatosRecargado (length (monton w1 a))) ?w4"
  have t: "recargarDesdePersistencia_try P cb w =
      (case ?n of (Some e, cs, w5) \<Rightarrow> (Inl e, w5) | (None, cs, w5) \<Rightarrow> (Inr True, w5))"
    by (simp add: recargarDesdePersistencia_try_def c ahora_def Let_def)
  show ?thesis
  proof (cases "categorias_convertibles P (contenido ?w4)")
    case False
    from notificarCambios_falla [OF False, of cb] t
    have "recargarDesdePersistencia P cb w = (Inr False, registrar (ErrorLog TypeError) ?w4)"
      by (simp add: recargarDesdePersistencia_def)
    with c show ?thesis by blast
  next
    case True
    then have "fst ?n = None"
      by (simp add: notificarCambios_exito)
    then obtain cs w5 where n: "?n = (None, cs, w5)"
      by (cases ?n) auto
    with t have "recargarDesdePersistencia P cb w = (Inr True, snd (snd ?n))"
      by (simp add: recargarDesdePersistencia_def)
    with c show ?thesis by blast
  qed
qed

lemma inicializar_casos:
  "\<exists>a w1 w4 tipo datos. cargarPlantillas P w = (Inr a, w1) \<and> carga w a w1
     \<and> w4 = w1\<lparr>plantillas := a, lecturas := Suc (lecturas w1), ultimaActualizacion := reloj P (lecturas w1)\<rparr>
     \<and> (inicializar P cb w = (Inr (), snd (snd (notificarCambios P cb tipo datos w4)))
        \<or> inicializar P cb w = (Inr (), cargarPlantillasDefault P (registrar (ErrorLog TypeError) w4)))"
proof -
  from cargarPlantillas_total [of P w] obtain a w1 where
    c: "cargarPlantillas P w = (Inr a, w1)" "carga w a w1"
    by blast
  let ?w4 = "w1\<lparr>plantillas := a, lecturas := Suc (lecturas w1), ultimaActualizacion := reloj P (lecturas w1)\<rparr>"
  let ?d = "DatosInicializado (length (monton w1 a)) (if tieneDatosGuardados ?w4 then ''localStorage'' else ''default'')"
  let ?n = "notificarCambios P cb ''STORE_INICIALIZADO'' ?d ?w4"
  have t: "inicializar_try P cb w =
      (case ?n of (Some e, cs, w5) \<Rightarrow> (Inl e, w5) | (None, cs, w5) \<Rightarrow> (Inr (), w5))"
    by (simp add: inicializar_try_def c ahora_def Let_def)
  show ?thesis
  proof (cases "categorias_convertibles P (contenido ?w4)")
    case False
    from notificarCambios_falla [OF False, of cb] t
    have "inicializar P cb w = (Inr (), cargarPlantillasDefault P (registrar (ErrorLog TypeError) ?w4))"
      by (simp add: inicializar_def)
    with c show ?thesis by blast
  next
    case True
    then have "fst ?n = None"
      by (simp add: notificarCambios_exito)
    then obtain cs w5 where n: "?n = (None, cs, w5)"
      by (cases ?n) auto
    with t have "inicializar P cb w = (Inr (), snd (snd ?n))"
      by (simp add: inicializar_def)
    with c show ?thesis by blast
  qed
qed

lemma filtrar_busqueda_falla:
  "filtrar_busqueda P criterio valor objs rs = Inl e \<Longrightarrow> e = TypeError"
  by (induction rs arbitrary: e) (auto split: sum.splits option.splits jsval.splits dest: clave_error)

lemma filtrar_busqueda_isl:
  "isl (filtrar_busqueda P criterio valor objs rs) \<longleftrightarrow>
     rs \<noteq> [] \<and> (case clave P criterio of
                   Inl e \<Rightarrow> True
                 | Inr k \<Rightarrow> (case valor of Str v \<Rightarrow> False
                             | _ \<Rightarrow> list_ex (\<lambda>r. campo_texto (objs r) k \<noteq> None) rs))"
proof (induction rs)
  case Nil
  then show ?case by simp
next
  case (Cons r rs)
  show ?case
  proof (cases "clave P criterio")
    case (Inl e)
    then show ?thesis by simp
  next
    case (Inr k)
    show ?thesis
    proof (cases "\<exists>v. valor = Str v")
      case True
      then obtain v where v: "valor = Str v" by blast
      with Cons Inr show ?thesis
        by (cases rs) (auto split: sum.splits option.splits)
    next
      case False
      with Cons Inr show ?thesis
        by (cases valor; cases rs) (auto split: sum.splits option.splits)
    qed
  qed
qed

lemma buscarPlantillas_casos:
  "(busqueda_falla P criterio valor w \<longrightarrow> buscarPlantillas P criterio valor w = (Inl TypeError, w))
   \<and> (\<not> busqueda_falla P criterio valor w \<longrightarrow>
        (\<exists>rs. buscarPlantillas P criterio valor w = (Inr (siguiente w), snd (nuevo_arreglo rs w))))"
proof -
  have b: "busqueda_falla P criterio valor w \<longleftrightarrow>
      truthy valor \<and> truthy criterio
      \<and> isl (filtrar_busqueda P criterio valor (objetos w) (referencias w))"
    by (auto simp: busqueda_falla_def filtrar_busqueda_isl contenido_def list_ex_iff
        split: sum.splits jsval.splits)
  show ?thesis
  proof (cases "busqueda_falla P criterio valor w")
    case True
    with b obtain e where e: "filtrar_busqueda P criterio valor (objetos w) (referencias w) = Inl e"
      by (cases "filtrar_busqueda P criterio valor (objetos w) (referencias w)") auto
    with True b filtrar_busqueda_falla [OF e] show ?thesis
      by (simp add: buscarPlantillas_def)
  next
    case False
    show ?thesis
    proof (cases "truthy valor \<and> truthy criterio")
      case t: True
      with False b obtain rs where "filtrar_busqueda P criterio valor (objetos w) (referencias w) = Inr rs"
        by (cases "filtrar_busqueda P criterio valor (objetos w) (referencias w)") auto
      with t False show ?thesis
        by (auto simp: buscarPlantillas_def nuevo_arreglo_def)
    next
      case f: False
      with False show ?thesis
        by (auto simp: buscarPlantillas_def getPlantillas_def nuevo_arreglo_def)
    qed
  qed
qed








section \<open>The arrays handed to the callers\<close>

lemma aparte_avanza: "aparte A w \<Longrightarrow> avanza w w' \<Longrightarrow> aparte A w'"
  by (fastforce simp: aparte_def avanza_def)

lemma aparte_asignado: "aparte A w \<Longrightarrow> asignado w"
  by (simp add: aparte_def asignado_def)

lemma avanza_salvo_consola: "avanza w w1 \<Longrightarrow> salvo_consola w1 w2 \<Longrightarrow> avanza w w2"
  by (auto simp: avanza_def salvo_consola_def)

lemma avanza_registrar: "avanza w w1 \<Longrightarrow> avanza w (registrar d w1)"
  by (simp add: avanza_def registrar_def)

lemma avanza_tras:
  "asignado w \<Longrightarrow> avanza w (tras_agregar P r w)"
  "asignado w \<Longrightarrow> avanza w (tras_eliminar P i w)"
  "asignado w \<Longrightarrow> avanza w (tras_limpiar P w)"
  by (simp_all add: avanza_def asignado_def tras_agregar_def tras_eliminar_def tras_limpiar_def)

lemma agregarPlantilla_avanza:
  assumes o: "ordenado cb" and a: "asignado w"
  shows "avanza w (snd (agregarPlantilla P cb x w))"
proof (cases x)
  case (Otro v)
  with a show ?thesis
    by (simp add: agregarPlantilla_def agregarPlantilla_try_def capturar_def avanza_registrar avanza_refl)
next
  case (Instancia r)
  show ?thesis
  proof (cases "esValida (objetos w r)")
    case False
    with a Instancia show ?thesis
      by (simp add: agregarPlantilla_def agregarPlantilla_try_def capturar_def avanza_registrar avanza_refl)
  next
    case True
    let ?w5 = "snd (snd (notificarCambios P cb ''PLANTILLA_AGREGADA''
                  (DatosAgregada r (Suc (length (referencias w)))) (tras_agregar P r w)))"
    from a have "avanza w (tras_agregar P r w)"
      by (rule avanza_tras)
    moreover have "avanza (tras_agregar P r w) ?w5"
      by (rule notificarCambios_avanza [OF o]) simp
    ultimately have "avanza w ?w5"
      by (rule avanza_trans)
    with agregarPlantilla_estado [OF True, of P cb] Instancia show ?thesis
      by (auto intro: avanza_salvo_consola)
  qed
qed

lemma eliminarPlantilla_avanza:
  assumes o: "ordenado cb" and a: "asignado w"
  shows "avanza w (snd (eliminarPlantilla P cb i w))"
proof (cases "getPlantillaPorId i w")
  case None
  with a show ?thesis
    by (simp add: eliminarPlantilla_def eliminarPlantilla_try_def capturar_def avanza_registrar avanza_refl)
next
  case (Some r)
  let ?w5 = "snd (snd (notificarCambios P cb ''PLANTILLA_ELIMINADA''
                  (DatosEliminada r (length (filter (\<lambda>q. Num (idT (objetos w q)) \<noteq> i) (referencias w))))
                  (tras_eliminar P i w)))"
  from a have "avanza w (tras_eliminar P i w)"
    by (rule avanza_tras)
  moreover have "avanza (tras_eliminar P i w) ?w5"
    by (rule notificarCambios_avanza [OF o]) simp
  ultimately have "avanza w ?w5"
    by (rule avanza_trans)
  with eliminarPlantilla_estado [OF Some, of P cb] show ?thesis
    by (auto intro: avanza_salvo_consola)
qed

lemma limpiarTodas_avanza:
  assumes o: "ordenado cb" and a: "asignado w"
  shows "avanza w (snd (limpiarTodas P cb w))"
proof -
  from a have "avanza w (tras_limpiar P w)"
    by (rule avanza_tras)
  moreover have "avanza (tras_limpiar P w)
      (snd (snd (notificarCambios P cb ''TODAS_ELIMINADAS'' (DatosTodasEliminadas (length (referencias w)))
                  (tras_limpiar P w))))"
    by (rule notificarCambios_avanza [OF o]) simp
  ultimately show ?thesis
    unfolding limpiarTodas_estado by (rule avanza_trans)
qed

lemma carga_avanza:
  assumes "carga w a w1"
  shows "avanza w (w1\<lparr>plantillas := a, lecturas := n, ultimaActualizacion := d\<rparr>)"
  using assms by (simp add: carga_def avanza_def marco_def)

lemma cargarPlantillasDefault_avanza: "avanza w (cargarPlantillasDefault P w)"
  by (simp add: cargarPlantillasDefault_def Template_def ahora_def id_nuevo_def nuevo_objeto_def
      nuevo_arreglo_def avanza_def Let_def)

lemma recargarDesdePersistencia_avanza:
  assumes o: "ordenado cb"
  shows "avanza w (snd (recargarDesdePersistencia P cb w))"
proof -
  from recargar_casos [of P w cb] obtain a w1 w4 tipo datos where
    c: "carga w a w1"
    and w: "w4 = w1\<lparr>plantillas := a, lecturas := Suc (lecturas w1), ultimaActualizacion := reloj P (lecturas w1)\<rparr>"
    and r: "recargarDesdePersistencia P cb w = (Inr True, snd (snd (notificarCambios P cb tipo datos w4)))
        \<or> recargarDesdePersistencia P cb w = (Inr False, registrar (ErrorLog TypeError) w4)"
    by blast
  from c w have a: "avanza w w4"
    by (simp add: carga_avanza)
  from notificarCambios_avanza [OF o avanza_asignado [OF a]]
  have "avanza w4 (snd (snd (notificarCambios P cb tipo datos w4)))" .
  with a have "avanza w (snd (snd (notificarCambios P cb tipo datos w4)))"
    by (rule avanza_trans)
  with r a show ?thesis
    by (auto intro: avanza_registrar)
qed

lemma inicializar_avanza:
  assumes o: "ordenado cb"
  shows "avanza w (snd (inicializar P cb w))"
proof -
  from inicializar_casos [of P w cb] obtain a w1 w4 tipo datos where
    c: "carga w a w1"
    and w: "w4 = w1\<lparr>plantillas := a, lecturas := Suc (lecturas w1), ultimaActualizacion := reloj P (lecturas w1)\<rparr>"
    and r: "inicializar P cb w = (Inr (), snd (snd (notificarCambios P cb tipo datos w4)))
        \<or> inicializar P cb w = (Inr (), cargarPlantillasDefault P (registrar (ErrorLog TypeError) w4))"
    by blast
  from c w have a: "avanza w w4"
    by (simp add: carga_avanza)
  from notificarCambios_avanza [OF o avanza_asignado [OF a]]
  have "avanza w4 (snd (snd (notificarCambios P cb tipo datos w4)))" .
  with a have 1: "avanza w (snd (snd (notificarCambios P cb tipo datos w4)))"
    by (rule avanza_trans)
  from a have "avanza w (registrar (ErrorLog TypeError) w4)"
    by (rule avanza_registrar)
  then have 2: "avanza w (cargarPlantillasDefault P (registrar (ErrorLog TypeError) w4))"
    using cargarPlantillasDefault_avanza by (rule avanza_trans)
  from r 1 2 show ?thesis
    by auto
qed

lemma getPlantillas_aparte:
  "aparte A w \<Longrightarrow> aparte (insert (fst (getPlantillas w)) A) (snd (getPlantillas w))"
  by (fastforce simp: aparte_def getPlantillas_def nuevo_arreglo_def)

lemma buscarPlantillas_aparte:
  assumes "aparte A w" and "buscarPlantillas P criterio valor w = (Inr a, w')"
  shows "aparte (insert a A) w'"
proof -
  from assms(2) buscarPlantillas_casos [of P criterio valor w]
  obtain rs where "a = siguiente w" "w' = snd (nuevo_arreglo rs w)"
    by (cases "busqueda_falla P criterio valor w") auto
  with assms(1) show ?thesis
    by (fastforce simp: aparte_def nuevo_arreglo_def)
qed

text \<open>No array that the Store handed out is ever the Store's own array.\<close>

lemma historia_aparte:
  assumes "historia P cb A w" and o: "ordenado cb"
  shows "aparte A w"
  using assms(1)
proof (induction rule: historia.induct)
  case h_inicial
  show ?case by (simp add: aparte_def Store_inicial_def)
next
  case h_inicializar
  then show ?case
    using inicializar_avanza [OF o] by (blast intro: aparte_avanza)
next
  case h_getPlantillas
  then show ?case by (simp add: getPlantillas_aparte)
next
  case h_buscar
  then show ?case by (blast intro: buscarPlantillas_aparte)
next
  case h_mutar
  then show ?case by (simp add: aparte_def mutar_def)
next
  case h_editar
  then show ?case by (simp add: aparte_def editar_def)
next
  case h_crear
  then show ?case
    by (simp add: aparte_def Template_def ahora_def id_nuevo_def nuevo_objeto_def Let_def
        split: option.splits)
next
  case h_agregar
  then show ?case
    using agregarPlantilla_avanza [OF o] by (blast intro: aparte_avanza aparte_asignado)
next
  case h_eliminar
  then show ?case
    using eliminarPlantilla_avanza [OF o] by (blast intro: aparte_avanza aparte_asignado)
next
  case h_limpiar
  then show ?case
    using limpiarTodas_avanza [OF o] by (blast intro: aparte_avanza aparte_asignado)
next
  case h_reset
  then show ?case
    by (fastforce simp: aparte_def reset_def nuevo_arreglo_def ahora_def Let_def)
next
  case h_recargar
  then show ?case
    using recargarDesdePersistencia_avanza [OF o] by (blast intro: aparte_avanza)
next
  case (h_suscribirse A w y)
  then show ?case
    by (cases y) (simp_all add: aparte_def suscribirse_def)
next
  case h_cancelar
  then show ?case by (simp add: aparte_def cancelar_def)
qed

lemma ordenado_mudo: "ordenado suscriptor_mudo"
  by (simp add: ordenado_def suscriptor_mudo_def avanza_refl)

lemma mutar_aparte:
  assumes "a \<noteq> plantillas w"
  shows "referencias (mutar a f w) = referencias w" and "contenido (mutar a f w) = contenido w"
    and "getEstadisticas P (mutar a f w) = getEstadisticas P w"
    and "getPlantillaPorId i (mutar a f w) = getPlantillaPorId i w"
    and "monton (snd (getPlantillas (mutar a f w))) (fst (getPlantillas (mutar a f w))) = referencias w"
proof -
  from assms show r: "referencias (mutar a f w) = referencias w"
    by (simp add: mutar_def referencias_def)
  from assms show c: "contenido (mutar a f w) = contenido w"
    by (simp add: mutar_def referencias_def contenido_def)
  have "getInfoStorage P (mutar a f w) = getInfoStorage P w"
    by (simp add: mutar_def getInfoStorage_def tieneDatosGuardados_def)
  moreover have "ultimaActualizacion (mutar a f w) = ultimaActualizacion w"
    and "persistenciaHabilitada (mutar a f w) = persistenciaHabilitada w"
    by (simp_all add: mutar_def)
  ultimately show "getEstadisticas P (mutar a f w) = getEstadisticas P w"
    using r c by (simp only: getEstadisticas_def)
  have "objetos (mutar a f w) = objetos w"
    by (simp add: mutar_def)
  with r show "getPlantillaPorId i (mutar a f w) = getPlantillaPorId i w"
    by (simp only: getPlantillaPorId_def)
  from r show "monton (snd (getPlantillas (mutar a f w))) (fst (getPlantillas (mutar a f w))) = referencias w"
    by (simp add: getPlantillas_def nuevo_arreglo_def)
qed

text \<open>
  Claim C9. \<open>getPlantillas\<close> returns a new array that holds the Store's templates in the
  Store's order, and leaves the Store's collection as it was. Take any sequence of Store
  operations, from the Store as the script creates it, in which the page also makes and
  changes Template objects and changes in place arrays that the Store has handed to it,
  and take any array \<open>a\<close> that the Store has handed out in that sequence, however long
  ago: \<open>a\<close> is not the Store's array, and any change made in place to \<open>a\<close> leaves the
  Store's collection, what \<open>getPlantillaPorId\<close> finds, the statistics, and the contents
  of the next array that \<open>getPlantillas\<close> returns as they were. The subscribers are only
  required not to put an array of their own making in the place of the Store's.
\<close>

theorem getPlantillas_copia:
  assumes "historia P cb A w" and "ordenado cb" and "a \<in> A"
  shows "a \<noteq> plantillas w
       \<and> referencias (mutar a f w) = referencias w
       \<and> contenido (mutar a f w) = contenido w
       \<and> getPlantillaPorId i (mutar a f w) = getPlantillaPorId i w
       \<and> getEstadisticas P (mutar a f w) = getEstadisticas P w
       \<and> monton (snd (getPlantillas (mutar a f w))) (fst (getPlantillas (mutar a f w))) = referencias w
       \<and> fst (getPlantillas w) \<noteq> plantillas w \<and> fst (getPlantillas w) \<notin> A
       \<and> monton (snd (getPlantillas w)) (fst (getPlantillas w)) = referencias w
       \<and> leer_arreglo (snd (getPlantillas w)) (fst (getPlantillas w)) = contenido w
       \<and> referencias (snd (getPlantillas w)) = referencias w
       \<and> contenido (snd (getPlantillas w)) = contenido w
       \<and> historia P cb (insert (fst (getPlantillas w)) A) (snd (getPlantillas w))"
proof -
  from historia_aparte [OF assms(1,2)] have ap: "aparte A w" .
  with assms(3) have n: "a \<noteq> plantillas w"
    by (simp add: aparte_def)
  from ap have g: "fst (getPlantillas w) \<noteq> plantillas w \<and> fst (getPlantillas w) \<notin> A
       \<and> monton (snd (getPlantillas w)) (fst (getPlantillas w)) = referencias w
       \<and> leer_arreglo (snd (getPlantillas w)) (fst (getPlantillas w)) = contenido w
       \<and> referencias (snd (getPlantillas w)) = referencias w
       \<and> contenido (snd (getPlantillas w)) = contenido w"
    by (fastforce simp: aparte_def getPlantillas_def nuevo_arreglo_def referencias_def contenido_def
        leer_arreglo_def)
  from assms(1) have "historia P cb (insert (fst (getPlantillas w)) A) (snd (getPlantillas w))"
    by (rule h_getPlantillas)
  with n g mutar_aparte [OF n] show ?thesis
    by simp
qed

text \<open>
  An instance of C9: the page takes a copy of the empty Store, which is the array \<open>1\<close>;
  a template is added; the page then pushes a template on its copy. The Store still
  holds the one template that was added, and the copy holds the one that was pushed.
\<close>

theorem getPlantillas_copia_witness:
  "historia plataforma_ejemplo suscriptor_mudo {1} store_copia
   \<and> ordenado (suscriptor_mudo :: unit suscriptor)
   \<and> referencias store_copia = [0]
   \<and> referencias (mutar 1 empujar store_copia) = [0]
   \<and> monton (mutar 1 empujar store_copia) 1 = [1]
   \<and> monton (snd (getPlantillas (mutar 1 empujar store_copia)))
        (fst (getPlantillas (mutar 1 empujar store_copia))) = [0]"
proof -
  have 1: "fst (getPlantillas store_ejemplo) = 1"
    by (simp add: ejemplo_defs getPlantillas_def nuevo_arreglo_def)
  have "historia plataforma_ejemplo suscriptor_mudo {} store_ejemplo"
    unfolding store_ejemplo_def pagina_de_def by (rule h_inicial)
  then have "historia plataforma_ejemplo suscriptor_mudo (insert (fst (getPlantillas store_ejemplo)) {})
      (snd (getPlantillas store_ejemplo))"
    by (rule h_getPlantillas)
  then have h: "historia plataforma_ejemplo suscriptor_mudo {1} store_copia"
    unfolding store_copia_def 1 by (rule h_agregar)
  have r: "referencias store_copia = [0]"
    by (simp add: store_copia_def ejemplo_defs getPlantillas_def nuevo_arreglo_def)
  have m: "monton (mutar 1 empujar store_copia) 1 = [1]"
    by (simp add: store_copia_def ejemplo_defs getPlantillas_def nuevo_arreglo_def mutar_def empujar_def)
  from getPlantillas_copia [OF h ordenado_mudo, of 1 empujar] h r m ordenado_mudo show ?thesis
    by simp
qed

section \<open>Loading\<close>

lemma construidas_length [simp]: "length (construidas P n xs) = length xs"
  by (induction xs arbitrary: n) simp_all

lemma construidas_campos: "map campos (construidas P n xs) = map (campos_de_registro P) xs"
  by (induction xs arbitrary: n) (simp_all add: campos_def campos_de_registro_def construida_def)

lemma construidas_id:
  "k < length xs \<Longrightarrow>
     idT (construidas P n xs ! k) = suma P (real_of_int (reloj P (n + k))) (azar P (n + k))"
proof (induction xs arbitrary: n k)
  case Nil
  then show ?case by simp
next
  case (Cons x xs)
  then show ?case
    by (cases k) (simp_all add: construida_def)
qed

lemmas carga_defs = ejemplo_defs cargarPlantillas_def cargarPlantillas_try_def procesarDatosGuardados_def
  procesarDatosGuardados_try_def validarEstructuraDatos_def entrada_valida_def leer_def
  deserializarPlantilla_def Template_def id_nuevo_def nuevo_objeto_def intentarRecuperacion_def
  obtenerPlantillasDefault_def mostrarNotificacionPersistencia_def BACKUP_KEY_def VERSION_def
  plataforma_mixta_def plataforma_quieta_def plataforma_tabla_def plataforma_ejemplo_def
  registro_bueno_def registro_malo_def registro_respaldo_def registro_sin_fecha_def envoltorio_de_def
  leer_arreglo_def textos_def textos_default_def nueva_fecha_def

text \<open>
  Claim C7, as the code has it. When the primary slot holds a string that is empty, is
  not valid JSON or does not pass the shape validation, \<open>cargarPlantillas\<close> does not
  throw and returns a new array, leaving the Store and the storage as they were. If the
  string is not empty, the array holds, when the backup slot has a valid envelope, the
  templates made from those entries of the backup whose creation date can be constructed,
  one after the other, and the two default templates otherwise. If the string is empty,
  the array holds the two default templates, whatever the backup slot holds.
\<close>

theorem cargarPlantillas_primario_corrupto:
  assumes "almacen w STORAGE_KEY = Some s" and "s = [] \<or> envoltorio P s = None"
  shows "\<exists>a w'. cargarPlantillas P w = (Inr a, w') \<and> carga w a w'
     \<and> (s \<noteq> [] \<longrightarrow>
          (case respaldo_valido P w of
             Some d \<Rightarrow> leer_arreglo w' a = construidas P (lecturas w) (aceptadas P d)
           | None \<Rightarrow> map textos (leer_arreglo w' a) = textos_default))
     \<and> (s = [] \<longrightarrow> map textos (leer_arreglo w' a) = textos_default)"
proof (cases "s = []")
  case True
  with assms(1) cargarPlantillas_sin_datos [of w P] show ?thesis
    by auto
next
  case False
  with assms cargarPlantillas_recuperacion [of w s P] show ?thesis
    by auto
qed

text \<open>
  Claim C7 as stated fails in two ways. With the empty string in the primary slot and a
  valid envelope of one template in the backup slot, \<open>cargarPlantillas\<close> returns the two
  default templates. With a string that is not JSON in the primary slot and a backup of
  two entries that pass the validation, the second with a creation date that \<open>new Date\<close>
  cannot convert, it returns the first template only.
\<close>

theorem cargarPlantillas_primario_corrupto_counterexample:
  "respaldo_valido plataforma_mixta (pagina_de [(STORAGE_KEY, []), (BACKUP_KEY, str ''<uno>'')])
       = Some (envoltorio_de [registro_bueno])
   \<and> map textos (leer_arreglo
        (snd (cargarPlantillas plataforma_mixta (pagina_de [(STORAGE_KEY, []), (BACKUP_KEY, str ''<uno>'')])))
        (projr (fst (cargarPlantillas plataforma_mixta
                       (pagina_de [(STORAGE_KEY, []), (BACKUP_KEY, str ''<uno>'')])))))
       = textos_default
   \<and> json_parse plataforma_mixta (str ''???'') = None
   \<and> respaldo_valido plataforma_mixta (pagina_de [(STORAGE_KEY, str ''???''), (BACKUP_KEY, str ''<respaldo>'')])
       = Some (envoltorio_de [registro_respaldo, registro_sin_fecha])
   \<and> map textos (leer_arreglo
        (snd (cargarPlantillas plataforma_mixta
                (pagina_de [(STORAGE_KEY, str ''???''), (BACKUP_KEY, str ''<respaldo>'')])))
        (projr (fst (cargarPlantillas plataforma_mixta
                       (pagina_de [(STORAGE_KEY, str ''???''), (BACKUP_KEY, str ''<respaldo>'')])))))
       = [(Str (str ''Backup''), Str (str ''Older text''), Str (str ''#old''), Str (str ''sales''))]"
  by (simp add: carga_defs respaldo_valido_def envoltorio_def forma_valida_def)

text \<open>
  An instance of C7 as amended: a string that is not JSON in the primary slot, and a
  valid envelope of one template in the backup slot, which is what is returned.
\<close>

theorem cargarPlantillas_primario_corrupto_witness:
  "almacen (pagina_de [(STORAGE_KEY, str ''???''), (BACKUP_KEY, str ''<uno>'')]) STORAGE_KEY = Some (str ''???'')
   \<and> envoltorio plataforma_mixta (str ''???'') = None
   \<and> respaldo_valido plataforma_mixta (pagina_de [(STORAGE_KEY, str ''???''), (BACKUP_KEY, str ''<uno>'')])
       = Some (envoltorio_de [registro_bueno])
   \<and> (\<exists>a w'. cargarPlantillas plataforma_mixta (pagina_de [(STORAGE_KEY, str ''???''), (BACKUP_KEY, str ''<uno>'')])
                = (Inr a, w')
             \<and> leer_arreglo w' a = [plantilla_ejemplo\<lparr>idT := 1001.5\<rparr>])"
proof -
  let ?w = "pagina_de [(STORAGE_KEY, str ''???''), (BACKUP_KEY, str ''<uno>'')]"
  have a: "almacen ?w STORAGE_KEY = Some (str ''???'')"
    by (simp add: pagina_de_def Store_inicial_def)
  have e: "envoltorio plataforma_mixta (str ''???'') = None"
    by (simp add: envoltorio_def plataforma_mixta_def plataforma_tabla_def)
  have r: "respaldo_valido plataforma_mixta ?w = Some (envoltorio_de [registro_bueno])"
    by (simp add: carga_defs respaldo_valido_def envoltorio_def forma_valida_def)
  have c: "construidas plataforma_mixta (lecturas ?w) (aceptadas plataforma_mixta (envoltorio_de [registro_bueno]))
      = [plantilla_ejemplo\<lparr>idT := 1001.5\<rparr>]"
    by (simp add: carga_defs aceptadas_def se_construye_def construida_def)
  from cargarPlantillas_primario_corrupto [OF a, of plataforma_mixta] e r c
  have "\<exists>a w'. cargarPlantillas plataforma_mixta ?w = (Inr a, w')
             \<and> leer_arreglo w' a = [plantilla_ejemplo\<lparr>idT := 1001.5\<rparr>]"
    by auto
  with a e r show ?thesis
    by blast
qed

text \<open>
  Claim C1, as the code has it. When one entry of the stored envelope lacks a required
  field (title, message, hashtag or category absent or empty), the envelope does not pass
  the validation, so that none of its entries is accepted: \<open>cargarPlantillas\<close> returns
  what the recovery gives, which is, when the backup slot has a valid envelope, the
  templates made from those entries of the backup whose creation date can be constructed,
  and the two default templates otherwise.
\<close>

theorem cargarPlantillas_entrada_incompleta:
  assumes "almacen w STORAGE_KEY = Some s" and "s \<noteq> []"
    and "json_parse P s = Some datos"
    and "x \<in> set (elementos (leer datos ''plantillas''))"
    and "falta (leer x ''titulo'') \<or> falta (leer x ''mensaje'')
         \<or> falta (leer x ''hashtag'') \<or> falta (leer x ''categoria'')"
  shows "\<not> fst (validarEstructuraDatos datos w)
     \<and> (\<exists>a w'. cargarPlantillas P w = (Inr a, w') \<and> carga w a w'
          \<and> (case respaldo_valido P w of
                Some d \<Rightarrow> leer_arreglo w' a = construidas P (lecturas w) (aceptadas P d)
              | None \<Rightarrow> map textos (leer_arreglo w' a) = textos_default))"
proof -
  from assms(5) have "\<not> entrada_valida x"
    by (auto simp: entrada_valida_def dest: falta_falsy)
  with assms(4) have f: "\<not> forma_valida datos"
    by (auto simp: forma_valida_def list_all_iff)
  with assms(3) have "envoltorio P s = None"
    by (simp add: envoltorio_def)
  from cargarPlantillas_recuperacion [OF assms(1,2) this] f show ?thesis
    by (simp add: validar_forma)
qed

text \<open>
  Claim C1 as stated fails: with a well-formed entry and an entry without a title in the
  stored envelope, and nothing in the backup slot, \<open>cargarPlantillas\<close> returns the two
  default templates, and the well-formed entry is not among them.
\<close>

theorem cargarPlantillas_entrada_incompleta_counterexample:
  "json_parse plataforma_mixta (str ''<mixto>'') = Some (envoltorio_de [registro_bueno, registro_malo])
   \<and> entrada_valida registro_bueno
   \<and> leer registro_malo ''titulo'' = Str []
   \<and> map textos (leer_arreglo
        (snd (cargarPlantillas plataforma_mixta (pagina_de [(STORAGE_KEY, str ''<mixto>'')])))
        (projr (fst (cargarPlantillas plataforma_mixta (pagina_de [(STORAGE_KEY, str ''<mixto>'')])))))
       = textos_default
   \<and> (leer registro_bueno ''titulo'', leer registro_bueno ''mensaje'', leer registro_bueno ''hashtag'',
        leer registro_bueno ''categoria'') \<notin> set textos_default"
  by (simp add: carga_defs titulo_bienvenida_def titulo_confirmacion_def)

text \<open>
  An instance of C1 as amended: the same envelope in the primary slot, and in the backup
  slot a valid envelope of two entries, of which the second has a creation date that
  cannot be constructed. The template of the first entry of the backup is returned.
\<close>

theorem cargarPlantillas_entrada_incompleta_witness:
  "almacen (pagina_de [(STORAGE_KEY, str ''<mixto>''), (BACKUP_KEY, str ''<respaldo>'')]) STORAGE_KEY
       = Some (str ''<mixto>'')
   \<and> json_parse plataforma_mixta (str ''<mixto>'') = Some (envoltorio_de [registro_bueno, registro_malo])
   \<and> registro_malo \<in> set (elementos (leer (envoltorio_de [registro_bueno, registro_malo]) ''plantillas''))
   \<and> falta (leer registro_malo ''titulo'')
   \<and> respaldo_valido plataforma_mixta (pagina_de [(STORAGE_KEY, str ''<mixto>''), (BACKUP_KEY, str ''<respaldo>'')])
       = Some (envoltorio_de [registro_respaldo, registro_sin_fecha])
   \<and> (\<exists>a w'. cargarPlantillas plataforma_mixta
                 (pagina_de [(STORAGE_KEY, str ''<mixto>''), (BACKUP_KEY, str ''<respaldo>'')]) = (Inr a, w')
             \<and> map campos (leer_arreglo w' a)
                 = [(Str (str ''Backup''), Str (str ''Older text''), Str (str ''#old''), Str (str ''sales''),
                     Fecha 5)])"
proof -
  let ?w = "pagina_de [(STORAGE_KEY, str ''<mixto>''), (BACKUP_KEY, str ''<respaldo>'')]"
  have a: "almacen ?w STORAGE_KEY = Some (str ''<mixto>'')"
    by (simp add: pagina_de_def Store_inicial_def)
  have n: "str ''<mixto>'' \<noteq> []"
    by simp
  have p: "json_parse plataforma_mixta (str ''<mixto>'') = Some (envoltorio_de [registro_bueno, registro_malo])"
    by (simp add: plataforma_mixta_def plataforma_tabla_def)
  have x: "registro_malo \<in> set (elementos (leer (envoltorio_de [registro_bueno, registro_malo]) ''plantillas''))"
    by (simp add: envoltorio_de_def leer_def)
  have f: "falta (leer registro_malo ''titulo'')"
    by (simp add: registro_malo_def leer_def falta_def)
  then have f': "falta (leer registro_malo ''titulo'') \<or> falta (leer registro_malo ''mensaje'')
         \<or> falta (leer registro_malo ''hashtag'') \<or> falta (leer registro_malo ''categoria'')"
    by simp
  have r: "respaldo_valido plataforma_mixta ?w = Some (envoltorio_de [registro_respaldo, registro_sin_fecha])"
    by (simp add: carga_defs respaldo_valido_def envoltorio_def forma_valida_def)
  have c: "map campos (construidas plataforma_mixta (lecturas ?w)
        (aceptadas plataforma_mixta (envoltorio_de [registro_respaldo, registro_sin_fecha])))
      = [(Str (str ''Backup''), Str (str ''Older text''), Str (str ''#old''), Str (str ''sales''), Fecha 5)]"
    by (simp add: carga_defs aceptadas_def se_construye_def construida_def campos_def)
  from cargarPlantillas_entrada_incompleta [OF a n p x f'] r c
  have "\<exists>a w'. cargarPlantillas plataforma_mixta ?w = (Inr a, w')
             \<and> map campos (leer_arreglo w' a)
                 = [(Str (str ''Backup''), Str (str ''Older text''), Str (str ''#old''), Str (str ''sales''),
                     Fecha 5)]"
    by auto
  with a p x f r show ?thesis
    by blast
qed

section \<open>Identifiers across a save and a load\<close>

lemma deserializarPlantilla_id:
  "deserializarPlantilla P (Obj ((str ''id'', v) # kvs)) w
     = deserializarPlantilla P (Obj ((str ''id'', v') # kvs)) w"
  by (simp add: deserializarPlantilla_def)

lemma serializarPlantilla_registro:
  assumes "fechaCreacion t = Fecha d"
  shows "\<exists>y. serializarPlantilla P t = Inr y \<and> leer y ''id'' = Num (idT t)
           \<and> se_construye P y
           \<and> campos_de_registro P y
               = (titulo t, mensaje t, hashtag t, categoria t, fecha_de P (Str (iso_de P d)))"
  using assms
  by (simp add: serializarPlantilla_def leer_def campos_de_registro_def se_construye_def)

text \<open>
  Claim C10, as the code has it. \<open>cargarPlantillas\<close> of a valid stored envelope returns
  one template for each entry whose creation date can be constructed. The identifier of
  the \<open>k\<close>-th of them is the number that the constructor generates then, the sum of
  \<open>Date.now()\<close> and \<open>Math.random()\<close> at that reading of the environment, and its other
  fields are those of the entry. The identifier stored in the entry is never read:
  changing it changes nothing in the result of the deserialization, and the identifier
  of the loaded template equals the stored one exactly when the sum generated at the
  load is that number. A template with a valid date is serialized with its identifier,
  its four texts and its date as \<open>toISOString\<close> writes it.
\<close>

theorem deserializarPlantilla_id_nuevo:
  assumes "almacen w STORAGE_KEY = Some s" and "s \<noteq> []" and "envoltorio P s = Some d"
  shows "(\<exists>a w'. cargarPlantillas P w = (Inr a, w')
            \<and> length (leer_arreglo w' a) = length (aceptadas P d)
            \<and> (\<forall>k < length (aceptadas P d).
                  idT (leer_arreglo w' a ! k)
                    = suma P (real_of_int (reloj P (lecturas w + k))) (azar P (lecturas w + k))
                  \<and> (leer (aceptadas P d ! k) ''id'' = Num (idT (leer_arreglo w' a ! k))
                     \<longleftrightarrow> leer (aceptadas P d ! k) ''id''
                           = Num (suma P (real_of_int (reloj P (lecturas w + k))) (azar P (lecturas w + k)))))
            \<and> map campos (leer_arreglo w' a) = map (campos_de_registro P) (aceptadas P d))
       \<and> deserializarPlantilla P (Obj ((str ''id'', v) # kvs)) w0
           = deserializarPlantilla P (Obj ((str ''id'', v') # kvs)) w0
       \<and> (fechaCreacion t = Fecha f \<longrightarrow>
            (\<exists>y. serializarPlantilla P t = Inr y \<and> leer y ''id'' = Num (idT t)
               \<and> se_construye P y
               \<and> campos_de_registro P y
                   = (titulo t, mensaje t, hashtag t, categoria t, fecha_de P (Str (iso_de P f)))))"
proof (intro conjI impI)
  from cargarPlantillas_valido [OF assms] obtain a w' where
    c: "cargarPlantillas P w = (Inr a, w')"
    and l: "leer_arreglo w' a = construidas P (lecturas w) (aceptadas P d)"
    by blast
  have "\<forall>k < length (aceptadas P d).
          idT (leer_arreglo w' a ! k)
            = suma P (real_of_int (reloj P (lecturas w + k))) (azar P (lecturas w + k))"
    unfolding l by (simp add: construidas_id)
  with c l show "\<exists>a w'. cargarPlantillas P w = (Inr a, w')
            \<and> length (leer_arreglo w' a) = length (aceptadas P d)
            \<and> (\<forall>k < length (aceptadas P d).
                  idT (leer_arreglo w' a ! k)
                    = suma P (real_of_int (reloj P (lecturas w + k))) (azar P (lecturas w + k))
                  \<and> (leer (aceptadas P d ! k) ''id'' = Num (idT (leer_arreglo w' a ! k))
                     \<longleftrightarrow> leer (aceptadas P d ! k) ''id''
                           = Num (suma P (real_of_int (reloj P (lecturas w + k))) (azar P (lecturas w + k)))))
            \<and> map campos (leer_arreglo w' a) = map (campos_de_registro P) (aceptadas P d)"
    by (simp add: construidas_campos)
next
  show "deserializarPlantilla P (Obj ((str ''id'', v) # kvs)) w0
           = deserializarPlantilla P (Obj ((str ''id'', v') # kvs)) w0"
    by (rule deserializarPlantilla_id)
next
  assume "fechaCreacion t = Fecha f"
  then show "\<exists>y. serializarPlantilla P t = Inr y \<and> leer y ''id'' = Num (idT t)
               \<and> se_construye P y
               \<and> campos_de_registro P y
                   = (titulo t, mensaje t, hashtag t, categoria t, fecha_de P (Str (iso_de P f)))"
    by (rule serializarPlantilla_registro)
qed

text \<open>
  Claim C10 as stated fails where it says that identifiers are never preserved: on a
  platform whose clock reads \<open>1000\<close> and whose \<open>Math.random()\<close> gives \<open>0.5\<close> at the load,
  the entry stored with the identifier \<open>1000.5\<close> is loaded with the identifier \<open>1000.5\<close>.
\<close>

theorem deserializarPlantilla_id_nuevo_counterexample:
  "json_parse plataforma_quieta (str ''<uno>'') = Some (envoltorio_de [registro_bueno])
   \<and> leer registro_bueno ''id'' = Num 1000.5
   \<and> map idT (leer_arreglo
        (snd (cargarPlantillas plataforma_quieta (pagina_de [(STORAGE_KEY, str ''<uno>'')])))
        (projr (fst (cargarPlantillas plataforma_quieta (pagina_de [(STORAGE_KEY, str ''<uno>'')])))))
       = [1000.5]"
  by (simp add: carga_defs)

text \<open>
  An instance of C10 as amended: on the example platform, whose clock reads \<open>1001\<close> at the
  load, the same entry is loaded with the identifier \<open>1001.5\<close> and its other fields.
\<close>

theorem deserializarPlantilla_id_nuevo_witness:
  "almacen (pagina_de [(STORAGE_KEY, str ''<uno>'')]) STORAGE_KEY = Some (str ''<uno>'')
   \<and> envoltorio plataforma_mixta (str ''<uno>'') = Some (envoltorio_de [registro_bueno])
   \<and> aceptadas plataforma_mixta (envoltorio_de [registro_bueno]) = [registro_bueno]
   \<and> leer registro_bueno ''id'' = Num 1000.5
   \<and> (\<exists>a w'. cargarPlantillas plataforma_mixta (pagina_de [(STORAGE_KEY, str ''<uno>'')]) = (Inr a, w')
             \<and> length (leer_arreglo w' a) = 1
             \<and> idT (leer_arreglo w' a ! 0) = 1001.5
             \<and> map campos (leer_arreglo w' a)
                 = [(Str (str ''Welcome''), Str (str ''Hi there''), Str (str ''#hi''), Str (str ''support''),
                     Fecha 7)])"
proof -
  let ?w = "pagina_de [(STORAGE_KEY, str ''<uno>'')]"
  have a: "almacen ?w STORAGE_KEY = Some (str ''<uno>'')"
    by (simp add: pagina_de_def Store_inicial_def)
  have n: "str ''<uno>'' \<noteq> []"
    by simp
  have e: "envoltorio plataforma_mixta (str ''<uno>'') = Some (envoltorio_de [registro_bueno])"
    by (simp add: carga_defs envoltorio_def forma_valida_def)
  have x: "aceptadas plataforma_mixta (envoltorio_de [registro_bueno]) = [registro_bueno]"
    by (simp add: carga_defs aceptadas_def se_construye_def)
  have i: "leer registro_bueno ''id'' = Num 1000.5"
    by (simp add: registro_bueno_def leer_def)
  have s: "suma plataforma_mixta (real_of_int (reloj plataforma_mixta (lecturas ?w + 0)))
             (azar plataforma_mixta (lecturas ?w + 0)) = 1001.5"
    by (simp add: carga_defs)
  have c: "map (campos_de_registro plataforma_mixta) [registro_bueno]
      = [(Str (str ''Welcome''), Str (str ''Hi there''), Str (str ''#hi''), Str (str ''support''), Fecha 7)]"
    by (simp add: carga_defs campos_de_registro_def)
  from deserializarPlantilla_id_nuevo [OF a n e, of Undefined "[]" ?w Undefined plantilla_ejemplo 7]
  obtain b w' where l: "cargarPlantillas plataforma_mixta ?w = (Inr b, w')"
    and "length (leer_arreglo w' b) = length (aceptadas plataforma_mixta (envoltorio_de [registro_bueno]))"
    and "\<forall>k < length (aceptadas plataforma_mixta (envoltorio_de [registro_bueno])).
           idT (leer_arreglo w' b ! k)
             = suma plataforma_mixta (real_of_int (reloj plataforma_mixta (lecturas ?w + k)))
                 (azar plataforma_mixta (lecturas ?w + k))
           \<and> (leer (aceptadas plataforma_mixta (envoltorio_de [registro_bueno]) ! k) ''id''
                 = Num (idT (leer_arreglo w' b ! k))
              \<longleftrightarrow> leer (aceptadas plataforma_mixta (envoltorio_de [registro_bueno]) ! k) ''id''
                    = Num (suma plataforma_mixta (real_of_int (reloj plataforma_mixta (lecturas ?w + k)))
                            (azar plataforma_mixta (lecturas ?w + k))))"
    and "map campos (leer_arreglo w' b)
           = map (campos_de_registro plataforma_mixta) (aceptadas plataforma_mixta (envoltorio_de [registro_bueno]))"
    by blast
  then have "length (leer_arreglo w' b) = 1" and "idT (leer_arreglo w' b ! 0) = 1001.5"
    and "map campos (leer_arreglo w' b)
           = [(Str (str ''Welcome''), Str (str ''Hi there''), Str (str ''#hi''), Str (str ''support''), Fecha 7)]"
    unfolding x c [symmetric] using s by simp_all
  with l have "\<exists>a w'. cargarPlantillas plataforma_mixta ?w = (Inr a, w')
             \<and> length (leer_arreglo w' a) = 1
             \<and> idT (leer_arreglo w' a ! 0) = 1001.5
             \<and> map campos (leer_arreglo w' a)
                 = [(Str (str ''Welcome''), Str (str ''Hi there''), Str (str ''#hi''), Str (str ''support''),
                     Fecha 7)]"
    by - (rule exI [of _ b], rule exI [of _ w'], simp)
  with a e x i show ?thesis
    by simp
qed

section \<open>Saving and loading\<close>

lemma mapear_serializar:
  assumes "\<forall>t \<in> set ps. \<exists>d. fechaCreacion t = Fecha d"
  shows "mapear (serializarPlantilla P) ps = Inr (map (\<lambda>t. projr (serializarPlantilla P t)) ps)"
  using assms by (induction ps) (auto simp: serializarPlantilla_def)

lemma mapear_serializar_error:
  assumes "t \<in> set ps" and "fechaCreacion t = FechaInvalida"
  shows "mapear (serializarPlantilla P) ps = Inl RangeError"
  using assms
  by (induction ps) (auto simp: serializarPlantilla_def split: sum.splits fecha.splits)

lemma obtenerCategorias_projr:
  "categorias_convertibles P ps \<Longrightarrow> obtenerCategorias P ps = Inr (projr (obtenerCategorias P ps))"
  using obtenerCategorias_isl [of P ps] by (cases "obtenerCategorias P ps") auto

lemma guardarPlantillas_exito:
  assumes "\<forall>t \<in> set ps. \<exists>d. fechaCreacion t = Fecha d" and "categorias_convertibles P ps"
    and "length (json_stringify P (envoltorio_guardado P w ps)) < MAX_STORAGE_SIZE"
  shows "fst (guardarPlantillas P ps w) = Inr True
       \<and> almacen (snd (guardarPlantillas P ps w)) STORAGE_KEY
           = Some (json_stringify P (envoltorio_guardado P w ps))
       \<and> mismo_store w (snd (guardarPlantillas P ps w))"
proof -
  from obtenerCategorias_projr [OF assms(2)] obtain cats where c: "obtenerCategorias P ps = Inr cats"
    by blast
  with assms(3) show ?thesis
    by (simp add: guardarPlantillas_def guardarPlantillas_try_def ahora_def mapear_serializar [OF assms(1)]
        envoltorio_guardado_def verificarTamanoStorage_def crearBackup_def mismo_store_def
        mostrarNotificacionPersistencia_def STORAGE_KEY_def BACKUP_KEY_def Let_def split: option.splits)
qed

lemma guardarPlantillas_techo:
  assumes "\<forall>t \<in> set ps. \<exists>d. fechaCreacion t = Fecha d" and "categorias_convertibles P ps"
    and "MAX_STORAGE_SIZE \<le> length (json_stringify P (envoltorio_guardado P w ps))"
  shows "guardarPlantillas P ps w
       = (Inr False, mostrarNotificacionPersistencia AvisoErrorGuardar ''error''
                       (registrar (ErrorLog DatosDemasiadoGrandes) (w\<lparr>lecturas := Suc (lecturas w)\<rparr>)))"
proof -
  from obtenerCategorias_projr [OF assms(2)] obtain cats where c: "obtenerCategorias P ps = Inr cats"
    by blast
  with assms(3) show ?thesis
    by (simp add: guardarPlantillas_def guardarPlantillas_try_def ahora_def mapear_serializar [OF assms(1)]
        envoltorio_guardado_def verificarTamanoStorage_def capturar_def Let_def)
qed

lemma guardarPlantillas_fecha:
  assumes "t \<in> set ps" and "fechaCreacion t = FechaInvalida"
  shows "guardarPlantillas P ps w
       = (Inr False, mostrarNotificacionPersistencia AvisoErrorGuardar ''error''
                       (registrar (ErrorLog RangeError) (w\<lparr>lecturas := Suc (lecturas w)\<rparr>)))"
  by (simp add: guardarPlantillas_def guardarPlantillas_try_def ahora_def
      mapear_serializar_error [OF assms] capturar_def Let_def)

lemma guardarPlantillas_categoria:
  assumes "\<forall>t \<in> set ps. \<exists>d. fechaCreacion t = Fecha d" and "\<not> categorias_convertibles P ps"
  shows "guardarPlantillas P ps w
       = (Inr False, mostrarNotificacionPersistencia AvisoErrorGuardar ''error''
                       (registrar (ErrorLog TypeError) (w\<lparr>lecturas := Suc (lecturas w)\<rparr>)))"
proof -
  from assms(2) obtenerCategorias_isl [of P ps] obtain e where e: "obtenerCategorias P ps = Inl e"
    by (cases "obtenerCategorias P ps") auto
  from obtenerCategorias_error [OF this] e show ?thesis
    by (simp add: guardarPlantillas_def guardarPlantillas_try_def ahora_def
        mapear_serializar [OF assms(1)] capturar_def Let_def)
qed

lemma registro_valido:
  assumes "esValida t" and "fechaCreacion t = Fecha d"
  shows "entrada_valida (projr (serializarPlantilla P t))
       \<and> se_construye P (projr (serializarPlantilla P t))
       \<and> campos_de_registro P (projr (serializarPlantilla P t))
           = (titulo t, mensaje t, hashtag t, categoria t, fecha_de P (Str (iso_de P d)))"
  using assms
  by (simp add: serializarPlantilla_def entrada_valida_def leer_def esValida_def campos_de_registro_def
      se_construye_def)

lemma envoltorio_guardado_forma:
  assumes "\<forall>t \<in> set ps. esValida t" and "\<forall>t \<in> set ps. \<exists>d. fechaCreacion t = Fecha d"
  shows "forma_valida (envoltorio_guardado P w ps)
       \<and> aceptadas P (envoltorio_guardado P w ps) = map (\<lambda>t. projr (serializarPlantilla P t)) ps"
proof -
  have "list_all entrada_valida (map (\<lambda>t. projr (serializarPlantilla P t)) ps)"
    using assms registro_valido by (fastforce simp: list_all_iff)
  moreover have "filter (se_construye P) (map (\<lambda>t. projr (serializarPlantilla P t)) ps)
      = map (\<lambda>t. projr (serializarPlantilla P t)) ps"
    using assms registro_valido by (fastforce simp: filter_id_conv)
  ultimately show ?thesis
    by (simp add: forma_valida_def envoltorio_guardado_def datosParaGuardar_def leer_def VERSION_def
        aceptadas_def)
qed

text \<open>
  Claim C6, as the code has it. Take templates that are all valid, whose creation dates
  are valid and are carried back by \<open>toISOString\<close> and \<open>new Date\<close>, and whose categories
  convert to property keys. If the JSON text of the envelope is shorter than the size
  ceiling, \<open>guardarPlantillas\<close> returns \<open>true\<close> and puts that text in the primary slot,
  and if moreover the text is not empty and is parsed back to the envelope,
  \<open>cargarPlantillas\<close> afterwards returns templates equal to the originals field by field
  (title, message, hashtag, category and creation date). If the JSON text reaches the
  size ceiling, \<open>guardarPlantillas\<close> returns \<open>false\<close> and leaves the storage as it was.
\<close>

theorem guardar_y_cargar:
  assumes "\<forall>t \<in> set ps. esValida t"
    and "\<forall>t \<in> set ps. \<exists>d. fechaCreacion t = Fecha d \<and> fecha_de P (Str (iso_de P d)) = Fecha d"
    and "categorias_convertibles P ps"
  shows "(length (json_stringify P (envoltorio_guardado P w ps)) < MAX_STORAGE_SIZE \<longrightarrow>
            fst (guardarPlantillas P ps w) = Inr True
          \<and> almacen (snd (guardarPlantillas P ps w)) STORAGE_KEY
              = Some (json_stringify P (envoltorio_guardado P w ps))
          \<and> (json_stringify P (envoltorio_guardado P w ps) \<noteq> []
               \<and> json_parse P (json_stringify P (envoltorio_guardado P w ps))
                   = Some (envoltorio_guardado P w ps) \<longrightarrow>
               (\<exists>a w'. cargarPlantillas P (snd (guardarPlantillas P ps w)) = (Inr a, w')
                  \<and> map campos (leer_arreglo w' a) = map campos ps)))
       \<and> (MAX_STORAGE_SIZE \<le> length (json_stringify P (envoltorio_guardado P w ps)) \<longrightarrow>
            fst (guardarPlantillas P ps w) = Inr False
          \<and> almacen (snd (guardarPlantillas P ps w)) = almacen w)"
proof (intro conjI impI)
  let ?E = "envoltorio_guardado P w ps"
  let ?w1 = "snd (guardarPlantillas P ps w)"
  from assms(2) have fechas: "\<forall>t \<in> set ps. \<exists>d. fechaCreacion t = Fecha d"
    by blast
  {
    assume "length (json_stringify P ?E) < MAX_STORAGE_SIZE"
    from guardarPlantillas_exito [OF fechas assms(3) this]
    show "fst (guardarPlantillas P ps w) = Inr True"
      and a: "almacen ?w1 STORAGE_KEY = Some (json_stringify P ?E)"
      by simp_all
    assume h: "json_stringify P ?E \<noteq> [] \<and> json_parse P (json_stringify P ?E) = Some ?E"
    from envoltorio_guardado_forma [OF assms(1) fechas, of P w]
    have f: "forma_valida ?E"
      and e: "aceptadas P ?E = map (\<lambda>t. projr (serializarPlantilla P t)) ps"
      by simp_all
    from f h have env: "envoltorio P (json_stringify P ?E) = Some ?E"
      by (simp add: envoltorio_def)
    from h have n: "json_stringify P ?E \<noteq> []"
      by simp
    from cargarPlantillas_valido [OF a n env]
    obtain r w' where c: "cargarPlantillas P ?w1 = (Inr r, w')"
      and r: "leer_arreglo w' r = construidas P (lecturas ?w1) (map (\<lambda>t. projr (serializarPlantilla P t)) ps)"
      unfolding e by blast
    have "campos_de_registro P (projr (serializarPlantilla P t)) = campos t" if "t \<in> set ps" for t
    proof -
      from that assms(2) obtain d where d: "fechaCreacion t = Fecha d" "fecha_de P (Str (iso_de P d)) = Fecha d"
        by blast
      from that assms(1) have "esValida t" by blast
      from registro_valido [OF this d(1), of P] d show ?thesis
        by (simp add: campos_def)
    qed
    then have "map (campos_de_registro P) (map (\<lambda>t. projr (serializarPlantilla P t)) ps) = map campos ps"
      by simp
    with c r show "\<exists>a w'. cargarPlantillas P ?w1 = (Inr a, w') \<and> map campos (leer_arreglo w' a) = map campos ps"
      by (simp add: construidas_campos)
  }
  {
    assume "MAX_STORAGE_SIZE \<le> length (json_stringify P ?E)"
    from guardarPlantillas_techo [OF fechas assms(3) this]
    show "fst (guardarPlantillas P ps w) = Inr False" and "almacen ?w1 = almacen w"
      by (simp_all add: mostrarNotificacionPersistencia_def registrar_def)
  }
qed

text \<open>
  Claim C6 as stated fails in three ways, each with one valid template.
  When the JSON text of the envelope reaches the size ceiling, \<open>guardarPlantillas\<close>
  returns \<open>false\<close> and writes nothing, and \<open>cargarPlantillas\<close> returns the default
  templates. Saving also returns \<open>false\<close> and writes nothing for a template whose date is
  invalid, and for a template whose category is an object that does not convert to a
  property key.
\<close>

theorem guardar_y_cargar_counterexample:
  "esValida plantilla_ejemplo
   \<and> fechaCreacion plantilla_ejemplo = Fecha 7
   \<and> length (json_stringify plataforma_grande (envoltorio_guardado plataforma_grande store_ejemplo [plantilla_ejemplo]))
       = 5242880
   \<and> fst (guardarPlantillas plataforma_grande [plantilla_ejemplo] store_ejemplo) = Inr False
   \<and> almacen (snd (guardarPlantillas plataforma_grande [plantilla_ejemplo] store_ejemplo)) STORAGE_KEY = None
   \<and> map textos (leer_arreglo
        (snd (cargarPlantillas plataforma_grande
                (snd (guardarPlantillas plataforma_grande [plantilla_ejemplo] store_ejemplo))))
        (projr (fst (cargarPlantillas plataforma_grande
                (snd (guardarPlantillas plataforma_grande [plantilla_ejemplo] store_ejemplo))))))
       = textos_default
   \<and> esValida (plantilla_ejemplo\<lparr>fechaCreacion := FechaInvalida\<rparr>)
   \<and> fst (guardarPlantillas plataforma_ejemplo [plantilla_ejemplo\<lparr>fechaCreacion := FechaInvalida\<rparr>]
        store_ejemplo) = Inr False
   \<and> almacen (snd (guardarPlantillas plataforma_ejemplo [plantilla_ejemplo\<lparr>fechaCreacion := FechaInvalida\<rparr>]
        store_ejemplo)) STORAGE_KEY = None
   \<and> esValida plantilla_rara
   \<and> fechaCreacion plantilla_rara = Fecha 7
   \<and> fst (guardarPlantillas plataforma_ejemplo [plantilla_rara] store_ejemplo) = Inr False
   \<and> almacen (snd (guardarPlantillas plataforma_ejemplo [plantilla_rara] store_ejemplo)) STORAGE_KEY = None"
  by (simp add: carga_defs plataforma_grande_def guardarPlantillas_def
      guardarPlantillas_try_def serializarPlantilla_def verificarTamanoStorage_def MAX_STORAGE_SIZE_def)

text \<open>
  An instance of C6 as amended: the example template, on a platform that writes the
  envelope as one fixed text and parses that text back.
\<close>

theorem guardar_y_cargar_witness:
  "esValida plantilla_ejemplo
   \<and> categorias_convertibles
        (plataforma_eco (envoltorio_guardado plataforma_ejemplo store_ejemplo [plantilla_ejemplo]))
        [plantilla_ejemplo]
   \<and> fst (guardarPlantillas (plataforma_eco (envoltorio_guardado plataforma_ejemplo store_ejemplo [plantilla_ejemplo]))
        [plantilla_ejemplo] store_ejemplo) = Inr True
   \<and> (\<exists>a w'. cargarPlantillas
                 (plataforma_eco (envoltorio_guardado plataforma_ejemplo store_ejemplo [plantilla_ejemplo]))
                 (snd (guardarPlantillas
                         (plataforma_eco (envoltorio_guardado plataforma_ejemplo store_ejemplo [plantilla_ejemplo]))
                         [plantilla_ejemplo] store_ejemplo)) = (Inr a, w')
             \<and> map campos (leer_arreglo w' a)
                 = [(Str (str ''Welcome''), Str (str ''Hi there''), Str (str ''#hi''), Str (str ''support''),
                     Fecha 7)])"
proof -
  let ?E = "envoltorio_guardado plataforma_ejemplo store_ejemplo [plantilla_ejemplo]"
  let ?P = "plataforma_eco ?E"
  have E: "envoltorio_guardado ?P store_ejemplo [plantilla_ejemplo] = ?E"
    by (simp add: plataforma_eco_def envoltorio_guardado_def datosParaGuardar_def serializarPlantilla_def
        obtenerCategorias_def clave_def plantilla_ejemplo_def plataforma_ejemplo_def contar_def)
  have v: "esValida plantilla_ejemplo"
    by (simp add: esValida_def plantilla_ejemplo_def)
  then have h1: "\<forall>t \<in> set [plantilla_ejemplo]. esValida t"
    by simp
  have h2: "\<forall>t \<in> set [plantilla_ejemplo]. \<exists>d. fechaCreacion t = Fecha d \<and> fecha_de ?P (Str (iso_de ?P d)) = Fecha d"
    by (simp add: plantilla_ejemplo_def plataforma_eco_def plataforma_ejemplo_def)
  have h3: "categorias_convertibles ?P [plantilla_ejemplo]"
    by (simp add: categorias_convertibles_def plantilla_ejemplo_def clave_def)
  have h4: "length (json_stringify ?P (envoltorio_guardado ?P store_ejemplo [plantilla_ejemplo])) < MAX_STORAGE_SIZE"
    by (simp add: plataforma_eco_def MAX_STORAGE_SIZE_def str_def)
  have h5: "json_stringify ?P (envoltorio_guardado ?P store_ejemplo [plantilla_ejemplo]) \<noteq> []
      \<and> json_parse ?P (json_stringify ?P (envoltorio_guardado ?P store_ejemplo [plantilla_ejemplo]))
      = Some (envoltorio_guardado ?P store_ejemplo [plantilla_ejemplo])"
    unfolding E by (simp add: plataforma_eco_def)
  have c: "map campos [plantilla_ejemplo]
      = [(Str (str ''Welcome''), Str (str ''Hi there''), Str (str ''#hi''), Str (str ''support''), Fecha 7)]"
    by (simp add: campos_def plantilla_ejemplo_def)
  from guardar_y_cargar [OF h1 h2 h3, of store_ejemplo] h4 h5
  have "fst (guardarPlantillas ?P [plantilla_ejemplo] store_ejemplo) = Inr True
     \<and> (\<exists>a w'. cargarPlantillas ?P (snd (guardarPlantillas ?P [plantilla_ejemplo] store_ejemplo)) = (Inr a, w')
             \<and> map campos (leer_arreglo w' a) = map campos [plantilla_ejemplo])"
    by blast
  with v h3 show ?thesis
    unfolding c by simp
qed

end
